theory Spec2Isabelle
  imports Main "HOL-Library.Sublist"
begin

section \<open>JavaScript strings\<close>

text \<open>
  Generated text is a \<^typ>\<open>string\<close>. A template literal is the concatenation of its
  pieces; \<open>NL\<close> is the line feed and \<open>SQ\<close> the single quote of the templates.
\<close>

definition NL :: string where
  "NL = [CHR 0x0A]"

definition SQ :: string where
  "SQ = [CHR 0x27]"

text \<open>\<open>Array.prototype.join\<close>: the empty array gives the empty string.\<close>

fun join :: "string \<Rightarrow> string list \<Rightarrow> string" where
  "join sep [] = []"
| "join sep [x] = x"
| "join sep (x # y # ys) = x @ sep @ join sep (y # ys)"

text \<open>\<open>str.split('\n')\<close>: always at least one piece.\<close>

fun split_nl :: "string \<Rightarrow> string list" where
  "split_nl [] = [[]]"
| "split_nl (c # cs) =
     (if c = CHR 0x0A then [] # split_nl cs
      else (case split_nl cs of [] \<Rightarrow> [[c]] | l # ls \<Rightarrow> (c # l) # ls))"

text \<open>
  What the generator can throw: a \<open>TypeError\<close> of the JavaScript runtime (a property read
  on \<open>undefined\<close>) and the \<open>Error\<close> that \<open>Model.argsTypes\<close> raises itself.
\<close>

datatype error = TypeError | Error string

text \<open>\<open>xs.map(f)\<close> where \<open>f\<close> may throw: the first exception aborts the whole map.\<close>

fun mapE :: "('a \<Rightarrow> error + 'b) \<Rightarrow> 'a list \<Rightarrow> error + 'b list" where
  "mapE f [] = Inr []"
| "mapE f (x # xs) =
     (case f x of
        Inl e \<Rightarrow> Inl e
      | Inr y \<Rightarrow> (case mapE f xs of Inl e \<Rightarrow> Inl e | Inr ys \<Rightarrow> Inr (y # ys)))"

section \<open>The schema model (DMMF) as the generator reads it\<close>

text \<open>
  The declarations of \<open>dmmf-types\<close> are not part of the sources at hand; the data types
  below carry exactly the properties that \<open>TSClient.ts\<close> reads. A \<open>type\<close> property is a
  string (a scalar or enum name) or an object with a \<open>name\<close> (an output type, input type
  or enum); the object graph is cyclic, so an object is represented by its name.
\<close>

datatype TypeRef = TypeName string | TypeObject string

text \<open>\<open>DMMF.Field\<close> / \<open>BaseField\<close>: a field of a model.\<close>

datatype BaseField = BaseField
  (name: string) (kind: string) (type: TypeRef) (isList: bool) (isRequired: bool)

datatype Model = Model (name: string) (fields: "BaseField list")

text \<open>\<open>DMMF.SchemaArgInputType\<close>: one candidate input shape of an argument.\<close>

datatype SchemaArgInputType = SchemaArgInputType
  (type: TypeRef) (kind: string) (isList: bool) (isRequired: bool) (isNullable: bool)

text \<open>
  What the property \<open>comment\<close> of an argument can hold. The schema gives a string or
  nothing. \<open>ArgsType.toTS\<close> assigns what a documentation function returns, and for an
  argument named like a member of \<open>Object.prototype\<close> that function is the inherited
  member, which can return a \<open>String\<close> object, a boolean or an object without the
  methods of a string (the table itself, a function).
\<close>

datatype JSValue = JSString string | JSStringObject string | JSBoolean bool | JSObject

text \<open>\<open>DMMF.SchemaArg\<close>; \<open>comment\<close> is optional, and \<open>None\<close> is \<open>undefined\<close>.\<close>

datatype SchemaArg = SchemaArg
  (name: string) (inputType: "SchemaArgInputType list") (comment: "JSValue option")

datatype SchemaFieldOutputType = SchemaFieldOutputType
  (type: TypeRef) (kind: string) (isList: bool) (isRequired: bool)

text \<open>
  \<open>ArgsType.toTS\<close> assigns to the \<open>comment\<close> of the argument objects it is given, and
  those objects are shared with the schema document. So the arguments of a schema field
  live in a store, and the field holds their addresses.
\<close>

type_synonym addr = nat

type_synonym store = "addr \<Rightarrow> SchemaArg"

text \<open>\<open>DMMF.SchemaField\<close>: a field of an output type.\<close>

datatype SchemaField = SchemaField
  (name: string) (outputType: SchemaFieldOutputType) (args: "addr list")

datatype OutputType = OutputType (name: string) (fields: "SchemaField list")

datatype InputType = InputType (name: string) (fields: "SchemaArg list")

datatype Enum = Enum (name: string) (enumValues: "string list")

text \<open>
  An entry of \<open>GraphQLScalarToJSTypeTable\<close> is a string or an array of strings
  (\<open>OutputField.toTS\<close> tests \<open>Array.isArray\<close> on it, \<open>InputField.toTS\<close> flattens it).
\<close>

datatype TableEntry = TsName string | TsNames "string list"

text \<open>
  \<open>Projection\<close> is an enum of \<open>./utils\<close>; its two members are printed into
  \<open>S['...']\<close>, where the payload template itself tests the keys \<open>include\<close> and
  \<open>select\<close>.
\<close>

datatype Projection = Projection_select | Projection_include

fun Projection_text :: "Projection \<Rightarrow> string" where
  "Projection_text Projection_select = ''select''"
| "Projection_text Projection_include = ''include''"

text \<open>The options object handed to \<open>getSelectReturnType\<close>.\<close>

datatype SelectReturnTypeOptions = SelectReturnTypeOptions
  (name: string) (actionName: string) (projection: Projection)
  (hideCondition: "bool option") (isField: "bool option")
  (renderPromise: "bool option") (fieldName: "string option")

text \<open>
  The functions that \<open>TSClient.ts\<close> imports from modules outside the sources at hand
  (\<open>./utils\<close>, \<open>../runtime/utils/common\<close>, \<open>indent-string\<close>, \<open>pluralize\<close>). Every
  generator below takes them as a parameter, so what is proved holds for any
  implementation of them.
\<close>

record helpers =
  indent :: "string \<Rightarrow> nat \<Rightarrow> string"
  GraphQLScalarToJSTypeTable :: "string \<Rightarrow> TableEntry option"
  capitalize :: "string \<Rightarrow> string"
  lowerCase :: "string \<Rightarrow> string"
  pluralize :: "string \<Rightarrow> string"
  getPayloadName :: "string \<Rightarrow> string"
  getSelectName :: "string \<Rightarrow> string"
  getIncludeName :: "string \<Rightarrow> string"
  getArgName :: "string \<Rightarrow> bool \<Rightarrow> string"
  getModelArgName :: "string \<Rightarrow> string option \<Rightarrow> string"
  getFieldArgName :: "SchemaField \<Rightarrow> string"
  getSelectReturnType :: "SelectReturnTypeOptions \<Rightarrow> string"

definition tab :: nat where
  "tab = 2"

section \<open>Leaf field emitter\<close>

text \<open>
  \<open>GraphQLScalarToJSTypeTable[t] || t\<close>: a missing entry and the empty string are falsy,
  an array is truthy.
\<close>

definition tableOr :: "helpers \<Rightarrow> string \<Rightarrow> TableEntry" where
  "tableOr h t =
     (case GraphQLScalarToJSTypeTable h t of
        None \<Rightarrow> TsName t
      | Some (TsName s) \<Rightarrow> (if s = [] then TsName t else TsName s)
      | Some (TsNames ss) \<Rightarrow> TsNames ss)"

text \<open>
  The first lines of \<open>OutputField.toTS\<close>: the type text of a field. A type that is not a
  string is read as \<open>field.type[0].name\<close>; an object has no property \<open>0\<close>, so that read
  throws. An array entry of the table is replaced by its first element, which is
  \<open>undefined\<close> for the empty array and then printed as such by the template.
\<close>

definition OutputField_fieldType :: "helpers \<Rightarrow> BaseField \<Rightarrow> error + string" where
  "OutputField_fieldType h field =
     (case BaseField.type field of
        TypeName t \<Rightarrow>
          (case tableOr h t of
             TsName s \<Rightarrow> Inr s
           | TsNames [] \<Rightarrow> Inr ''undefined''
           | TsNames (s # ss) \<Rightarrow> Inr s)
      | TypeObject n \<Rightarrow> Inl TypeError)"

definition OutputField_toTS :: "helpers \<Rightarrow> BaseField \<Rightarrow> error + string" where
  "OutputField_toTS h field =
     (case OutputField_fieldType h field of
        Inl e \<Rightarrow> Inl e
      | Inr fieldType \<Rightarrow>
          (let arrayStr = (if BaseField.isList field then ''[]'' else '''');
               nullableStr =
                 (if \<not> BaseField.isRequired field \<and> \<not> BaseField.isList field
                  then '' | null'' else '''')
           in Inr (BaseField.name field @ '': '' @ fieldType @ arrayStr @ nullableStr)))"

text \<open>\<open>PayloadType.wrapType\<close>, with the source's four branches in their order.\<close>

definition wrapType :: "SchemaField \<Rightarrow> string \<Rightarrow> string" where
  "wrapType field str =
     (let outputType = SchemaField.outputType field in
      if SchemaFieldOutputType.isRequired outputType \<and> \<not> SchemaFieldOutputType.isList outputType
      then str
      else if SchemaFieldOutputType.isList outputType then ''Array<'' @ str @ ''>''
      else if \<not> SchemaFieldOutputType.isRequired outputType then str @ '' | null''
      else str)"

text \<open>\<open>wrapComment\<close>.\<close>

definition wrapComment :: "string \<Rightarrow> string" where
  "wrapComment str =
     ''/**'' @ NL @ join NL (map (\<lambda>l. '' * '' @ l) (split_nl str)) @ NL @ ''**/''"

section \<open>Argument field emitter\<close>

text \<open>
  The callback of the \<open>flatMap\<close> in \<open>InputField.toTS\<close>: the type text of one candidate.
  \<open>flatMap\<close> flattens one level, so an array entry of the scalar table contributes each
  of its elements and every other result contributes itself.
\<close>

definition InputField_candidate :: "helpers \<Rightarrow> bool \<Rightarrow> SchemaArgInputType \<Rightarrow> TableEntry" where
  "InputField_candidate h prefixFilter t =
     (case SchemaArgInputType.type t of
        TypeName s \<Rightarrow> tableOr h s
      | TypeObject n \<Rightarrow> (if prefixFilter then TsName (''Base'' @ n) else TsName n))"

fun flatten :: "TableEntry \<Rightarrow> string list" where
  "flatten (TsName s) = [s]"
| "flatten (TsNames ss) = ss"

text \<open>\<open>hasNull\<close> is set when a callback result is the string \<open>null\<close>.\<close>

definition InputField_hasNull :: "helpers \<Rightarrow> bool \<Rightarrow> SchemaArgInputType list \<Rightarrow> bool" where
  "InputField_hasNull h prefixFilter ts =
     list_ex (\<lambda>t. InputField_candidate h prefixFilter t = TsName ''null'') ts"

definition InputField_union :: "helpers \<Rightarrow> bool \<Rightarrow> SchemaArgInputType list \<Rightarrow> string" where
  "InputField_union h prefixFilter ts =
     join '' | '' (concat (map (\<lambda>t. flatten (InputField_candidate h prefixFilter t)) ts))"

text \<open>
  \<open>field.comment ? wrapComment(field.comment) + '\n' : ''\<close> of \<open>InputField.toTS\<close>. An
  absent comment, the empty string and \<open>false\<close> are falsy; an object is truthy, also the
  \<open>String\<close> object of the empty string. \<open>wrapComment\<close> calls \<open>split\<close> on its argument,
  which a string and a \<open>String\<close> object have and nothing else here has.
\<close>

definition InputField_jsdoc :: "JSValue option \<Rightarrow> error + string" where
  "InputField_jsdoc c =
     (case c of
        None \<Rightarrow> Inr []
      | Some (JSString str) \<Rightarrow> Inr (if str = [] then [] else wrapComment str @ NL)
      | Some (JSStringObject str) \<Rightarrow> Inr (wrapComment str @ NL)
      | Some (JSBoolean b) \<Rightarrow> (if b then Inl TypeError else Inr [])
      | Some JSObject \<Rightarrow> Inl TypeError)"

text \<open>
  \<open>InputField.toTS\<close>. \<open>field.inputType\<close> is an array, so the \<open>Array.isArray\<close> branch is
  always taken; on the empty array \<open>field.inputType[0]\<close> is \<open>undefined\<close> and reading
  \<open>isRequired\<close> from it throws.
\<close>

definition InputField_toTS :: "helpers \<Rightarrow> bool \<Rightarrow> SchemaArg \<Rightarrow> error + string" where
  "InputField_toTS h prefixFilter field =
     (case SchemaArg.inputType field of
        [] \<Rightarrow> Inl TypeError
      | fieldInputType # rest \<Rightarrow>
          (let hasNull = InputField_hasNull h prefixFilter (SchemaArg.inputType field);
               fieldType0 = InputField_union h prefixFilter (SchemaArg.inputType field);
               optionalStr = (if SchemaArgInputType.isRequired fieldInputType then '''' else ''?'');
               fieldType =
                 (if SchemaArgInputType.isList fieldInputType
                  then ''Enumerable<'' @ fieldType0 @ ''>'' else fieldType0);
               nullableStr =
                 (if \<not> SchemaArgInputType.isRequired fieldInputType \<and> \<not> hasNull
                     \<and> SchemaArgInputType.isNullable fieldInputType
                  then '' | null'' else '''')
           in case InputField_jsdoc (SchemaArg.comment field) of
                Inl e \<Rightarrow> Inl e
              | Inr jsdoc \<Rightarrow>
                  Inr (jsdoc @ SchemaArg.name field @ optionalStr @ '': '' @ fieldType
                       @ nullableStr)))"

section \<open>Payload type emitter\<close>

text \<open>
  \<open>(t as DMMF.OutputType).name\<close> printed by a template: the name of an object, and
  \<open>undefined\<close> when \<open>t\<close> is a string.
\<close>

fun TypeRef_name :: "TypeRef \<Rightarrow> string" where
  "TypeRef_name (TypeObject n) = n"
| "TypeRef_name (TypeName s) = ''undefined''"

definition isRelation :: "SchemaField \<Rightarrow> bool" where
  "isRelation f = (SchemaFieldOutputType.kind (SchemaField.outputType f) = ''object'')"

text \<open>One entry of the \<open>relations.map\<close> in \<open>PayloadType.renderRelations\<close>.\<close>

definition renderRelation :: "helpers \<Rightarrow> Projection \<Rightarrow> SchemaField \<Rightarrow> string" where
  "renderRelation h proj f =
     ''P extends '' @ SQ @ SchemaField.name f @ SQ @ NL @ ''? ''
     @ wrapType f
         (getPayloadName h (TypeRef_name (SchemaFieldOutputType.type (SchemaField.outputType f)))
          @ ''<S['' @ SQ @ Projection_text proj @ SQ @ ''][P]>'')
     @ '' :''"

definition renderRelations :: "helpers \<Rightarrow> OutputType \<Rightarrow> Projection \<Rightarrow> string" where
  "renderRelations h typ proj =
     (let relations = filter isRelation (OutputType.fields typ) in
      if length relations = 0 \<and> proj = Projection_include then []
      else
        (let selectPrefix =
               (if proj = Projection_select
                then ''P extends keyof '' @ OutputType.name typ @ '' ? ''
                     @ OutputType.name typ @ ''[P]'' @ NL @ '': ''
                else [])
         in ''{'' @ NL
            @ ''      [P in TrueKeys<S['' @ SQ @ Projection_text proj @ SQ @ '']>]:''
            @ selectPrefix @ NL
            @ indent h (join NL (map (renderRelation h proj) relations)) 6
            @ '' never'' @ NL
            @ ''    }''))"

text \<open>\<open>PayloadType.toTS\<close>.\<close>

definition PayloadType_toTS :: "helpers \<Rightarrow> OutputType \<Rightarrow> string" where
  "PayloadType_toTS h typ =
     (let name = OutputType.name typ;
          argsName = getArgName h name False;
          include = renderRelations h typ Projection_include;
          select = renderRelations h typ Projection_select
      in ''export type '' @ getPayloadName h name @ ''<'' @ NL
         @ ''  S extends boolean | null | undefined | '' @ argsName @ '','' @ NL
         @ ''  U = keyof S'' @ NL
         @ ''> = S extends true'' @ NL
         @ ''  ? '' @ name @ NL
         @ ''  : S extends undefined'' @ NL
         @ ''  ? never'' @ NL
         @ ''  : S extends '' @ argsName @ '' | '' @ getModelArgName h name (Some ''findMany'') @ NL
         @ ''  ? '' @ SQ @ ''include'' @ SQ @ '' extends U'' @ NL
         @ ''    ? '' @ name @ '' '' @ (if length include > 0 then '' & '' @ include else []) @ NL
         @ ''  : '' @ SQ @ ''select'' @ SQ @ '' extends U'' @ NL
         @ ''    ? '' @ select @ NL
         @ ''  : '' @ name @ NL
         @ '': '' @ name @ NL)"

section \<open>Argument-set emitter\<close>

text \<open>
  The table \<open>topLevelArgsJsDocs\<close>: per action and argument name, the comment as a function
  of the singular and the plural of the model name: the keys that the tables have
  themselves.
\<close>

definition topLevelArgsJsDocs ::
  "string \<Rightarrow> (string \<Rightarrow> (string \<Rightarrow> string \<Rightarrow> string) option) option" where
  "topLevelArgsJsDocs action =
     (if action = ''findOne'' then Some (\<lambda>arg.
        if arg = ''where'' then Some (\<lambda>singular plural. ''Filter, which '' @ singular @ '' to fetch.'')
        else None)
      else if action = ''findMany'' then Some (\<lambda>arg.
        if arg = ''where'' then Some (\<lambda>singular plural. ''Filter, which '' @ plural @ '' to fetch.'')
        else if arg = ''orderBy'' then
          Some (\<lambda>singular plural. ''Determine the order of the '' @ plural @ '' to fetch.'')
        else if arg = ''skip'' then
          Some (\<lambda>singular plural. ''Skip the first `n` '' @ plural @ ''.'')
        else if arg = ''cursor'' then
          Some (\<lambda>singular plural. ''Sets the position for listing '' @ plural @ ''.'')
        else if arg = ''take'' then
          Some (\<lambda>singular plural. ''Get all '' @ plural @ '' that come after or before the ''
                 @ singular @ '' you provide with the current order.'')
        else None)
      else if action = ''create'' then Some (\<lambda>arg.
        if arg = ''data'' then
          Some (\<lambda>singular plural. ''The data needed to create a '' @ singular @ ''.'')
        else None)
      else if action = ''update'' then Some (\<lambda>arg.
        if arg = ''data'' then
          Some (\<lambda>singular plural. ''The data needed to update a '' @ singular @ ''.'')
        else if arg = ''where'' then
          Some (\<lambda>singular plural. ''Choose, which '' @ singular @ '' to update.'')
        else None)
      else if action = ''upsert'' then Some (\<lambda>arg.
        if arg = ''where'' then
          Some (\<lambda>singular plural. ''The filter to search for the '' @ singular
                 @ '' to update in case it exists.'')
        else if arg = ''create'' then
          Some (\<lambda>singular plural. ''In case the '' @ singular
                 @ '' found by the `where` argument doesn'' @ SQ @ ''t exist, create a new ''
                 @ singular @ '' with this data.'')
        else if arg = ''update'' then
          Some (\<lambda>singular plural. ''In case the '' @ singular
                 @ '' was found with the provided `where` argument, update it with this data.'')
        else None)
      else if action = ''delete'' then Some (\<lambda>arg.
        if arg = ''where'' then
          Some (\<lambda>singular plural. ''Filter which '' @ singular @ '' to delete.'')
        else None)
      else None)"

text \<open>
  A table of \<open>topLevelArgsJsDocs\<close> is an object literal, so a key that it does not have
  itself is looked up in \<open>Object.prototype\<close> of the JavaScript runtime, and the second
  index of \<open>topLevelArgsJsDocs[action][arg.name](singular, plural)\<close> finds the member of
  that name there. What the call of an inherited member does, with the table as \<open>this\<close>:
  \<^item> \<open>constructor\<close> is \<open>Object\<close>, which wraps its first argument in a \<open>String\<close> object;
  \<^item> \<open>toString\<close> and \<open>toLocaleString\<close> give the string \<open>[object Object]\<close>;
  \<^item> \<open>valueOf\<close> gives the table;
  \<^item> \<open>hasOwnProperty\<close> and \<open>propertyIsEnumerable\<close> tell whether the first argument is a
    key of the table, \<open>isPrototypeOf\<close> is \<open>false\<close> on a string;
  \<^item> \<open>__lookupGetter__\<close> and \<open>__lookupSetter__\<close> give \<open>undefined\<close>, the first argument
    naming no accessor, unless it is \<open>__proto__\<close>: then they give the accessor function of
    \<open>Object.prototype\<close>, an object that is no string;
  \<^item> \<open>__defineGetter__\<close> and \<open>__defineSetter__\<close> throw, their second argument being no
    function, and \<open>__proto__\<close> is an object and no function, so calling it throws.
\<close>

datatype inherited = NotInherited | Returns "JSValue option" | Throws

definition Object_prototype :: "(string \<Rightarrow> bool) \<Rightarrow> string \<Rightarrow> string \<Rightarrow> inherited" where
  "Object_prototype own key singular =
     (if key = ''constructor'' then Returns (Some (JSStringObject singular))
      else if key = ''toString'' \<or> key = ''toLocaleString''
        then Returns (Some (JSString ''[object Object]''))
      else if key = ''valueOf'' then Returns (Some JSObject)
      else if key = ''hasOwnProperty'' \<or> key = ''propertyIsEnumerable''
        then Returns (Some (JSBoolean (own singular)))
      else if key = ''isPrototypeOf'' then Returns (Some (JSBoolean False))
      else if key = ''__lookupGetter__'' \<or> key = ''__lookupSetter__''
        then Returns (if singular = ''__proto__'' then Some JSObject else None)
      else if key = ''__defineGetter__'' \<or> key = ''__defineSetter__'' \<or> key = ''__proto__''
        then Throws
      else NotInherited)"

text \<open>
  The body of the \<open>args.forEach\<close> of \<open>ArgsType.toTS\<close> for one argument: the argument as
  the loop leaves it. An absent (or empty) action skips the lookup. An action is a key of
  the enum \<open>DMMF.ModelAction\<close>; one without a table makes
  \<open>topLevelArgsJsDocs[action][arg.name]\<close> throw. An argument name without a function
  leaves the argument as it is, and otherwise the result of the call is assigned to
  \<open>arg.comment\<close>, whatever it is.
\<close>

definition setComment :: "string option \<Rightarrow> string \<Rightarrow> string \<Rightarrow> SchemaArg \<Rightarrow> error + SchemaArg" where
  "setComment action singular plural arg =
     (case action of
        None \<Rightarrow> Inr arg
      | Some a \<Rightarrow>
          (if a = [] then Inr arg
           else (case topLevelArgsJsDocs a of
                   None \<Rightarrow> Inl TypeError
                 | Some docs \<Rightarrow>
                     (case docs (SchemaArg.name arg) of
                        Some doc \<Rightarrow>
                          Inr (SchemaArg (SchemaArg.name arg) (SchemaArg.inputType arg)
                                 (Some (JSString (doc singular plural))))
                      | None \<Rightarrow>
                          (case Object_prototype (\<lambda>key. docs key \<noteq> None) (SchemaArg.name arg)
                                  singular of
                             NotInherited \<Rightarrow> Inr arg
                           | Returns v \<Rightarrow>
                               Inr (SchemaArg (SchemaArg.name arg) (SchemaArg.inputType arg) v)
                           | Throws \<Rightarrow> Inl TypeError)))))"

definition hasRelationField :: "Model \<Rightarrow> bool" where
  "hasRelationField model = list_ex (\<lambda>f. BaseField.kind f = ''object'') (Model.fields model)"

definition selectArg :: "helpers \<Rightarrow> string \<Rightarrow> SchemaArg" where
  "selectArg h nm =
     SchemaArg ''select''
       [SchemaArgInputType (TypeName (getSelectName h nm)) ''object'' False False True]
       (Some (JSString (''Select specific fields to fetch from the '' @ nm)))"

definition includeArg :: "helpers \<Rightarrow> string \<Rightarrow> SchemaArg" where
  "includeArg h nm =
     SchemaArg ''include''
       [SchemaArgInputType (TypeName (getIncludeName h nm)) ''object'' False False True]
       (Some (JSString ''Choose, which related nodes to fetch as well.''))"

text \<open>
  The list \<open>bothArgsOptional\<close> of \<open>ArgsType.toTS\<close> once the pushes are done; \<open>as\<close> are
  the arguments after the \<open>forEach\<close>.
\<close>

definition bothArgsOptional :: "helpers \<Rightarrow> Model \<Rightarrow> SchemaArg list \<Rightarrow> SchemaArg list" where
  "bothArgsOptional h model as =
     [selectArg h (Model.name model)]
     @ (if hasRelationField model then [includeArg h (Model.name model)] else [])
     @ as"

text \<open>The heading comment prints \<open>action ? action : 'without action'\<close>.\<close>

definition actionText :: "string option \<Rightarrow> string" where
  "actionText action =
     (case action of None \<Rightarrow> ''without action''
      | Some a \<Rightarrow> (if a = [] then ''without action'' else a))"

text \<open>The template shared by \<open>ArgsType.toTS\<close> and \<open>MinimalArgsType.toTS\<close>.\<close>

definition argsTypeText :: "helpers \<Rightarrow> string \<Rightarrow> string option \<Rightarrow> string list \<Rightarrow> string" where
  "argsTypeText h nm action members =
     NL @ ''/**'' @ NL
     @ '' * '' @ nm @ '' '' @ actionText action @ NL
     @ '' */'' @ NL
     @ ''export type '' @ getModelArgName h nm action @ '' = {'' @ NL
     @ indent h (join NL members) tab @ NL
     @ ''}'' @ NL"

text \<open>
  The \<open>args.forEach\<close> of \<open>ArgsType.toTS\<close> over the argument objects at the addresses
  \<open>as\<close>: each assignment is a write to the store, and an exception leaves the writes
  made before it.
\<close>

fun forEach_setComment ::
  "string option \<Rightarrow> string \<Rightarrow> string \<Rightarrow> addr list \<Rightarrow> store \<Rightarrow> store \<times> error option" where
  "forEach_setComment action singular plural [] \<sigma> = (\<sigma>, None)"
| "forEach_setComment action singular plural (a # as) \<sigma> =
     (case setComment action singular plural (\<sigma> a) of
        Inl e \<Rightarrow> (\<sigma>, Some e)
      | Inr arg \<Rightarrow> forEach_setComment action singular plural as (\<sigma>(a := arg)))"

text \<open>
  \<open>ArgsType.toTS\<close>: the store it leaves and the text, or the exception. The arguments
  pushed onto \<open>bothArgsOptional\<close> are the objects themselves, read after the loop.
\<close>

definition ArgsType_toTS ::
  "helpers \<Rightarrow> addr list \<Rightarrow> Model \<Rightarrow> string option \<Rightarrow> store \<Rightarrow> store \<times> (error + string)" where
  "ArgsType_toTS h as model action \<sigma> =
     (let name = Model.name model; singular = name; plural = pluralize h name in
      case forEach_setComment action singular plural as \<sigma> of
        (\<sigma>', Some e) \<Rightarrow> (\<sigma>', Inl e)
      | (\<sigma>', None) \<Rightarrow>
          (case mapE (InputField_toTS h False) (bothArgsOptional h model (map \<sigma>' as)) of
             Inl e \<Rightarrow> (\<sigma>', Inl e)
           | Inr members \<Rightarrow> (\<sigma>', Inr (argsTypeText h name action members))))"

text \<open>\<open>MinimalArgsType.toTS\<close>; it only reads the arguments.\<close>

definition MinimalArgsType_toTS ::
  "helpers \<Rightarrow> addr list \<Rightarrow> Model \<Rightarrow> string option \<Rightarrow> store \<Rightarrow> error + string" where
  "MinimalArgsType_toTS h as model action \<sigma> =
     (case mapE (InputField_toTS h False) (map \<sigma> as) of
        Inl e \<Rightarrow> Inl e
      | Inr members \<Rightarrow> Inr (argsTypeText h (Model.name model) action members))"

section \<open>Mappings and the schema class\<close>

text \<open>
  \<open>DMMF.Mapping\<close>: the properties \<open>model\<close> and \<open>plural\<close>, and in \<open>entries\<close> its other
  own properties in their order (the action keys and \<open>aggregate\<close>), each with a string
  value or \<open>null\<close>/\<open>undefined\<close>.
\<close>

datatype Mapping = Mapping
  (model: string) (plural: string) (entries: "(string \<times> string option) list")

text \<open>\<open>mapping[key]\<close>.\<close>

definition Mapping_get :: "Mapping \<Rightarrow> string \<Rightarrow> string option" where
  "Mapping_get m key =
     (if key = ''model'' then Some (Mapping.model m)
      else if key = ''plural'' then Some (Mapping.plural m)
      else (case map_of (Mapping.entries m) key of None \<Rightarrow> None | Some v \<Rightarrow> v))"

text \<open>\<open>Object.entries(mapping)\<close>.\<close>

definition Object_entries :: "Mapping \<Rightarrow> (string \<times> string option) list" where
  "Object_entries m =
     (''model'', Some (Mapping.model m)) # (''plural'', Some (Mapping.plural m)) # Mapping.entries m"

text \<open>A string value is truthy when it is present and not empty.\<close>

fun truthy :: "string option \<Rightarrow> bool" where
  "truthy None = False"
| "truthy (Some s) = (s \<noteq> [])"

text \<open>
  Modelled from the spec: the class \<open>DMMFClass\<close> of \<open>../runtime/dmmf\<close> is not part of the
  sources at hand. It is the schema document together with the lookups the generator
  uses: \<open>schema.enums\<close>, \<open>modelMap\<close>, \<open>outputTypeMap\<close>, \<open>mappings\<close>, \<open>inputTypes\<close>, and
  in \<open>rootFields\<close> the fields of the Query and Mutation types that \<open>getField\<close> searches
  (an action mapping names one of them; a name absent from the schema is the fatal schema
  inconsistency).
\<close>

datatype DMMFClass = DMMFClass
  (enums: "Enum list")
  (modelMap: "(string \<times> Model) list")
  (outputTypeMap: "(string \<times> OutputType) list")
  (mappings: "Mapping list")
  (inputTypes: "InputType list")
  (rootFields: "SchemaField list")

definition getField :: "DMMFClass \<Rightarrow> string \<Rightarrow> SchemaField option" where
  "getField dmmf fname = find (\<lambda>f. SchemaField.name f = fname) (rootFields dmmf)"

section \<open>The argument types of a model\<close>

text \<open>The two classes whose instances \<open>Model.argsTypes\<close> returns.\<close>

datatype Generatable =
    ArgsType "addr list" Model "string option"
  | MinimalArgsType "addr list" Model "string option"

text \<open>
  The loop \<open>for (const action in DMMF.ModelAction)\<close> of \<open>Model.argsTypes\<close>, over the keys
  of the enum in their order (the enum is declared in \<open>dmmf-types\<close>, so the keys are a
  parameter). A mapping without a truthy entry for the action is skipped; a field name
  that \<open>getField\<close> does not find throws.
\<close>

fun argsTypes_loop ::
  "DMMFClass \<Rightarrow> Mapping \<Rightarrow> Model \<Rightarrow> string list \<Rightarrow> error + Generatable list" where
  "argsTypes_loop dmmf mapping mdl [] = Inr []"
| "argsTypes_loop dmmf mapping mdl (action # rest) =
     (let fieldName = Mapping_get mapping action in
      if \<not> truthy fieldName then argsTypes_loop dmmf mapping mdl rest
      else
        (case getField dmmf (the fieldName) of
           None \<Rightarrow>
             Inl (Error (''Oops this must not happen. Could not find field '' @ the fieldName
                         @ '' on either Query or Mutation''))
         | Some field \<Rightarrow>
             (case argsTypes_loop dmmf mapping mdl rest of
                Inl e \<Rightarrow> Inl e
              | Inr argsTypes \<Rightarrow>
                  Inr ((if action = ''updateMany'' \<or> action = ''deleteMany''
                        then MinimalArgsType (SchemaField.args field) mdl (Some action)
                        else ArgsType (SchemaField.args field) mdl (Some action))
                       # argsTypes))))"

text \<open>
  The getter \<open>Model.argsTypes\<close>; \<open>mapping\<close> is what the constructor found in
  \<open>dmmf.mappings\<close>, if anything.
\<close>

definition Model_argsTypes ::
  "string list \<Rightarrow> DMMFClass \<Rightarrow> Mapping option \<Rightarrow> Model \<Rightarrow> error + Generatable list" where
  "Model_argsTypes ModelAction dmmf mapping mdl =
     (case mapping of
        None \<Rightarrow> Inr []
      | Some m \<Rightarrow>
          (case argsTypes_loop dmmf m mdl ModelAction of
             Inl e \<Rightarrow> Inl e
           | Inr argsTypes \<Rightarrow> Inr (argsTypes @ [ArgsType [] mdl None])))"

text \<open>\<open>TS(gen)\<close> on an element of \<open>argsTypes\<close>.\<close>

fun TS :: "helpers \<Rightarrow> Generatable \<Rightarrow> store \<Rightarrow> store \<times> (error + string)" where
  "TS h (ArgsType as mdl action) \<sigma> = ArgsType_toTS h as mdl action \<sigma>"
| "TS h (MinimalArgsType as mdl action) \<sigma> = (\<sigma>, MinimalArgsType_toTS h as mdl action \<sigma>)"

text \<open>\<open>argsTypes.map(TS)\<close>: left to right, the first exception ends it.\<close>

fun map_TS :: "helpers \<Rightarrow> Generatable list \<Rightarrow> store \<Rightarrow> store \<times> (error + string list)" where
  "map_TS h [] \<sigma> = (\<sigma>, Inr [])"
| "map_TS h (g # gs) \<sigma> =
     (case TS h g \<sigma> of
        (\<sigma>', Inl e) \<Rightarrow> (\<sigma>', Inl e)
      | (\<sigma>', Inr t) \<Rightarrow>
          (case map_TS h gs \<sigma>' of
             (\<sigma>'', Inl e) \<Rightarrow> (\<sigma>'', Inl e)
           | (\<sigma>'', Inr ts) \<Rightarrow> (\<sigma>'', Inr (t # ts))))"

section \<open>Delegate emitter\<close>

text \<open>
  \<open>getMethodJSDocBody\<close>. The \<open>switch\<close> has a case for each of the eight actions and no
  default, so any other action gives \<open>undefined\<close> (here \<open>None\<close>). \<open>mdl\<close> is
  \<open>dmmf.modelMap[name]\<close>; reading \<open>fields\<close> from \<open>undefined\<close> throws before the switch.
\<close>

definition getMethodJSDocBody ::
  "helpers \<Rightarrow> string \<Rightarrow> Mapping \<Rightarrow> Model option \<Rightarrow> error + string option" where
  "getMethodJSDocBody h action mapping mdl =
     (case mdl of
        None \<Rightarrow> Inl TypeError
      | Some m \<Rightarrow>
     (let singular = capitalize h (Mapping.model mapping);
          plural = capitalize h (Mapping.plural mapping);
          firstScalar = find (\<lambda>f. BaseField.kind f = ''scalar'') (Model.fields m);
          method = ''prisma.'' @ lowerCase h (Mapping.model mapping) @ ''.'' @ action;
          argName = getModelArgName h (Model.name m) (Some action)
      in
      if action = ''create'' then Inr (Some (join NL
        [''Create a '' @ singular @ ''.'',
         ''@param {'' @ argName @ ''} args - Arguments to create a '' @ singular @ ''.'',
         ''@example'',
         ''// Create one '' @ singular,
         ''const user = await '' @ method @ ''({'',
         ''  data: {'',
         ''    // ... data to create a '' @ singular,
         ''  }'',
         ''})'',
         '''']))
      else if action = ''delete'' then Inr (Some (join NL
        [''Delete a '' @ singular @ ''.'',
         ''@param {'' @ argName @ ''} args - Arguments to delete one '' @ singular @ ''.'',
         ''@example'',
         ''// Delete one '' @ singular,
         ''const user = await '' @ method @ ''({'',
         ''  where: {'',
         ''    // ... filter to delete one '' @ singular,
         ''  }'',
         ''})'',
         '''']))
      else if action = ''deleteMany'' then Inr (Some (join NL
        [''Delete zero or more '' @ plural @ ''.'',
         ''@param {'' @ argName @ ''} args - Arguments to filter '' @ plural @ '' to delete.'',
         ''@example'',
         ''// Delete a few '' @ plural,
         ''const { count } = await '' @ method @ ''({'',
         ''  where: {'',
         ''    // ... provide filter here'',
         ''  }'',
         ''})'',
         '''']))
      else if action = ''findMany'' then
        (let onlySelect =
           (case firstScalar of
              None \<Rightarrow> []
            | Some fs \<Rightarrow>
                NL @ ''// Only select the `'' @ BaseField.name fs @ ''`'' @ NL
                @ ''const '' @ lowerCase h (Mapping.model mapping) @ ''With''
                @ capitalize h (BaseField.name fs) @ ''Only = await '' @ method
                @ ''({ select: { '' @ BaseField.name fs @ '': true } })'')
         in Inr (Some (join NL
        [''Find zero or more '' @ plural @ ''.'',
         ''@param {'' @ argName @ ''=} args - Arguments to filter and select certain fields only.'',
         ''@example'',
         ''// Get all '' @ plural,
         ''const '' @ Mapping.plural mapping @ '' = await '' @ method @ ''()'',
         '''',
         ''// Get first 10 '' @ plural,
         ''const '' @ Mapping.plural mapping @ '' = await '' @ method @ ''({ first: 10 })'',
         onlySelect,
         ''''])))
      else if action = ''findOne'' then Inr (Some (join NL
        [''Find zero or one '' @ singular @ ''.'',
         ''@param {'' @ argName @ ''} args - Arguments to find a '' @ singular,
         ''@example'',
         ''// Get one '' @ singular,
         ''const '' @ lowerCase h (Mapping.model mapping) @ '' = await '' @ method @ ''({'',
         ''  where: {'',
         ''    // ... provide filter here'',
         ''  }'',
         ''})'']))
      else if action = ''update'' then Inr (Some (join NL
        [''Update one '' @ singular @ ''.'',
         ''@param {'' @ argName @ ''} args - Arguments to update one '' @ singular @ ''.'',
         ''@example'',
         ''// Update one '' @ singular,
         ''const '' @ lowerCase h (Mapping.model mapping) @ '' = await '' @ method @ ''({'',
         ''  where: {'',
         ''    // ... provide filter here'',
         ''  },'',
         ''  data: {'',
         ''    // ... provide data here'',
         ''  }'',
         ''})'',
         '''']))
      else if action = ''updateMany'' then Inr (Some (join NL
        [''Update zero or more '' @ plural @ ''.'',
         ''@param {'' @ argName @ ''} args - Arguments to update one or more rows.'',
         ''@example'',
         ''// Update many '' @ plural,
         ''const '' @ lowerCase h (Mapping.model mapping) @ '' = await '' @ method @ ''({'',
         ''  where: {'',
         ''    // ... provide filter here'',
         ''  },'',
         ''  data: {'',
         ''    // ... provide data here'',
         ''  }'',
         ''})'',
         '''']))
      else if action = ''upsert'' then Inr (Some (join NL
        [''Create or update one '' @ singular @ ''.'',
         ''@param {'' @ argName @ ''} args - Arguments to update or create a '' @ singular @ ''.'',
         ''@example'',
         ''// Update or create a '' @ singular,
         ''const '' @ lowerCase h (Mapping.model mapping) @ '' = await '' @ method @ ''({'',
         ''  create: {'',
         ''    // ... data to create a '' @ singular,
         ''  },'',
         ''  update: {'',
         ''    // ... in case it already exists, update'',
         ''  },'',
         ''  where: {'',
         ''    // ... the filter for the '' @ singular @ '' we want to update'',
         ''  }'',
         ''})'']))
      else Inr None))"

text \<open>
  \<open>getMethodJSDoc\<close>: \<open>wrapComment\<close> calls \<open>split\<close> on its argument, which throws on
  \<open>undefined\<close>.
\<close>

definition getMethodJSDoc ::
  "helpers \<Rightarrow> string \<Rightarrow> Mapping \<Rightarrow> Model option \<Rightarrow> error + string" where
  "getMethodJSDoc h action mapping mdl =
     (case getMethodJSDocBody h action mapping mdl of
        Inl e \<Rightarrow> Inl e
      | Inr None \<Rightarrow> Inl TypeError
      | Inr (Some body) \<Rightarrow> Inr (wrapComment body))"

text \<open>
  The entries of the mapping that \<open>ModelDelegate.toTS\<close> turns into operations: the filter
  on \<open>Object.entries(mapping)\<close>.
\<close>

definition ModelDelegate_actions :: "Mapping \<Rightarrow> (string \<times> string option) list" where
  "ModelDelegate_actions mapping =
     filter (\<lambda>(key, v). key \<noteq> ''model'' \<and> key \<noteq> ''plural'' \<and> key \<noteq> ''aggregate'' \<and> truthy v)
       (Object_entries mapping)"

text \<open>The text of one operation: the callback of \<open>actions.map\<close>.\<close>

definition ModelDelegate_method ::
  "helpers \<Rightarrow> string \<Rightarrow> Mapping \<Rightarrow> Model option \<Rightarrow> string \<Rightarrow> error + string" where
  "ModelDelegate_method h nm mapping mdl actionName' =
     (case getMethodJSDoc h actionName' mapping mdl of
        Inl e \<Rightarrow> Inl e
      | Inr doc \<Rightarrow>
          Inr (doc @ NL
               @ actionName' @ ''<T extends '' @ getModelArgName h nm (Some actionName') @ ''>('' @ NL
               @ ''  args'' @ (if actionName' = ''findMany'' then ''?'' else [])
               @ '': Subset<T, '' @ getModelArgName h nm (Some actionName') @ ''>'' @ NL
               @ ''): ''
               @ getSelectReturnType h
                   (SelectReturnTypeOptions nm actionName' Projection_select None None None None)))"

text \<open>The \<open>count\<close> operation that closes the delegate interface.\<close>

definition ModelDelegate_count :: "helpers \<Rightarrow> string \<Rightarrow> string" where
  "ModelDelegate_count h nm =
     ''  /**'' @ NL
     @ ''   * '' @ NL
     @ ''   */'' @ NL
     @ ''  count(args?: Omit<'' @ getModelArgName h nm (Some ''findMany'')
     @ '', '' @ SQ @ ''select'' @ SQ @ '' | '' @ SQ @ ''include'' @ SQ @ ''>): Promise<number>''"

text \<open>One relation accessor of the client class: the callback of the second \<open>map\<close>.\<close>

definition ModelDelegate_accessor :: "helpers \<Rightarrow> SchemaField \<Rightarrow> string" where
  "ModelDelegate_accessor h f =
     (let fieldTypeName = TypeRef_name (SchemaFieldOutputType.type (SchemaField.outputType f)) in
      NL @ SchemaField.name f @ ''<T extends '' @ getFieldArgName h f
      @ '' = {}>(args?: Subset<T, '' @ getFieldArgName h f @ ''>): ''
      @ getSelectReturnType h
          (SelectReturnTypeOptions fieldTypeName
             (if SchemaFieldOutputType.isList (SchemaField.outputType f)
              then ''findMany'' else ''findOne'')
             Projection_select (Some False) (Some True) (Some True) (Some (SchemaField.name f)))
      @ '';'')"

text \<open>The fixed lines of the client class, before and after the accessors.\<close>

definition clientClassHead :: "string \<Rightarrow> string" where
  "clientClassHead nm = join NL
     [''export declare class '' @ nm @ ''Client<T> implements Promise<T> {'',
      ''  private readonly _dmmf;'',
      ''  private readonly _fetcher;'',
      ''  private readonly _queryType;'',
      ''  private readonly _rootField;'',
      ''  private readonly _clientMethod;'',
      ''  private readonly _args;'',
      ''  private readonly _dataPath;'',
      ''  private readonly _errorFormat;'',
      ''  private readonly _measurePerformance?;'',
      ''  private _isList;'',
      ''  private _callsite;'',
      ''  private _requestPromise?;'',
      ''  private _collectTimestamps?;'',
      ''  constructor(_dmmf: DMMFClass, _fetcher: PrismaClientFetcher, _queryType: ''
        @ SQ @ ''query'' @ SQ @ '' | '' @ SQ @ ''mutation'' @ SQ
        @ '', _rootField: string, _clientMethod: string, _args: any, _dataPath: string[], ''
        @ ''_errorFormat: ErrorFormat, _measurePerformance?: boolean | undefined, _isList?: boolean);'',
      ''  readonly [Symbol.toStringTag]: '' @ SQ @ ''PrismaClientPromise'' @ SQ @ '';'']"

definition clientClassTail :: string where
  "clientClassTail = join NL
     ['''',
      ''  private get _document();'',
      ''  /**'',
      ''   * Attaches callbacks for the resolution and/or rejection of the Promise.'',
      ''   * @param onfulfilled The callback to execute when the Promise is resolved.'',
      ''   * @param onrejected The callback to execute when the Promise is rejected.'',
      ''   * @returns A Promise for the completion of which ever callback is executed.'',
      ''   */'',
      ''  then<TResult1 = T, TResult2 = never>(onfulfilled?: ((value: T) => TResult1 | ''
        @ ''Promise<TResult1>) | undefined | null, onrejected?: ((reason: any) => TResult2 | ''
        @ ''Promise<TResult2>) | undefined | null): Promise<TResult1 | TResult2>;'',
      ''  /**'',
      ''   * Attaches a callback for only the rejection of the Promise.'',
      ''   * @param onrejected The callback to execute when the Promise is rejected.'',
      ''   * @returns A Promise for the completion of the callback.'',
      ''   */'',
      ''  catch<TResult = never>(onrejected?: ((reason: any) => TResult | ''
        @ ''Promise<TResult>) | undefined | null): Promise<T | TResult>;'',
      ''  /**'',
      ''   * Attaches a callback that is invoked when the Promise is settled (fulfilled or ''
        @ ''rejected). The'',
      ''   * resolved value cannot be modified from the callback.'',
      ''   * @param onfinally The callback to execute when the Promise is settled (fulfilled ''
        @ ''or rejected).'',
      ''   * @returns A Promise for the completion of the callback.'',
      ''   */'',
      ''  finally(onfinally?: (() => void) | undefined | null): Promise<T>;'',
      ''}'']"

text \<open>
  \<open>ModelDelegate.toTS\<close>: empty when \<open>dmmf.mappings\<close> has no mapping for the type's name,
  otherwise the interface (the operations, then \<open>count\<close>) and the client class.
\<close>

definition ModelDelegate_toTS :: "helpers \<Rightarrow> DMMFClass \<Rightarrow> OutputType \<Rightarrow> error + string" where
  "ModelDelegate_toTS h dmmf ot =
     (let nm = OutputType.name ot in
      case find (\<lambda>m. Mapping.model m = nm) (mappings dmmf) of
        None \<Rightarrow> Inr []
      | Some mapping \<Rightarrow>
          (let mdl = map_of (modelMap dmmf) nm;
               actions = ModelDelegate_actions mapping
           in case mapE (\<lambda>(actionName', v). ModelDelegate_method h nm mapping mdl actionName') actions of
                Inl e \<Rightarrow> Inl e
              | Inr methods \<Rightarrow>
                  Inr (''export interface '' @ nm @ ''Delegate {'' @ NL
                       @ indent h (join NL methods) tab @ NL
                       @ ModelDelegate_count h nm @ NL
                       @ ''}'' @ NL
                       @ NL
                       @ clientClassHead nm @ NL
                       @ indent h
                           (join NL (map (ModelDelegate_accessor h)
                                       (filter isRelation (OutputType.fields ot)))) 2
                       @ NL
                       @ clientClassTail)))"

section \<open>Per-model section\<close>

text \<open>The body of the plain value type: the model's fields that are not relations.\<close>

definition Model_valueType :: "helpers \<Rightarrow> Model \<Rightarrow> error + string" where
  "Model_valueType h mdl =
     (case mapE (OutputField_toTS h)
             (filter (\<lambda>f. BaseField.kind f \<noteq> ''object'') (Model.fields mdl)) of
        Inl e \<Rightarrow> Inl e
      | Inr members \<Rightarrow>
          Inr (''export type '' @ Model.name mdl @ '' = {'' @ NL
               @ indent h (join NL members) tab @ NL
               @ ''}''))"

text \<open>One member of the select and include shapes.\<close>

definition selectMember :: "helpers \<Rightarrow> SchemaField \<Rightarrow> string" where
  "selectMember h f =
     SchemaField.name f @ ''?: boolean''
     @ (if isRelation f then '' | '' @ getFieldArgName h f else [])"

definition Model_selectType :: "helpers \<Rightarrow> Model \<Rightarrow> OutputType \<Rightarrow> string" where
  "Model_selectType h mdl ot =
     ''export type '' @ getSelectName h (Model.name mdl) @ '' = {'' @ NL
     @ indent h (join NL (map (selectMember h) (OutputType.fields ot))) tab @ NL
     @ ''}''"

definition Model_includeType :: "helpers \<Rightarrow> Model \<Rightarrow> OutputType \<Rightarrow> string" where
  "Model_includeType h mdl ot =
     (if hasRelationField mdl
      then NL @ ''export type '' @ getIncludeName h (Model.name mdl) @ '' = {'' @ NL
           @ indent h (join NL (map (selectMember h) (filter isRelation (OutputType.fields ot)))) tab
           @ NL @ ''}'' @ NL
      else [])"

text \<open>
  \<open>new Model(model, dmmf).toTS()\<close>. The constructor wraps \<open>dmmf.outputTypeMap[model.name]\<close>
  in an \<open>OutputType\<close>, which reads \<open>name\<close> from it and so throws when the map has no such
  type; it also looks the mapping up. The template then evaluates its holes from top to
  bottom; only the last one, \<open>this.argsTypes.map(TS)\<close>, writes to the store.
\<close>

definition Model_toTS ::
  "helpers \<Rightarrow> string list \<Rightarrow> DMMFClass \<Rightarrow> Model \<Rightarrow> store \<Rightarrow> store \<times> (error + string)" where
  "Model_toTS h ModelAction dmmf mdl \<sigma> =
     (case map_of (outputTypeMap dmmf) (Model.name mdl) of
        None \<Rightarrow> (\<sigma>, Inl TypeError)
      | Some ot \<Rightarrow>
     (let mapping = find (\<lambda>m. Mapping.model m = Model.name mdl) (mappings dmmf);
          includeType = Model_includeType h mdl ot
      in case Model_valueType h mdl of
        Inl e \<Rightarrow> (\<sigma>, Inl e)
      | Inr valueType \<Rightarrow>
     (case ModelDelegate_toTS h dmmf ot of
        Inl e \<Rightarrow> (\<sigma>, Inl e)
      | Inr delegate \<Rightarrow>
     (case Model_argsTypes ModelAction dmmf mapping mdl of
        Inl e \<Rightarrow> (\<sigma>, Inl e)
      | Inr argsTypes \<Rightarrow>
     (case map_TS h argsTypes \<sigma> of
        (\<sigma>', Inl e) \<Rightarrow> (\<sigma>', Inl e)
      | (\<sigma>', Inr texts) \<Rightarrow>
          (\<sigma>', Inr (NL @ ''/**'' @ NL
                     @ '' * Model '' @ Model.name mdl @ NL
                     @ '' */'' @ NL
                     @ NL
                     @ valueType @ NL
                     @ NL
                     @ Model_selectType h mdl ot @ NL
                     @ includeType @ NL
                     @ PayloadType_toTS h ot @ NL
                     @ NL
                     @ delegate @ NL
                     @ NL
                     @ ''// Custom InputTypes'' @ NL
                     @ join NL texts @ NL)))))))"

section \<open>Input types and enums\<close>

text \<open>
  Modelled from the spec: \<open>uniqueBy\<close> of \<open>../runtime/utils/uniqueBy\<close> is not part of the
  sources at hand. The spec has the fields of an input type deduplicated by name, where
  only the first occurrence of a name survives and later ones are discarded.
\<close>

fun uniqueBy_from :: "string list \<Rightarrow> 'a list \<Rightarrow> ('a \<Rightarrow> string) \<Rightarrow> 'a list" where
  "uniqueBy_from seen [] callee = []"
| "uniqueBy_from seen (x # xs) callee =
     (if callee x \<in> set seen then uniqueBy_from seen xs callee
      else x # uniqueBy_from (callee x # seen) xs callee)"

definition uniqueBy :: "'a list \<Rightarrow> ('a \<Rightarrow> string) \<Rightarrow> 'a list" where
  "uniqueBy arr callee = uniqueBy_from [] arr callee"

text \<open>\<open>InputType.toTS\<close>.\<close>

definition InputType_toTS :: "helpers \<Rightarrow> InputType \<Rightarrow> error + string" where
  "InputType_toTS h typ =
     (let fields = uniqueBy (InputType.fields typ) SchemaArg.name in
      case mapE (InputField_toTS h False) fields of
        Inl e \<Rightarrow> Inl e
      | Inr members \<Rightarrow>
          (let body = ''{'' @ NL @ indent h (join NL members) tab @ NL @ ''}''
           in Inr (NL @ ''export type '' @ InputType.name typ @ '' = '' @ body)))"

text \<open>\<open>Enum.toTS\<close> and \<open>Enum.toJS\<close>.\<close>

definition Enum_members :: "helpers \<Rightarrow> Enum \<Rightarrow> string" where
  "Enum_members h typ =
     indent h (join ('','' @ NL) (map (\<lambda>v. v @ '': '' @ SQ @ v @ SQ) (Enum.enumValues typ))) tab"

definition Enum_toTS :: "helpers \<Rightarrow> Enum \<Rightarrow> string" where
  "Enum_toTS h typ =
     ''export declare const '' @ Enum.name typ @ '': {'' @ NL
     @ Enum_members h typ @ NL
     @ ''};'' @ NL
     @ NL
     @ ''export declare type '' @ Enum.name typ @ '' = (typeof '' @ Enum.name typ
     @ '')[keyof typeof '' @ Enum.name typ @ '']'' @ NL"

definition Enum_toJS :: "helpers \<Rightarrow> Enum \<Rightarrow> string" where
  "Enum_toJS h typ =
     ''exports.'' @ Enum.name typ @ '' = makeEnum({'' @ NL
     @ Enum_members h typ @ NL
     @ ''});''"

section \<open>Document assembler\<close>

text \<open>
  The sections of \<open>TSClient.toTS\<close>. The models are emitted one after the other, each on
  the store the previous one left; the first exception ends the emission.
\<close>

definition enumsSection :: "helpers \<Rightarrow> DMMFClass \<Rightarrow> string" where
  "enumsSection h dmmf = join (NL @ NL) (map (Enum_toTS h) (enums dmmf))"

fun map_Model_toTS ::
  "helpers \<Rightarrow> string list \<Rightarrow> DMMFClass \<Rightarrow> Model list \<Rightarrow> store \<Rightarrow> store \<times> (error + string list)" where
  "map_Model_toTS h ModelAction dmmf [] \<sigma> = (\<sigma>, Inr [])"
| "map_Model_toTS h ModelAction dmmf (m # ms) \<sigma> =
     (case Model_toTS h ModelAction dmmf m \<sigma> of
        (\<sigma>', Inl e) \<Rightarrow> (\<sigma>', Inl e)
      | (\<sigma>', Inr t) \<Rightarrow>
          (case map_Model_toTS h ModelAction dmmf ms \<sigma>' of
             (\<sigma>'', Inl e) \<Rightarrow> (\<sigma>'', Inl e)
           | (\<sigma>'', Inr ts) \<Rightarrow> (\<sigma>'', Inr (t # ts))))"

definition modelsSection ::
  "helpers \<Rightarrow> string list \<Rightarrow> DMMFClass \<Rightarrow> store \<Rightarrow> store \<times> (error + string)" where
  "modelsSection h ModelAction dmmf \<sigma> =
     (case map_Model_toTS h ModelAction dmmf (map snd (modelMap dmmf)) \<sigma> of
        (\<sigma>', Inl e) \<Rightarrow> (\<sigma>', Inl e)
      | (\<sigma>', Inr ts) \<Rightarrow> (\<sigma>', Inr (join NL ts)))"

definition inputTypesSection :: "helpers \<Rightarrow> DMMFClass \<Rightarrow> error + string" where
  "inputTypesSection h dmmf =
     (case mapE (InputType_toTS h) (inputTypes dmmf) of
        Inl e \<Rightarrow> Inl e
      | Inr ts \<Rightarrow> Inr (join NL ts))"

definition batchPayloadSection :: string where
  "batchPayloadSection = join NL
     [''/**'',
      '' * Batch Payload for updateMany & deleteMany'',
      '' */'',
      '''',
      ''export type BatchPayload = {'',
      ''  count: number'',
      ''}'']"

text \<open>
  \<open>TSClient.toTS\<close> on the client's own schema \<open>dmmf\<close>. The two leading holes of the
  template, \<open>commonCodeTS(this.options)\<close> and \<open>new PrismaClientClass(...).toTS()\<close>, are the
  fixed header; their text is a parameter (the second reads \<open>dmmf.mappings[0]\<close> and can
  throw, which ends the emission before any section).
\<close>

definition TSClient_toTS ::
  "helpers \<Rightarrow> string list \<Rightarrow> string \<Rightarrow> error + string \<Rightarrow> DMMFClass \<Rightarrow> store
     \<Rightarrow> store \<times> (error + string)" where
  "TSClient_toTS h ModelAction commonCodeTS prismaClientClass dmmf \<sigma> =
     (case prismaClientClass of
        Inl e \<Rightarrow> (\<sigma>, Inl e)
      | Inr clientClass \<Rightarrow>
     (case modelsSection h ModelAction dmmf \<sigma> of
        (\<sigma>', Inl e) \<Rightarrow> (\<sigma>', Inl e)
      | (\<sigma>', Inr models) \<Rightarrow>
     (case inputTypesSection h dmmf of
        Inl e \<Rightarrow> (\<sigma>', Inl e)
      | Inr inputs \<Rightarrow>
          (\<sigma>', Inr (commonCodeTS @ NL
                     @ NL
                     @ ''/**'' @ NL
                     @ '' * Client'' @ NL
                     @ ''**/'' @ NL
                     @ NL
                     @ clientClass @ NL
                     @ NL
                     @ NL
                     @ NL
                     @ ''/**'' @ NL
                     @ '' * Enums'' @ NL
                     @ '' */'' @ NL
                     @ NL
                     @ ''// Based on'' @ NL
                     @ ''// https://github.com/microsoft/TypeScript/issues/3192#issuecomment-261720275''
                     @ NL
                     @ NL
                     @ enumsSection h dmmf @ NL
                     @ NL
                     @ models @ NL
                     @ NL
                     @ ''/**'' @ NL
                     @ '' * Deep Input Types'' @ NL
                     @ '' */'' @ NL
                     @ NL
                     @ inputs @ NL
                     @ NL
                     @ batchPayloadSection @ NL
                     @ NL
                     @ ''/**'' @ NL
                     @ '' * DMMF'' @ NL
                     @ '' */'' @ NL
                     @ ''export declare const dmmf: DMMF.Document;'' @ NL
                     @ ''export {};'' @ NL)))))"

section \<open>The generator object and its copy of the schema\<close>

text \<open>
  Objects are allocated in the store at the next free address, so a heap is a store
  together with that address.
\<close>

type_synonym heap = "store \<times> addr"

text \<open>
  Modelled from the spec: \<open>klona\<close> is the deep-clone library the constructor calls on the
  schema document; the spec has the generator work on a single independent deep copy.
  Every argument object reached from the document is copied to a fresh address; strings,
  flags and lists are values here and need no copy.
\<close>

fun klona_args :: "addr list \<Rightarrow> heap \<Rightarrow> addr list \<times> heap" where
  "klona_args [] hp = ([], hp)"
| "klona_args (a # as) (\<sigma>, n) =
     (case klona_args as (\<sigma>(n := \<sigma> a), Suc n) of (as', hp') \<Rightarrow> (n # as', hp'))"

fun klona_fields :: "SchemaField list \<Rightarrow> heap \<Rightarrow> SchemaField list \<times> heap" where
  "klona_fields [] hp = ([], hp)"
| "klona_fields (f # fs) hp =
     (case klona_args (SchemaField.args f) hp of
        (as', hp') \<Rightarrow>
          (case klona_fields fs hp' of
             (fs', hp'') \<Rightarrow>
               (SchemaField (SchemaField.name f) (SchemaField.outputType f) as' # fs', hp'')))"

fun klona_types ::
  "(string \<times> OutputType) list \<Rightarrow> heap \<Rightarrow> (string \<times> OutputType) list \<times> heap" where
  "klona_types [] hp = ([], hp)"
| "klona_types ((k, t) # ts) hp =
     (case klona_fields (OutputType.fields t) hp of
        (fs', hp') \<Rightarrow>
          (case klona_types ts hp' of
             (ts', hp'') \<Rightarrow> ((k, OutputType (OutputType.name t) fs') # ts', hp'')))"

definition klona :: "DMMFClass \<Rightarrow> heap \<Rightarrow> DMMFClass \<times> heap" where
  "klona doc hp =
     (case klona_types (outputTypeMap doc) hp of
        (ts', hp') \<Rightarrow>
          (case klona_fields (rootFields doc) hp' of
             (fs', hp'') \<Rightarrow>
               (DMMFClass (enums doc) (modelMap doc) ts' (mappings doc) (inputTypes doc) fs',
                hp'')))"

text \<open>\<open>escapeJson\<close>: each of the three \<open>replace\<close> calls doubles the backslash of one escape.\<close>

fun escapeOne :: "char \<Rightarrow> string \<Rightarrow> string" where
  "escapeOne c (a # b # rest) =
     (if a = CHR 0x5C \<and> b = c then [CHR 0x5C, CHR 0x5C, c] @ escapeOne c rest
      else a # escapeOne c (b # rest))"
| "escapeOne c s = s"

definition escapeJson :: "string \<Rightarrow> string" where
  "escapeJson str = escapeOne CHR ''t'' (escapeOne CHR ''r'' (escapeOne CHR ''n'' str))"

text \<open>
  What the generator reads from its options besides the schema document, and what it
  calls outside this file: the two header templates, \<open>PrismaClientClass.toTS\<close>, and
  \<open>JSON.stringify\<close> on the document, on a string and on the configuration object.
\<close>

record environment =
  commonCodeJS :: string
  commonCodeTS :: string
  prismaClientClass :: "DMMFClass \<Rightarrow> error + string"
  stringifyDocument :: "DMMFClass \<Rightarrow> store \<Rightarrow> string"
  stringifyString :: "string \<Rightarrow> string"
  configJson :: string
  platforms :: "string list option"
  ModelAction :: "string list"

text \<open>
  The fields of a \<open>TSClient\<close>: the caller's document (in \<open>this.options\<close>), \<open>dmmfString\<close>
  and \<open>dmmf\<close>.
\<close>

datatype TSClient = TSClient (document: DMMFClass) (dmmfString: string) (dmmf: DMMFClass)

text \<open>
  The constructor. \<open>new DMMFClass(...)\<close> is handed the copy and nothing else; the class
  is the document with its lookups, so the copy is the client's \<open>dmmf\<close>.
\<close>

definition TSClient_new :: "environment \<Rightarrow> DMMFClass \<Rightarrow> heap \<Rightarrow> TSClient \<times> heap" where
  "TSClient_new env doc hp =
     (let str = escapeJson (stringifyDocument env doc (fst hp)) in
      case klona doc hp of (copy, hp') \<Rightarrow> (TSClient doc str copy, hp'))"

text \<open>\<open>TSClient.toJS\<close>; it reads and writes nothing in the store.\<close>

definition TSClient_toJS :: "helpers \<Rightarrow> environment \<Rightarrow> TSClient \<Rightarrow> string" where
  "TSClient_toJS h env client =
     commonCodeJS env @ NL
     @ NL
     @ ''/**'' @ NL
     @ '' * Build tool annotations'' @ NL
     @ '' * In order to make `ncc` and `node-file-trace` happy.'' @ NL
     @ ''**/'' @ NL
     @ NL
     @ (case platforms env of
          None \<Rightarrow> []
        | Some ps \<Rightarrow>
            join NL (map (\<lambda>p. ''path.join(__dirname, '' @ SQ @ ''query-engine-'' @ p @ SQ @ '');'') ps))
     @ NL
     @ NL
     @ ''/**'' @ NL
     @ '' * Annotation for Vercel'' @ NL
     @ ''**/'' @ NL
     @ ''path.join(__dirname, '' @ SQ @ ''schema.prisma'' @ SQ @ '');'' @ NL
     @ NL
     @ ''/**'' @ NL
     @ '' * Enums'' @ NL
     @ '' */'' @ NL
     @ ''// Based on'' @ NL
     @ ''// https://github.com/microsoft/TypeScript/issues/3192#issuecomment-261720275'' @ NL
     @ ''function makeEnum(x) { return x; }'' @ NL
     @ NL
     @ join (NL @ NL) (map (Enum_toJS h) (enums (TSClient.dmmf client))) @ NL
     @ NL
     @ NL
     @ ''/**'' @ NL
     @ '' * DMMF'' @ NL
     @ '' */'' @ NL
     @ ''const dmmfString = '' @ stringifyString env (TSClient.dmmfString client) @ NL
     @ NL
     @ ''// We are parsing 2 times, as we want independent objects, because'' @ NL
     @ ''// DMMFClass introduces circular references in the dmmf object'' @ NL
     @ ''const dmmf = JSON.parse(dmmfString)'' @ NL
     @ ''exports.dmmf = JSON.parse(dmmfString)'' @ NL
     @ NL
     @ ''/**'' @ NL
     @ '' * Create the Client'' @ NL
     @ '' */'' @ NL
     @ NL
     @ ''const config = '' @ configJson env @ NL
     @ ''config.document = dmmf'' @ NL
     @ ''config.dirname = __dirname'' @ NL
     @ NL
     @ ''const PrismaClient = getPrismaClient(config)'' @ NL
     @ ''exports.PrismaClient = PrismaClient''"

text \<open>
  One emission on a client, and a sequence of them. An exception goes to the caller, who
  may go on calling, so the sequence continues on the store the failed call left.
\<close>

datatype emission = ToTS | ToJS

fun emit :: "helpers \<Rightarrow> environment \<Rightarrow> TSClient \<Rightarrow> emission \<Rightarrow> store \<Rightarrow> store \<times> (error + string)" where
  "emit h env client ToTS \<sigma> =
     TSClient_toTS h (ModelAction env) (commonCodeTS env)
       (prismaClientClass env (TSClient.dmmf client)) (TSClient.dmmf client) \<sigma>"
| "emit h env client ToJS \<sigma> = (\<sigma>, Inr (TSClient_toJS h env client))"

fun emit_all :: "helpers \<Rightarrow> environment \<Rightarrow> TSClient \<Rightarrow> emission list \<Rightarrow> store \<Rightarrow> store" where
  "emit_all h env client [] \<sigma> = \<sigma>"
| "emit_all h env client (e # es) \<sigma> = emit_all h env client es (fst (emit h env client e \<sigma>))"

text \<open>
  The addresses that an element of \<open>argsTypes\<close> holds, and the addresses of the argument
  objects of the root fields of a schema.
\<close>

fun cells :: "Generatable \<Rightarrow> addr set" where
  "cells (ArgsType as mdl action) = set as"
| "cells (MinimalArgsType as mdl action) = set as"

definition rootCells :: "DMMFClass \<Rightarrow> addr set" where
  "rootCells d = \<Union> ((\<lambda>f. set (SchemaField.args f)) ` set (rootFields d))"

section \<open>The emitted type-level programs\<close>

text \<open>
  \<open>CheckSelect\<close>, \<open>TrueKeys\<close> and the payload types are programs in the type language of
  the generated module: conditional and mapped types over a selector type. They are
  embedded as functions on selectors, and read as the TypeScript compiler reads them
  with \<open>strictNullChecks\<close>.

  A selector is one of the literal types \<open>true\<close>, \<open>false\<close>, \<open>null\<close>, \<open>undefined\<close>, or an
  arguments object whose only members are \<open>select\<close> and \<open>include\<close>; each of the two is
  absent, \<open>null\<close>, \<open>undefined\<close>, or an object that assigns a selector to each of its keys.
\<close>

datatype member = Absent | MNull | MUndefined | MObject "(string \<times> sel) list"
and sel = STrue | SFalse | SNull | SUndefined | SArgs member member

text \<open>
  The types that the payload programs compute. \<open>Unresolved n\<close> is the error type that
  TypeScript gives what it cannot resolve: a reference to the payload type of \<open>n\<close> where
  the module does not declare it, and the conditional type of \<open>n\<close> whose test names an
  argument type that the module does not declare.
\<close>

datatype ty =
    Plain string
  | Indexed string string
  | Never
  | ArrayOf ty
  | OrNull ty
  | Object "(string \<times> ty) list"
  | Intersect ty ty
  | StringLiteral string
  | Unresolved string

text \<open>
  \<open>T extends HasSelect\<close>, \<open>T extends HasInclude\<close>, \<open>T extends SelectAndInclude\<close>: the
  object type \<open>T\<close> has the member, whatever its type (the members are declared \<open>any\<close>).
\<close>

fun HasSelect :: "sel \<Rightarrow> bool" where
  "HasSelect (SArgs s i) = (s \<noteq> Absent)"
| "HasSelect _ = False"

fun HasInclude :: "sel \<Rightarrow> bool" where
  "HasInclude (SArgs s i) = (i \<noteq> Absent)"
| "HasInclude _ = False"

definition SelectAndInclude :: "sel \<Rightarrow> bool" where
  "SelectAndInclude T = (HasSelect T \<and> HasInclude T)"

text \<open>\<open>CheckSelect<T, S, U>\<close> of the common header.\<close>

definition CheckSelect :: "sel \<Rightarrow> ty \<Rightarrow> ty \<Rightarrow> ty" where
  "CheckSelect T S U =
     (if SelectAndInclude T then StringLiteral ''Please either choose `select` or `include`''
      else if HasSelect T then U
      else if HasInclude T then U
      else S)"

text \<open>
  \<open>TrueKeys<T>\<close>: the keys of \<open>T\<close> whose type does not extend
  \<open>false | undefined | null\<close>; \<open>null\<close> and \<open>undefined\<close> have no keys. The keys are kept
  with the selector assigned to them, which is what \<open>S['select'][P]\<close> reads.
\<close>

fun trueKey :: "string \<times> sel \<Rightarrow> bool" where
  "trueKey (key, SFalse) = False"
| "trueKey (key, SUndefined) = False"
| "trueKey (key, SNull) = False"
| "trueKey (key, v) = True"

fun TrueKeys :: "member \<Rightarrow> (string \<times> sel) list" where
  "TrueKeys (MObject kvs) = filter trueKey kvs"
| "TrueKeys m = []"

text \<open>\<open>wrapType\<close> as an operation on types: \<open>Array<T>\<close> and \<open>T | null\<close>.\<close>

definition wrapTy :: "SchemaField \<Rightarrow> ty \<Rightarrow> ty" where
  "wrapTy field t =
     (let outputType = SchemaField.outputType field in
      if SchemaFieldOutputType.isRequired outputType \<and> \<not> SchemaFieldOutputType.isList outputType
      then t
      else if SchemaFieldOutputType.isList outputType then ArrayOf t
      else if \<not> SchemaFieldOutputType.isRequired outputType then OrNull t
      else t)"

text \<open>
  The declarations that \<open>TSClient.toTS\<close> emits for a schema: a payload type for the
  output type of each model, and a plain value type per model whose keys are the
  model's fields that are not relations.
\<close>

definition emittedPayloads :: "DMMFClass \<Rightarrow> OutputType list" where
  "emittedPayloads d =
     List.map_filter (\<lambda>m. map_of (outputTypeMap d) (Model.name m)) (map snd (modelMap d))"

definition payloadDecl :: "DMMFClass \<Rightarrow> string \<Rightarrow> OutputType option" where
  "payloadDecl d n = find (\<lambda>t. OutputType.name t = n) (emittedPayloads d)"

definition keyofPlain :: "DMMFClass \<Rightarrow> string \<Rightarrow> string list" where
  "keyofPlain d n =
     (case find (\<lambda>m. Model.name m = n) (map snd (modelMap d)) of
        None \<Rightarrow> []
      | Some m \<Rightarrow>
          map BaseField.name (filter (\<lambda>f. BaseField.kind f \<noteq> ''object'') (Model.fields m)))"

text \<open>
  The argument types that the module declares are the elements of \<open>argsTypes\<close> of its
  models: \<open>this.argsTypes.map(TS)\<close> in \<open>Model.toTS\<close>.
\<close>

definition moduleArgsTypes :: "string list \<Rightarrow> DMMFClass \<Rightarrow> Generatable list" where
  "moduleArgsTypes acts d =
     concat (map (\<lambda>mdl.
                    case Model_argsTypes acts d
                           (find (\<lambda>m. Mapping.model m = Model.name mdl) (mappings d)) mdl of
                      Inl e \<Rightarrow> []
                    | Inr gens \<Rightarrow> gens)
               (map snd (modelMap d)))"

text \<open>
  Modelled from the spec: the naming functions of \<open>./utils\<close> are not part of the sources
  at hand. The spec has a name derived from an entity, an action and a role, the same
  name for the same triple and never the same for two. So \<open>getArgName(n, false)\<close> names
  the argument type that \<open>ArgsType.toTS\<close> declares as \<open>getModelArgName(n, undefined)\<close>, and
  \<open>getArgName(n, true)\<close>, like \<open>getModelArgName(n, DMMF.ModelAction.findMany)\<close> in the
  payload type, names the one declared for the action \<open>findMany\<close>. \<open>argsDecl\<close> finds that
  declaration: the arguments and the model of the \<open>ArgsType\<close>.
\<close>

fun isArgsType :: "string \<Rightarrow> string option \<Rightarrow> Generatable \<Rightarrow> bool" where
  "isArgsType n action (ArgsType as mdl act) = (Model.name mdl = n \<and> act = action)"
| "isArgsType n action (MinimalArgsType as mdl act) = False"

definition argsDecl :: "string list \<Rightarrow> DMMFClass \<Rightarrow> string \<Rightarrow> bool \<Rightarrow> (addr list \<times> Model) option" where
  "argsDecl acts d n many =
     (case find (isArgsType n (if many then Some ''findMany'' else None)) (moduleArgsTypes acts d) of
        Some (ArgsType as mdl act) \<Rightarrow> Some (as, mdl)
      | _ \<Rightarrow> None)"

text \<open>
  The members of the select shape of a model, one per field of its output type
  (\<open>Model.toTS\<close>); the members of its include shape are the relations among them.
\<close>

definition selectFields :: "DMMFClass \<Rightarrow> Model \<Rightarrow> SchemaField list" where
  "selectFields d mdl =
     (case map_of (outputTypeMap d) (Model.name mdl) of
        None \<Rightarrow> []
      | Some ot \<Rightarrow> OutputType.fields ot)"

text \<open>
  \<open>S extends A\<close> for the argument type \<open>A\<close> that \<open>ArgsType.toTS\<close> declares over the
  arguments \<open>as\<close> for the model \<open>mdl\<close>: the assignability of the selector \<open>S\<close> to the
  object type with the members \<open>select?: XSelect | null\<close>, then
  \<open>include?: XInclude | null\<close> when the model has a relation field, then the declared
  arguments.
  \<^item> A literal, \<open>null\<close> or \<open>undefined\<close> is not assignable: \<open>A\<close> has members.
  \<^item> A member of \<open>A\<close> is optional when one of its declarations is, and a member that is
    not optional has to be there; \<open>select\<close> and \<open>include\<close> are optional, and a declared
    argument is when its first candidate is not required.
  \<^item> When \<open>S\<close> has a member it has to share one with \<open>A\<close> (all members of \<open>A\<close> are
    optional then, which makes \<open>A\<close> a weak type).
  \<^item> The type of a member is that of its first declaration. Against \<open>XSelect | null\<close>
    and \<open>XInclude | null\<close>, \<open>null\<close> and \<open>undefined\<close> fit; an object fits the shape when it
    is empty or the shape is, or it has a key of the shape (the shape is a weak type
    too), and the value of each key of the shape fits the member of that key. The types
    of the declared arguments are input types, which are not embedded here: whether the
    value of \<open>include\<close> fits a declared argument of that name is the parameter \<open>fits\<close>.
  \<^item> Against the member \<open>f?: boolean\<close> of a field, \<open>true\<close>, \<open>false\<close> and \<open>undefined\<close>
    fit; against \<open>f?: boolean | FArgs\<close> of a relation, also what extends \<open>FArgs\<close>,
    which \<open>getFieldArgName(f)\<close> names: the argument type of the related model, the one
    of \<open>findMany\<close> for a list. A name that the module does not declare has the type
    \<open>any\<close>, which everything fits.
  \<^item> A key that the shape does not have is not looked at: nothing here is a fresh object
    literal.
\<close>

function extendsArgs ::
  "(SchemaArg \<Rightarrow> member \<Rightarrow> bool) \<Rightarrow> string list \<Rightarrow> store \<Rightarrow> DMMFClass
     \<Rightarrow> addr list \<times> Model \<Rightarrow> sel \<Rightarrow> bool" where
  "extendsArgs fits acts \<sigma> d A S =
     (case S of
        SArgs s i \<Rightarrow>
          (let declared = map \<sigma> (fst A);
               hasInclude = hasRelationField (snd A);
               fs = selectFields d (snd A);
               optional = (\<lambda>arg. case SchemaArg.inputType arg of
                                   [] \<Rightarrow> True
                                 | c # cs \<Rightarrow> \<not> SchemaArgInputType.isRequired c)
           in list_all (\<lambda>arg. SchemaArg.name arg = ''select''
                               \<or> (SchemaArg.name arg = ''include'' \<and> (hasInclude \<or> i \<noteq> Absent))
                               \<or> list_ex (\<lambda>b. SchemaArg.name b = SchemaArg.name arg \<and> optional b)
                                    declared)
                 declared
             \<and> (s \<noteq> Absent \<or> i = Absent \<or> hasInclude
                 \<or> list_ex (\<lambda>arg. SchemaArg.name arg = ''include'') declared)
             \<and> (case s of
                  MObject kvs \<Rightarrow>
                    (kvs = [] \<or> fs = []
                     \<or> list_ex (\<lambda>(P, v). list_ex (\<lambda>f. SchemaField.name f = P) fs) kvs)
                    \<and> list_all (\<lambda>(P, v).
                         case find (\<lambda>f. SchemaField.name f = P) fs of
                           None \<Rightarrow> True
                         | Some f \<Rightarrow>
                             v = STrue \<or> v = SFalse \<or> v = SUndefined
                             \<or> (isRelation f
                                 \<and> (case argsDecl acts d
                                           (TypeRef_name
                                              (SchemaFieldOutputType.type (SchemaField.outputType f)))
                                           (SchemaFieldOutputType.isList (SchemaField.outputType f)) of
                                      None \<Rightarrow> True
                                    | Some B \<Rightarrow> extendsArgs fits acts \<sigma> d B v)))
                         kvs
                | _ \<Rightarrow> True)
             \<and> (if hasInclude
                 then (case i of
                         MObject kvs \<Rightarrow>
                           (kvs = [] \<or> filter isRelation fs = []
                            \<or> list_ex (\<lambda>(P, v). list_ex (\<lambda>f. SchemaField.name f = P)
                                                   (filter isRelation fs)) kvs)
                           \<and> list_all (\<lambda>(P, v).
                                case find (\<lambda>f. SchemaField.name f = P) (filter isRelation fs) of
                                  None \<Rightarrow> True
                                | Some f \<Rightarrow>
                                    v = STrue \<or> v = SFalse \<or> v = SUndefined
                                    \<or> (case argsDecl acts d
                                              (TypeRef_name
                                                 (SchemaFieldOutputType.type
                                                    (SchemaField.outputType f)))
                                              (SchemaFieldOutputType.isList
                                                 (SchemaField.outputType f)) of
                                         None \<Rightarrow> True
                                       | Some B \<Rightarrow> extendsArgs fits acts \<sigma> d B v))
                                kvs
                       | _ \<Rightarrow> True)
                 else (case find (\<lambda>arg. SchemaArg.name arg = ''include'') declared of
                         None \<Rightarrow> True
                       | Some arg \<Rightarrow> i = Absent \<or> fits arg i)))
      | _ \<Rightarrow> False)"
  by pat_completeness auto
termination
proof -
  have elem: "(P, v) \<in> set xs \<Longrightarrow> size v < Suc (size_list (size_prod (\<lambda>_. 0) size) xs)"
    for P :: string and v :: sel and xs
    by (induction xs) auto
  show ?thesis
    by (relation "measure (\<lambda>(fits, acts, \<sigma>, d, A, S). size S)") (auto dest: elem)
qed

declare extendsArgs.simps [simp del]

text \<open>
  The payload type that \<open>PayloadType.toTS\<close> emits for the type named \<open>n\<close>, applied to a
  selector. Line by line of the template:
  \<^item> \<open>S extends true ? X\<close>, \<open>S extends undefined ? never\<close>;
  \<^item> \<open>S extends XArgs | FindManyXArgs\<close>, with \<open>: X\<close> as its last line for a selector that
    extends neither;
  \<^item> for one that does, \<open>'include' extends U\<close> is tested first and gives \<open>X\<close>,
    intersected with the mapped type of \<open>renderRelations(include)\<close> unless the type has
    no relation; then \<open>'select' extends U\<close> gives the mapped type of
    \<open>renderRelations(select)\<close>; otherwise \<open>X\<close>.
  A mapped type ranges over \<open>TrueKeys\<close> of the member. For a key \<open>P\<close>, the select branch
  first tests \<open>P extends keyof X\<close> and gives \<open>X[P]\<close>; then both branches go through the
  relations in their order, \<open>P extends 'f' ? wrapType(f, FGetPayload<S[...][P]>)\<close>, and
  end in \<open>never\<close>.
\<close>

function GetPayload ::
  "(SchemaArg \<Rightarrow> member \<Rightarrow> bool) \<Rightarrow> string list \<Rightarrow> store \<Rightarrow> DMMFClass \<Rightarrow> string \<Rightarrow> sel \<Rightarrow> ty" where
  "GetPayload fits acts \<sigma> d n S =
     (case payloadDecl d n of
        None \<Rightarrow> Unresolved n
      | Some typ \<Rightarrow>
          (let relations = filter isRelation (OutputType.fields typ) in
           case S of
             STrue \<Rightarrow> Plain n
           | SUndefined \<Rightarrow> Never
           | SArgs s i \<Rightarrow>
               (case argsDecl acts d n False of
                  None \<Rightarrow> Unresolved n
                | Some A \<Rightarrow>
               (case argsDecl acts d n True of
                  None \<Rightarrow> Unresolved n
                | Some B \<Rightarrow>
               (if extendsArgs fits acts \<sigma> d A S \<or> extendsArgs fits acts \<sigma> d B S then
                 (if i \<noteq> Absent then
                    (if length relations = 0 then Plain n
                     else Intersect (Plain n)
                            (Object (map (\<lambda>(P, v).
                               (P, case find (\<lambda>f. SchemaField.name f = P) relations of
                                     None \<Rightarrow> Never
                                   | Some f \<Rightarrow>
                                       wrapTy f (GetPayload fits acts \<sigma> d
                                         (TypeRef_name
                                            (SchemaFieldOutputType.type (SchemaField.outputType f)))
                                         v)))
                               (TrueKeys i))))
                  else if s \<noteq> Absent then
                    Object (map (\<lambda>(P, v).
                      (P, if P \<in> set (keyofPlain d n) then Indexed n P
                          else (case find (\<lambda>f. SchemaField.name f = P) relations of
                                  None \<Rightarrow> Never
                                | Some f \<Rightarrow>
                                    wrapTy f (GetPayload fits acts \<sigma> d
                                      (TypeRef_name
                                         (SchemaFieldOutputType.type (SchemaField.outputType f)))
                                      v))))
                      (TrueKeys s))
                  else Plain n)
                else Plain n)))
           | SFalse \<Rightarrow>
               (if argsDecl acts d n False = None \<or> argsDecl acts d n True = None
                then Unresolved n else Plain n)
           | SNull \<Rightarrow>
               (if argsDecl acts d n False = None \<or> argsDecl acts d n True = None
                then Unresolved n else Plain n)))"
  by pat_completeness auto
termination
proof -
  have elem: "(P, v) \<in> set xs \<Longrightarrow> size v < Suc (size_list (size_prod (\<lambda>_. 0) size) xs)"
    for P :: string and v :: sel and xs
    by (induction xs) auto
  have mem: "(P, v) \<in> set (TrueKeys m) \<Longrightarrow> size v < size m" for P v m
    using elem [of P v] by (cases m) (auto simp: less_Suc_eq)
  show ?thesis
    by (relation "measure (\<lambda>(fits, acts, \<sigma>, d, n, S). size S)") (auto dest: mem)
qed

declare GetPayload.simps [simp del]

section \<open>A sample schema\<close>

text \<open>
  Modelled from the spec: sample implementations of the imported functions, used only to
  run the generator on a concrete schema. The naming functions concatenate the entity
  name with fixed affixes that encode the role and the action, \<open>indent\<close> puts the given
  number of spaces before every line that is not blank, and the return type of an
  operation is the payload type under \<open>CheckSelect\<close>, or the batch result for the two
  bulk actions.
\<close>

definition sample_indent :: "string \<Rightarrow> nat \<Rightarrow> string" where
  "sample_indent s n =
     join NL (map (\<lambda>l. if list_all (\<lambda>c. c = CHR '' '') l then l else replicate n CHR '' '' @ l)
                (split_nl s))"

definition sample_table :: "string \<Rightarrow> TableEntry option" where
  "sample_table t =
     (if t = ''String'' then Some (TsName ''string'')
      else if t = ''Int'' then Some (TsName ''number'')
      else if t = ''Boolean'' then Some (TsName ''boolean'')
      else if t = ''DateTime'' then Some (TsNames [''Date'', ''string''])
      else None)"

definition sample_getArgName :: "string \<Rightarrow> bool \<Rightarrow> string" where
  "sample_getArgName n findMany = (if findMany then ''FindMany'' @ n @ ''Args'' else n @ ''Args'')"

definition sample_getModelArgName :: "string \<Rightarrow> string option \<Rightarrow> string" where
  "sample_getModelArgName n action =
     (case action of
        None \<Rightarrow> n @ ''Args''
      | Some a \<Rightarrow>
          (if a = ''findMany'' then ''FindMany'' @ n @ ''Args''
           else if a = ''findOne'' then ''FindOne'' @ n @ ''Args''
           else if a = ''create'' then n @ ''CreateArgs''
           else if a = ''update'' then n @ ''UpdateArgs''
           else if a = ''updateMany'' then n @ ''UpdateManyArgs''
           else if a = ''upsert'' then n @ ''UpsertArgs''
           else if a = ''delete'' then n @ ''DeleteArgs''
           else if a = ''deleteMany'' then n @ ''DeleteManyArgs''
           else n @ ''Args''))"

definition sample_getSelectReturnType :: "SelectReturnTypeOptions \<Rightarrow> string" where
  "sample_getSelectReturnType opts =
     (if SelectReturnTypeOptions.actionName opts = ''updateMany''
         \<or> SelectReturnTypeOptions.actionName opts = ''deleteMany''
      then ''Promise<BatchPayload>''
      else ''CheckSelect<T, '' @ SelectReturnTypeOptions.name opts @ '', ''
           @ SelectReturnTypeOptions.name opts @ ''GetPayload<T>>'')"

definition sample_helpers :: helpers where
  "sample_helpers = \<lparr>
     indent = sample_indent,
     GraphQLScalarToJSTypeTable = sample_table,
     capitalize = (\<lambda>s. s),
     lowerCase = (\<lambda>s. s),
     pluralize = (\<lambda>s. s @ ''s''),
     getPayloadName = (\<lambda>n. n @ ''GetPayload''),
     getSelectName = (\<lambda>n. n @ ''Select''),
     getIncludeName = (\<lambda>n. n @ ''Include''),
     getArgName = sample_getArgName,
     getModelArgName = sample_getModelArgName,
     getFieldArgName =
       (\<lambda>f. sample_getArgName
              (TypeRef_name (SchemaFieldOutputType.type (SchemaField.outputType f)))
              (SchemaFieldOutputType.isList (SchemaField.outputType f))),
     getSelectReturnType = sample_getSelectReturnType
   \<rparr>"

text \<open>
  The schema of the spec's examples: \<open>Post{id, title, author: User}\<close> with an optional
  author, and \<open>User{id, email, posts}\<close> with a list of posts. \<open>Post\<close> maps \<open>findMany\<close> and
  \<open>updateMany\<close>, \<open>User\<close> maps \<open>findOne\<close>; the root field \<open>findManyPost\<close> takes a \<open>where\<close>
  argument (the object at address 0) of the input type \<open>PostWhereInput\<close>, whose
  declaration repeats the field \<open>title\<close>.
\<close>

definition sample_Post :: Model where
  "sample_Post = Model ''Post''
     [BaseField ''id'' ''scalar'' (TypeName ''Int'') False True,
      BaseField ''title'' ''scalar'' (TypeName ''String'') False True,
      BaseField ''author'' ''object'' (TypeName ''User'') False False]"

definition sample_User :: Model where
  "sample_User = Model ''User''
     [BaseField ''id'' ''scalar'' (TypeName ''Int'') False True,
      BaseField ''email'' ''scalar'' (TypeName ''String'') False False,
      BaseField ''posts'' ''object'' (TypeName ''Post'') True True]"

definition sample_author :: SchemaField where
  "sample_author =
     SchemaField ''author'' (SchemaFieldOutputType (TypeObject ''User'') ''object'' False False) []"

definition sample_posts :: SchemaField where
  "sample_posts =
     SchemaField ''posts'' (SchemaFieldOutputType (TypeObject ''Post'') ''object'' True True) []"

definition sample_PostType :: OutputType where
  "sample_PostType = OutputType ''Post''
     [SchemaField ''id'' (SchemaFieldOutputType (TypeName ''Int'') ''scalar'' False True) [],
      SchemaField ''title'' (SchemaFieldOutputType (TypeName ''String'') ''scalar'' False True) [],
      sample_author]"

definition sample_UserType :: OutputType where
  "sample_UserType = OutputType ''User''
     [SchemaField ''id'' (SchemaFieldOutputType (TypeName ''Int'') ''scalar'' False True) [],
      SchemaField ''email'' (SchemaFieldOutputType (TypeName ''String'') ''scalar'' False False) [],
      sample_posts]"

definition sample_PostMapping :: Mapping where
  "sample_PostMapping = Mapping ''Post'' ''posts''
     [(''findOne'', None), (''findMany'', Some ''findManyPost''),
      (''updateMany'', Some ''updateManyPost''), (''delete'', None),
      (''aggregate'', Some ''aggregatePost'')]"

definition sample_UserMapping :: Mapping where
  "sample_UserMapping = Mapping ''User'' ''users'' [(''findOne'', Some ''findOneUser'')]"

definition sample_whereArg :: SchemaArg where
  "sample_whereArg =
     SchemaArg ''where''
       [SchemaArgInputType (TypeObject ''PostWhereInput'') ''object'' False False True] None"

definition sample_PostWhereInput :: InputType where
  "sample_PostWhereInput = InputType ''PostWhereInput''
     [SchemaArg ''title'' [SchemaArgInputType (TypeName ''String'') ''scalar'' False False True] None,
      SchemaArg ''id'' [SchemaArgInputType (TypeName ''Int'') ''scalar'' False False False] None,
      SchemaArg ''title'' [SchemaArgInputType (TypeName ''Int'') ''scalar'' True True False] None]"

definition sample_dmmf :: DMMFClass where
  "sample_dmmf = DMMFClass
     [Enum ''Role'' [''A'', ''B'']]
     [(''Post'', sample_Post), (''User'', sample_User)]
     [(''Post'', sample_PostType), (''User'', sample_UserType)]
     [sample_PostMapping, sample_UserMapping]
     [sample_PostWhereInput]
     [SchemaField ''findManyPost''
        (SchemaFieldOutputType (TypeObject ''Post'') ''object'' True True) [0],
      SchemaField ''updateManyPost''
        (SchemaFieldOutputType (TypeObject ''BatchPayload'') ''object'' False True) [0],
      SchemaField ''findOneUser''
        (SchemaFieldOutputType (TypeObject ''User'') ''object'' False False) []]"

definition sample_store :: store where
  "sample_store = (\<lambda>a. sample_whereArg)"

definition sample_ModelAction :: "string list" where
  "sample_ModelAction =
     [''findOne'', ''findMany'', ''create'', ''update'', ''updateMany'', ''upsert'',
      ''delete'', ''deleteMany'']"

definition sample_environment :: environment where
  "sample_environment = \<lparr>
     commonCodeJS = ''// header'',
     commonCodeTS = ''// header'',
     prismaClientClass = (\<lambda>d. Inr ''export declare class PrismaClient {}''),
     stringifyDocument = (\<lambda>d \<sigma>. ''{}''),
     stringifyString = (\<lambda>s. s),
     configJson = ''{}'',
     platforms = None,
     ModelAction = sample_ModelAction
   \<rparr>"

text \<open>
  A schema with one entity, \<open>Tag{id}\<close>, for which \<open>mappings\<close> holds no mapping.
\<close>

definition sample_Tag :: Model where
  "sample_Tag = Model ''Tag'' [BaseField ''id'' ''scalar'' (TypeName ''Int'') False True]"

definition sample_TagType :: OutputType where
  "sample_TagType = OutputType ''Tag''
     [SchemaField ''id'' (SchemaFieldOutputType (TypeName ''Int'') ''scalar'' False True) []]"

definition orphan_dmmf :: DMMFClass where
  "orphan_dmmf = DMMFClass [] [(''Tag'', sample_Tag)] [(''Tag'', sample_TagType)] [] [] []"




section \<open>Properties of the leaf and argument field emitters\<close>

text \<open>
  Claim C7. For every rendered output field: a field that is both non-required and
  non-list is rendered with \<open>| null\<close> appended to its type, and a list field is rendered
  as a sequence type with nothing after it, whatever its \<open>isRequired\<close> flag. The same
  holds for \<open>wrapType\<close> on a relation: \<open>Array<...>\<close> for a list and \<open>... | null\<close> for a
  field that is neither required nor a list.
\<close>

theorem OutputField_wrapping:
  assumes "OutputField_fieldType h field = Inr t"
  shows "(\<not> BaseField.isRequired field \<and> \<not> BaseField.isList field \<longrightarrow>
            OutputField_toTS h field = Inr (BaseField.name field @ '': '' @ t @ '' | null''))
       \<and> (BaseField.isList field \<longrightarrow>
            OutputField_toTS h field = Inr (BaseField.name field @ '': '' @ t @ ''[]''))
       \<and> (SchemaFieldOutputType.isList (SchemaField.outputType sf) \<longrightarrow>
            wrapType sf str = ''Array<'' @ str @ ''>'')
       \<and> (\<not> SchemaFieldOutputType.isRequired (SchemaField.outputType sf)
            \<and> \<not> SchemaFieldOutputType.isList (SchemaField.outputType sf) \<longrightarrow>
            wrapType sf str = str @ '' | null'')"
  using assms by (simp add: OutputField_toTS_def wrapType_def Let_def)

theorem OutputField_wrapping_witness:
  "OutputField_fieldType sample_helpers
     (BaseField ''email'' ''scalar'' (TypeName ''String'') False False) = Inr ''string''
   \<and> OutputField_toTS sample_helpers
       (BaseField ''email'' ''scalar'' (TypeName ''String'') False False)
       = Inr ''email: string | null''
   \<and> wrapType sample_author ''T'' = ''T | null''
   \<and> OutputField_fieldType sample_helpers
       (BaseField ''tags'' ''scalar'' (TypeName ''String'') True False) = Inr ''string''
   \<and> OutputField_toTS sample_helpers
       (BaseField ''tags'' ''scalar'' (TypeName ''String'') True False) = Inr ''tags: string[]''
   \<and> wrapType sample_posts ''T'' = ''Array<T>''"
proof -
  have e: "OutputField_fieldType sample_helpers
     (BaseField ''email'' ''scalar'' (TypeName ''String'') False False) = Inr ''string''"
    by (simp add: OutputField_fieldType_def tableOr_def sample_helpers_def sample_table_def)
  have t: "OutputField_fieldType sample_helpers
     (BaseField ''tags'' ''scalar'' (TypeName ''String'') True False) = Inr ''string''"
    by (simp add: OutputField_fieldType_def tableOr_def sample_helpers_def sample_table_def)
  show ?thesis
    using e t OutputField_wrapping [OF e, of sample_author "''T''"]
      OutputField_wrapping [OF t, of sample_posts "''T''"]
    by (simp add: sample_author_def sample_posts_def)
qed

text \<open>\<open>xs.join(sep)\<close> written with the list functions of the library.\<close>

lemma join_concat:
  "join sep xs = (case xs of [] \<Rightarrow> [] | x # rest \<Rightarrow> x @ concat (map (\<lambda>y. sep @ y) rest))"
proof (induction sep xs rule: join.induct)
  case (1 sep)
  then show ?case by simp
next
  case (2 sep x)
  then show ?case by simp
next
  case (3 sep x y ys)
  then show ?case by simp
qed

text \<open>The text of an argument field, with nothing left to a definition of the emitter.\<close>

lemma InputField_toTS_text:
  "InputField_toTS h pf (SchemaArg nm (c # cs) cm) =
     (let cand = (\<lambda>t. case SchemaArgInputType.type t of
                         TypeName s \<Rightarrow>
                           (case GraphQLScalarToJSTypeTable h s of
                              None \<Rightarrow> TsName s
                            | Some (TsName x) \<Rightarrow> if x = [] then TsName s else TsName x
                            | Some (TsNames xs) \<Rightarrow> TsNames xs)
                       | TypeObject n \<Rightarrow> TsName (if pf then ''Base'' @ n else n));
          names = concat (map (\<lambda>t. case cand t of TsName x \<Rightarrow> [x] | TsNames xs \<Rightarrow> xs) (c # cs));
          union = (case names of [] \<Rightarrow> [] | x # xs \<Rightarrow> x @ concat (map (\<lambda>y. '' | '' @ y) xs));
          hasNull = list_ex (\<lambda>t. cand t = TsName ''null'') (c # cs)
      in case (case cm of
                 None \<Rightarrow> Inr []
               | Some (JSString str) \<Rightarrow> Inr (if str = [] then [] else wrapComment str @ NL)
               | Some (JSStringObject str) \<Rightarrow> Inr (wrapComment str @ NL)
               | Some (JSBoolean b) \<Rightarrow> if b then Inl TypeError else Inr []
               | Some JSObject \<Rightarrow> Inl TypeError) of
           Inl e \<Rightarrow> Inl e
         | Inr jsdoc \<Rightarrow>
             Inr (jsdoc @ nm
                  @ (if SchemaArgInputType.isRequired c then [] else ''?'')
                  @ '': ''
                  @ (if SchemaArgInputType.isList c then ''Enumerable<'' @ union @ ''>'' else union)
                  @ (if \<not> SchemaArgInputType.isRequired c \<and> \<not> hasNull
                        \<and> SchemaArgInputType.isNullable c
                     then '' | null'' else [])))"
proof -
  have c: "InputField_candidate h pf =
             (\<lambda>t. case SchemaArgInputType.type t of
                         TypeName s \<Rightarrow>
                           (case GraphQLScalarToJSTypeTable h s of
                              None \<Rightarrow> TsName s
                            | Some (TsName x) \<Rightarrow> if x = [] then TsName s else TsName x
                            | Some (TsNames xs) \<Rightarrow> TsNames xs)
                       | TypeObject n \<Rightarrow> TsName (if pf then ''Base'' @ n else n))"
    by (rule ext)
       (simp add: InputField_candidate_def tableOr_def split: TypeRef.split option.split
          TableEntry.split)
  have f: "flatten = (\<lambda>e. case e of TsName x \<Rightarrow> [x] | TsNames xs \<Rightarrow> xs)"
    by (rule ext) (simp split: TableEntry.split)
  show ?thesis
    unfolding InputField_toTS_def InputField_union_def InputField_hasNull_def InputField_jsdoc_def
      join_concat c f
    by (simp add: Let_def split: option.split JSValue.split sum.split list.split)
qed

lemma InputField_toTS_flags:
  assumes "map SchemaArgInputType.type cs' = map SchemaArgInputType.type cs"
  shows "InputField_toTS h pf (SchemaArg nm (c # cs') cm)
           = InputField_toTS h pf (SchemaArg nm (c # cs) cm)"
proof -
  have same: "InputField_candidate h pf t' = InputField_candidate h pf t"
    if "SchemaArgInputType.type t' = SchemaArgInputType.type t" for t t'
    using that by (simp add: InputField_candidate_def)
  from assms have m: "map (InputField_candidate h pf) cs' = map (InputField_candidate h pf) cs"
  proof (induction cs' arbitrary: cs)
    case Nil
    then show ?case by simp
  next
    case (Cons t' ts')
    then obtain t ts where "cs = t # ts"
      by (cases cs) simp_all
    with Cons same [of t' t] show ?case by simp
  qed
  have u: "InputField_union h pf (c # cs') = InputField_union h pf (c # cs)"
  proof -
    have "map (\<lambda>t. flatten (InputField_candidate h pf t)) cs'
            = map flatten (map (InputField_candidate h pf) cs')"
      by simp
    also have "\<dots> = map flatten (map (InputField_candidate h pf) cs)"
      by (simp only: m)
    also have "\<dots> = map (\<lambda>t. flatten (InputField_candidate h pf t)) cs"
      by simp
    finally show ?thesis
      by (simp add: InputField_union_def)
  qed
  have n: "InputField_hasNull h pf (c # cs') = InputField_hasNull h pf (c # cs)"
  proof -
    have "list_ex (\<lambda>t. InputField_candidate h pf t = TsName ''null'') cs'
            = list_ex (\<lambda>e. e = TsName ''null'') (map (InputField_candidate h pf) cs')"
      by (induction cs') simp_all
    also have "\<dots> = list_ex (\<lambda>e. e = TsName ''null'') (map (InputField_candidate h pf) cs)"
      by (simp only: m)
    also have "\<dots> = list_ex (\<lambda>t. InputField_candidate h pf t = TsName ''null'') cs"
      by (induction cs) simp_all
    finally show ?thesis
      by (simp add: InputField_hasNull_def)
  qed
  show ?thesis
    unfolding InputField_toTS_def Let_def SchemaArg.sel list.case u n ..
qed

text \<open>
  Claim C10, as the emitter has it. For an argument field with the candidate input
  types \<open>c\<close>, \<open>cs\<close>, the rendered type is the union of the type texts of all candidates,
  joined with \<open> | \<close>. The \<open>?\<close> marker is there exactly when the first candidate is not
  required, and the \<open>Enumerable<...>\<close> wrapping exactly when the first candidate is a
  list. The appended \<open>| null\<close> is there exactly when the first candidate is not required
  and is nullable and the type text of no candidate is the literal \<open>null\<close>. So the flags
  of the later candidates never affect the rendering: with other later candidates \<open>cs'\<close>
  of the same types the text is the same. Their types do, through the union and through
  the appended \<open>| null\<close>.
\<close>

theorem InputField_first_candidate:
  "InputField_toTS h pf (SchemaArg nm (c # cs) cm) =
     (let cand = (\<lambda>t. case SchemaArgInputType.type t of
                         TypeName s \<Rightarrow>
                           (case GraphQLScalarToJSTypeTable h s of
                              None \<Rightarrow> TsName s
                            | Some (TsName x) \<Rightarrow> if x = [] then TsName s else TsName x
                            | Some (TsNames xs) \<Rightarrow> TsNames xs)
                       | TypeObject n \<Rightarrow> TsName (if pf then ''Base'' @ n else n));
          names = concat (map (\<lambda>t. case cand t of TsName x \<Rightarrow> [x] | TsNames xs \<Rightarrow> xs) (c # cs));
          union = (case names of [] \<Rightarrow> [] | x # xs \<Rightarrow> x @ concat (map (\<lambda>y. '' | '' @ y) xs));
          hasNull = list_ex (\<lambda>t. cand t = TsName ''null'') (c # cs)
      in case (case cm of
                 None \<Rightarrow> Inr []
               | Some (JSString str) \<Rightarrow> Inr (if str = [] then [] else wrapComment str @ NL)
               | Some (JSStringObject str) \<Rightarrow> Inr (wrapComment str @ NL)
               | Some (JSBoolean b) \<Rightarrow> if b then Inl TypeError else Inr []
               | Some JSObject \<Rightarrow> Inl TypeError) of
           Inl e \<Rightarrow> Inl e
         | Inr jsdoc \<Rightarrow>
             Inr (jsdoc @ nm
                  @ (if SchemaArgInputType.isRequired c then [] else ''?'')
                  @ '': ''
                  @ (if SchemaArgInputType.isList c then ''Enumerable<'' @ union @ ''>'' else union)
                  @ (if \<not> SchemaArgInputType.isRequired c \<and> \<not> hasNull
                        \<and> SchemaArgInputType.isNullable c
                     then '' | null'' else [])))
   \<and> (map SchemaArgInputType.type cs' = map SchemaArgInputType.type cs \<longrightarrow>
        InputField_toTS h pf (SchemaArg nm (c # cs') cm)
          = InputField_toTS h pf (SchemaArg nm (c # cs) cm))"
proof (intro conjI impI)
  show "InputField_toTS h pf (SchemaArg nm (c # cs) cm) =
     (let cand = (\<lambda>t. case SchemaArgInputType.type t of
                         TypeName s \<Rightarrow>
                           (case GraphQLScalarToJSTypeTable h s of
                              None \<Rightarrow> TsName s
                            | Some (TsName x) \<Rightarrow> if x = [] then TsName s else TsName x
                            | Some (TsNames xs) \<Rightarrow> TsNames xs)
                       | TypeObject n \<Rightarrow> TsName (if pf then ''Base'' @ n else n));
          names = concat (map (\<lambda>t. case cand t of TsName x \<Rightarrow> [x] | TsNames xs \<Rightarrow> xs) (c # cs));
          union = (case names of [] \<Rightarrow> [] | x # xs \<Rightarrow> x @ concat (map (\<lambda>y. '' | '' @ y) xs));
          hasNull = list_ex (\<lambda>t. cand t = TsName ''null'') (c # cs)
      in case (case cm of
                 None \<Rightarrow> Inr []
               | Some (JSString str) \<Rightarrow> Inr (if str = [] then [] else wrapComment str @ NL)
               | Some (JSStringObject str) \<Rightarrow> Inr (wrapComment str @ NL)
               | Some (JSBoolean b) \<Rightarrow> if b then Inl TypeError else Inr []
               | Some JSObject \<Rightarrow> Inl TypeError) of
           Inl e \<Rightarrow> Inl e
         | Inr jsdoc \<Rightarrow>
             Inr (jsdoc @ nm
                  @ (if SchemaArgInputType.isRequired c then [] else ''?'')
                  @ '': ''
                  @ (if SchemaArgInputType.isList c then ''Enumerable<'' @ union @ ''>'' else union)
                  @ (if \<not> SchemaArgInputType.isRequired c \<and> \<not> hasNull
                        \<and> SchemaArgInputType.isNullable c
                     then '' | null'' else [])))"
    by (rule InputField_toTS_text)
next
  assume "map SchemaArgInputType.type cs' = map SchemaArgInputType.type cs"
  then show "InputField_toTS h pf (SchemaArg nm (c # cs') cm)
          = InputField_toTS h pf (SchemaArg nm (c # cs) cm)"
    by (rule InputField_toTS_flags)
qed

text \<open>
  Claim C10 as stated fails: with the same first candidate, an optional and nullable
  string, the \<open>| null\<close> is appended when the later candidate is a number and is not
  appended when the later candidate is the literal \<open>null\<close> (the \<open>null\<close> of the second
  text is the candidate itself).
\<close>

theorem InputField_first_candidate_counterexample:
  "InputField_toTS sample_helpers False
     (SchemaArg ''f''
        [SchemaArgInputType (TypeName ''String'') ''scalar'' False False True,
         SchemaArgInputType (TypeName ''Int'') ''scalar'' False False False] None)
     = Inr ''f?: string | number | null''
   \<and> InputField_toTS sample_helpers False
     (SchemaArg ''f''
        [SchemaArgInputType (TypeName ''String'') ''scalar'' False False True,
         SchemaArgInputType (TypeName ''null'') ''scalar'' False False False] None)
     = Inr ''f?: string | null''"
  by code_simp

text \<open>
  An instance: the first candidate is an optional, nullable list; the later candidates
  are an object type and a scalar with two type texts, and giving them other flags
  changes nothing.
\<close>

theorem InputField_first_candidate_witness:
  "map SchemaArgInputType.type
     [SchemaArgInputType (TypeObject ''W'') ''object'' True True True,
      SchemaArgInputType (TypeName ''DateTime'') ''scalar'' True False True]
   = map SchemaArgInputType.type
     [SchemaArgInputType (TypeObject ''W'') ''object'' False False False,
      SchemaArgInputType (TypeName ''DateTime'') ''scalar'' False True False]
   \<and> InputField_toTS sample_helpers False
       (SchemaArg ''where''
          [SchemaArgInputType (TypeName ''Int'') ''scalar'' True False True,
           SchemaArgInputType (TypeObject ''W'') ''object'' True True True,
           SchemaArgInputType (TypeName ''DateTime'') ''scalar'' True False True] None)
     = InputField_toTS sample_helpers False
       (SchemaArg ''where''
          [SchemaArgInputType (TypeName ''Int'') ''scalar'' True False True,
           SchemaArgInputType (TypeObject ''W'') ''object'' False False False,
           SchemaArgInputType (TypeName ''DateTime'') ''scalar'' False True False] None)
   \<and> InputField_toTS sample_helpers False
       (SchemaArg ''where''
          [SchemaArgInputType (TypeName ''Int'') ''scalar'' True False True,
           SchemaArgInputType (TypeObject ''W'') ''object'' False False False,
           SchemaArgInputType (TypeName ''DateTime'') ''scalar'' False True False] None)
     = Inr ''where?: Enumerable<number | W | Date | string> | null''"
proof -
  let ?c = "SchemaArgInputType (TypeName ''Int'') ''scalar'' True False True"
  let ?cs = "[SchemaArgInputType (TypeObject ''W'') ''object'' False False False,
              SchemaArgInputType (TypeName ''DateTime'') ''scalar'' False True False]"
  let ?cs' = "[SchemaArgInputType (TypeObject ''W'') ''object'' True True True,
               SchemaArgInputType (TypeName ''DateTime'') ''scalar'' True False True]"
  have t: "map SchemaArgInputType.type ?cs' = map SchemaArgInputType.type ?cs"
    by simp
  have e: "InputField_toTS sample_helpers False (SchemaArg ''where'' (?c # ?cs) None)
             = Inr ''where?: Enumerable<number | W | Date | string> | null''"
    by code_simp
  from InputField_first_candidate [of sample_helpers False "''where''" ?c ?cs None ?cs'] t
  have "InputField_toTS sample_helpers False (SchemaArg ''where'' (?c # ?cs') None)
          = InputField_toTS sample_helpers False (SchemaArg ''where'' (?c # ?cs) None)"
    by blast
  with t e show ?thesis
    by (intro conjI)
qed

section \<open>Properties of the input type emitter\<close>

lemma uniqueBy_from_keys:
  "f ` set (uniqueBy_from seen xs f) = f ` set xs - set seen"
  by (induction xs arbitrary: seen) auto

lemma uniqueBy_from_distinct:
  "distinct (map f (uniqueBy_from seen xs f))"
  by (induction xs arbitrary: seen) (auto simp: uniqueBy_from_keys)

lemma uniqueBy_from_subseq:
  "subseq (uniqueBy_from seen xs f) xs"
  by (induction xs arbitrary: seen) auto

lemma uniqueBy_from_unseen:
  "x \<in> set (uniqueBy_from seen xs f) \<Longrightarrow> f x \<notin> set seen"
  using uniqueBy_from_keys [of f seen xs] by blast

lemma uniqueBy_from_first:
  "x \<in> set (uniqueBy_from seen xs f) \<Longrightarrow> find (\<lambda>y. f y = f x) xs = Some x"
proof (induction xs arbitrary: seen)
  case Nil
  then show ?case by simp
next
  case (Cons a xs)
  show ?case
  proof (cases "f a = f x")
    case True
    have "x \<notin> set (uniqueBy_from seen xs f)" if "f a \<in> set seen"
      using that True uniqueBy_from_unseen [of x seen xs f] by auto
    moreover have "x \<notin> set (uniqueBy_from (f a # seen) xs f)"
      using True uniqueBy_from_unseen [of x "f a # seen" xs f] by auto
    ultimately have "x = a" using Cons.prems by (auto split: if_splits)
    then show ?thesis by simp
  next
    case False
    then have "x \<in> set (uniqueBy_from seen xs f) \<or> x \<in> set (uniqueBy_from (f a # seen) xs f)"
      using Cons.prems by (auto split: if_splits)
    then have "find (\<lambda>y. f y = f x) xs = Some x"
      using Cons.IH by blast
    with False show ?thesis by simp
  qed
qed

text \<open>
  Claim C6. The members of an emitted input type are the fields that survive
  \<open>uniqueBy\<close>: their names are distinct, every declared name survives, the survivors
  keep the declared order, and each survivor is the first declared field of its name, so
  all later duplicates are discarded. The deduplication itself raises nothing; the
  emitted type is the template over the survivors.
\<close>

theorem InputType_first_declared_wins:
  "distinct (map SchemaArg.name (uniqueBy fs SchemaArg.name))
   \<and> SchemaArg.name ` set (uniqueBy fs SchemaArg.name) = SchemaArg.name ` set fs
   \<and> subseq (uniqueBy fs SchemaArg.name) fs
   \<and> (\<forall>f \<in> set (uniqueBy fs SchemaArg.name).
         find (\<lambda>g. SchemaArg.name g = SchemaArg.name f) fs = Some f)
   \<and> InputType_toTS h (InputType n fs) =
       (case mapE (InputField_toTS h False) (uniqueBy fs SchemaArg.name) of
          Inl e \<Rightarrow> Inl e
        | Inr members \<Rightarrow>
            Inr (NL @ ''export type '' @ n @ '' = {'' @ NL
                 @ indent h (join NL members) tab @ NL @ ''}''))"
  by (simp add: uniqueBy_def uniqueBy_from_keys uniqueBy_from_distinct uniqueBy_from_subseq
        uniqueBy_from_first InputType_toTS_def Let_def split: sum.split)

theorem InputType_first_declared_wins_witness:
  "uniqueBy (InputType.fields sample_PostWhereInput) SchemaArg.name =
     [SchemaArg ''title'' [SchemaArgInputType (TypeName ''String'') ''scalar'' False False True] None,
      SchemaArg ''id'' [SchemaArgInputType (TypeName ''Int'') ''scalar'' False False False] None]
   \<and> find (\<lambda>g. SchemaArg.name g = ''title'') (InputType.fields sample_PostWhereInput) =
       Some (SchemaArg ''title''
               [SchemaArgInputType (TypeName ''String'') ''scalar'' False False True] None)
   \<and> InputType_toTS sample_helpers sample_PostWhereInput =
       Inr (NL @ ''export type PostWhereInput = {'' @ NL @ ''  title?: string | null'' @ NL
            @ ''  id?: number'' @ NL @ ''}'')"
proof -
  have u: "uniqueBy (InputType.fields sample_PostWhereInput) SchemaArg.name =
     [SchemaArg ''title'' [SchemaArgInputType (TypeName ''String'') ''scalar'' False False True] None,
      SchemaArg ''id'' [SchemaArgInputType (TypeName ''Int'') ''scalar'' False False False] None]"
    by (simp add: uniqueBy_def sample_PostWhereInput_def)
  have t: "InputType_toTS sample_helpers sample_PostWhereInput =
       Inr (NL @ ''export type PostWhereInput = {'' @ NL @ ''  title?: string | null'' @ NL
            @ ''  id?: number'' @ NL @ ''}'')"
    by code_simp
  from InputType_first_declared_wins
         [of "InputType.fields sample_PostWhereInput" sample_helpers "''PostWhereInput''"]
  have "\<forall>f \<in> set (uniqueBy (InputType.fields sample_PostWhereInput) SchemaArg.name).
         find (\<lambda>g. SchemaArg.name g = SchemaArg.name f) (InputType.fields sample_PostWhereInput)
         = Some f"
    by blast
  with u t show ?thesis by simp
qed

section \<open>Properties of the argument-set and delegate emitters\<close>


lemma argsTypes_loop_shape:
  "argsTypes_loop d mp mdl acts = Inr gens \<Longrightarrow>
   gens = map (\<lambda>action.
                (if action = ''updateMany'' \<or> action = ''deleteMany''
                 then MinimalArgsType else ArgsType)
                  (SchemaField.args (the (getField d (the (Mapping_get mp action)))))
                  mdl (Some action))
              (filter (\<lambda>a. truthy (Mapping_get mp a)) acts)"
proof (induction acts arbitrary: gens)
  case Nil
  then show ?case by simp
next
  case (Cons a acts)
  show ?case
  proof (cases "truthy (Mapping_get mp a)")
    case False
    with Cons show ?thesis by (simp add: Let_def)
  next
    case True
    with Cons.prems obtain fld rest where
      f: "getField d (the (Mapping_get mp a)) = Some fld" and
      r: "argsTypes_loop d mp mdl acts = Inr rest" and
      g: "gens = (if a = ''updateMany'' \<or> a = ''deleteMany''
                  then MinimalArgsType (SchemaField.args fld) mdl (Some a)
                  else ArgsType (SchemaField.args fld) mdl (Some a)) # rest"
      by (auto simp: Let_def split: option.splits sum.splits)
    from Cons.IH [OF r] f g True show ?thesis by simp
  qed
qed

lemma setComment_keeps:
  "setComment action s p arg = Inr arg' \<Longrightarrow>
   SchemaArg.name arg' = SchemaArg.name arg \<and> SchemaArg.inputType arg' = SchemaArg.inputType arg"
  by (auto simp: setComment_def split: option.splits if_splits inherited.splits)

lemma forEach_setComment_keeps:
  "forEach_setComment action s p as \<sigma> = (\<sigma>', r) \<Longrightarrow>
   SchemaArg.name (\<sigma>' a) = SchemaArg.name (\<sigma> a)
   \<and> SchemaArg.inputType (\<sigma>' a) = SchemaArg.inputType (\<sigma> a)"
proof (induction as arbitrary: \<sigma>)
  case Nil
  then show ?case by simp
next
  case (Cons b as)
  show ?case
  proof (cases "setComment action s p (\<sigma> b)")
    case (Inl e)
    with Cons.prems show ?thesis by simp
  next
    case (Inr arg)
    with Cons.prems have "forEach_setComment action s p as (\<sigma>(b := arg)) = (\<sigma>', r)" by simp
    from Cons.IH [OF this] setComment_keeps [OF Inr] show ?thesis
      by (cases "a = b") auto
  qed
qed

text \<open>
  Claim C4, as the emitter has it. \<open>Model.argsTypes\<close> yields nothing for an entity
  without a mapping. For an entity with a mapping it yields, in the order of the actions,
  one argument type per action with a truthy entry in the mapping (the reduced
  \<open>MinimalArgsType\<close> for \<open>updateMany\<close> and \<open>deleteMany\<close>, an \<open>ArgsType\<close> otherwise, both
  over the arguments of the mapped root field), followed by one more \<open>ArgsType\<close> without
  arguments and without action. The text of an \<open>ArgsType\<close> is the type declaration whose
  members are the member \<open>select\<close>, then the member \<open>include\<close> exactly when the model has
  a relation field, then the declared arguments in their order, whose names and input
  types the emission leaves as they were. The text of a \<open>MinimalArgsType\<close> is the type
  declaration with the declared arguments as its only members. Where the names of the
  select and include shapes are no scalars of the table, the two members are
  \<open>select?: XSelect | null\<close> and \<open>include?: XInclude | null\<close> under their comments.
\<close>

theorem argsTypes_members:
  "(Model_argsTypes acts d mapping mdl = Inr gens \<longrightarrow>
      gens = (case mapping of
                None \<Rightarrow> []
              | Some mp \<Rightarrow>
                  map (\<lambda>action.
                         (if action = ''updateMany'' \<or> action = ''deleteMany''
                          then MinimalArgsType else ArgsType)
                           (SchemaField.args (the (getField d (the (Mapping_get mp action)))))
                           mdl (Some action))
                      (filter (\<lambda>a. truthy (Mapping_get mp a)) acts)
                  @ [ArgsType [] mdl None]))
   \<and> (ArgsType_toTS h as mdl action \<sigma> = (\<sigma>', Inr out) \<longrightarrow>
        (\<exists>sel inc members.
            InputField_toTS h False
              (SchemaArg ''select''
                 [SchemaArgInputType (TypeName (getSelectName h (Model.name mdl))) ''object''
                    False False True]
                 (Some (JSString (''Select specific fields to fetch from the ''
                                  @ Model.name mdl)))) = Inr sel
          \<and> InputField_toTS h False
              (SchemaArg ''include''
                 [SchemaArgInputType (TypeName (getIncludeName h (Model.name mdl))) ''object''
                    False False True]
                 (Some (JSString ''Choose, which related nodes to fetch as well.''))) = Inr inc
          \<and> mapE (InputField_toTS h False) (map \<sigma>' as) = Inr members
          \<and> out = NL @ ''/**'' @ NL
                  @ '' * '' @ Model.name mdl @ '' ''
                  @ (case action of
                       None \<Rightarrow> ''without action''
                     | Some a \<Rightarrow> if a = [] then ''without action'' else a) @ NL
                  @ '' */'' @ NL
                  @ ''export type '' @ getModelArgName h (Model.name mdl) action @ '' = {'' @ NL
                  @ indent h
                      (join NL
                         (sel
                          # (if list_ex (\<lambda>f. BaseField.kind f = ''object'') (Model.fields mdl)
                             then [inc] else [])
                          @ members)) tab @ NL
                  @ ''}'' @ NL)
        \<and> map (\<lambda>a. SchemaArg.name (\<sigma>' a)) as = map (\<lambda>a. SchemaArg.name (\<sigma> a)) as
        \<and> map (\<lambda>a. SchemaArg.inputType (\<sigma>' a)) as = map (\<lambda>a. SchemaArg.inputType (\<sigma> a)) as)
   \<and> (MinimalArgsType_toTS h as mdl action \<sigma> = Inr out \<longrightarrow>
        (\<exists>members.
            mapE (InputField_toTS h False) (map \<sigma> as) = Inr members
          \<and> out = NL @ ''/**'' @ NL
                  @ '' * '' @ Model.name mdl @ '' ''
                  @ (case action of
                       None \<Rightarrow> ''without action''
                     | Some a \<Rightarrow> if a = [] then ''without action'' else a) @ NL
                  @ '' */'' @ NL
                  @ ''export type '' @ getModelArgName h (Model.name mdl) action @ '' = {'' @ NL
                  @ indent h (join NL members) tab @ NL
                  @ ''}'' @ NL))
   \<and> (GraphQLScalarToJSTypeTable h x = None \<and> x \<noteq> ''null'' \<longrightarrow>
        InputField_toTS h False
          (SchemaArg ''select'' [SchemaArgInputType (TypeName x) ''object'' False False True]
             (Some (JSString (''Select specific fields to fetch from the '' @ Model.name mdl))))
          = Inr (wrapComment (''Select specific fields to fetch from the '' @ Model.name mdl) @ NL
                 @ ''select?: '' @ x @ '' | null'')
      \<and> InputField_toTS h False
          (SchemaArg ''include'' [SchemaArgInputType (TypeName x) ''object'' False False True]
             (Some (JSString ''Choose, which related nodes to fetch as well.'')))
          = Inr (wrapComment ''Choose, which related nodes to fetch as well.'' @ NL
                 @ ''include?: '' @ x @ '' | null''))"
proof (intro conjI impI)
  assume a: "Model_argsTypes acts d mapping mdl = Inr gens"
  show "gens = (case mapping of
                None \<Rightarrow> []
              | Some mp \<Rightarrow>
                  map (\<lambda>action.
                         (if action = ''updateMany'' \<or> action = ''deleteMany''
                          then MinimalArgsType else ArgsType)
                           (SchemaField.args (the (getField d (the (Mapping_get mp action)))))
                           mdl (Some action))
                      (filter (\<lambda>a. truthy (Mapping_get mp a)) acts)
                  @ [ArgsType [] mdl None])"
  proof (cases mapping)
    case None
    with a show ?thesis
      by (simp add: Model_argsTypes_def)
  next
    case (Some mp)
    with a obtain rest where r: "argsTypes_loop d mp mdl acts = Inr rest"
      and g: "gens = rest @ [ArgsType [] mdl None]"
      by (auto simp: Model_argsTypes_def split: sum.splits)
    from argsTypes_loop_shape [OF r] g Some show ?thesis
      by simp
  qed
next
  assume a: "ArgsType_toTS h as mdl action \<sigma> = (\<sigma>', Inr out)"
  then obtain all where
    fe: "forEach_setComment action (Model.name mdl) (pluralize h (Model.name mdl)) as \<sigma> = (\<sigma>', None)"
    and m: "mapE (InputField_toTS h False) (bothArgsOptional h mdl (map \<sigma>' as)) = Inr all"
    and t: "out = argsTypeText h (Model.name mdl) action all"
    by (auto simp: ArgsType_toTS_def Let_def split: prod.splits option.splits sum.splits)
  from m obtain sel rest where
    s: "InputField_toTS h False (selectArg h (Model.name mdl)) = Inr sel" and
    r: "mapE (InputField_toTS h False)
          ((if hasRelationField mdl then [includeArg h (Model.name mdl)] else []) @ map \<sigma>' as)
        = Inr rest" and
    e: "all = sel # rest"
    by (auto simp: bothArgsOptional_def split: sum.splits)
  obtain inc where i: "InputField_toTS h False (includeArg h (Model.name mdl)) = Inr inc"
    by (auto simp: includeArg_def InputField_toTS_def InputField_jsdoc_def Let_def)
  from r i obtain members where
    d: "mapE (InputField_toTS h False) (map \<sigma>' as) = Inr members" and
    f: "rest = (if hasRelationField mdl then [inc] else []) @ members"
    by (cases "hasRelationField mdl") (auto split: sum.splits)
  from s i d t e f
  show "\<exists>sel inc members.
            InputField_toTS h False
              (SchemaArg ''select''
                 [SchemaArgInputType (TypeName (getSelectName h (Model.name mdl))) ''object''
                    False False True]
                 (Some (JSString (''Select specific fields to fetch from the ''
                                  @ Model.name mdl)))) = Inr sel
          \<and> InputField_toTS h False
              (SchemaArg ''include''
                 [SchemaArgInputType (TypeName (getIncludeName h (Model.name mdl))) ''object''
                    False False True]
                 (Some (JSString ''Choose, which related nodes to fetch as well.''))) = Inr inc
          \<and> mapE (InputField_toTS h False) (map \<sigma>' as) = Inr members
          \<and> out = NL @ ''/**'' @ NL
                  @ '' * '' @ Model.name mdl @ '' ''
                  @ (case action of
                       None \<Rightarrow> ''without action''
                     | Some a \<Rightarrow> if a = [] then ''without action'' else a) @ NL
                  @ '' */'' @ NL
                  @ ''export type '' @ getModelArgName h (Model.name mdl) action @ '' = {'' @ NL
                  @ indent h
                      (join NL
                         (sel
                          # (if list_ex (\<lambda>f. BaseField.kind f = ''object'') (Model.fields mdl)
                             then [inc] else [])
                          @ members)) tab @ NL
                  @ ''}'' @ NL"
    by (simp add: selectArg_def includeArg_def argsTypeText_def actionText_def
          hasRelationField_def)
  from forEach_setComment_keeps [OF fe]
  show "map (\<lambda>a. SchemaArg.name (\<sigma>' a)) as = map (\<lambda>a. SchemaArg.name (\<sigma> a)) as"
    by simp
  from forEach_setComment_keeps [OF fe]
  show "map (\<lambda>a. SchemaArg.inputType (\<sigma>' a)) as = map (\<lambda>a. SchemaArg.inputType (\<sigma> a)) as"
    by simp
next
  assume "MinimalArgsType_toTS h as mdl action \<sigma> = Inr out"
  then show "\<exists>members.
            mapE (InputField_toTS h False) (map \<sigma> as) = Inr members
          \<and> out = NL @ ''/**'' @ NL
                  @ '' * '' @ Model.name mdl @ '' ''
                  @ (case action of
                       None \<Rightarrow> ''without action''
                     | Some a \<Rightarrow> if a = [] then ''without action'' else a) @ NL
                  @ '' */'' @ NL
                  @ ''export type '' @ getModelArgName h (Model.name mdl) action @ '' = {'' @ NL
                  @ indent h (join NL members) tab @ NL
                  @ ''}'' @ NL"
    by (auto simp: MinimalArgsType_toTS_def argsTypeText_def actionText_def split: sum.splits)
next
  assume x: "GraphQLScalarToJSTypeTable h x = None \<and> x \<noteq> ''null''"
  then show "InputField_toTS h False
          (SchemaArg ''select'' [SchemaArgInputType (TypeName x) ''object'' False False True]
             (Some (JSString (''Select specific fields to fetch from the '' @ Model.name mdl))))
          = Inr (wrapComment (''Select specific fields to fetch from the '' @ Model.name mdl) @ NL
                 @ ''select?: '' @ x @ '' | null'')"
    by (simp add: InputField_toTS_text Let_def)
  from x show "InputField_toTS h False
          (SchemaArg ''include'' [SchemaArgInputType (TypeName x) ''object'' False False True]
             (Some (JSString ''Choose, which related nodes to fetch as well.'')))
          = Inr (wrapComment ''Choose, which related nodes to fetch as well.'' @ NL
                 @ ''include?: '' @ x @ '' | null'')"
    by (simp add: InputField_toTS_text Let_def)
qed

text \<open>
  Claim C4 as stated fails for an entity without a mapping: its section is emitted, and
  the payload type in it names \<open>TagArgs\<close>, but no argument type follows, the bare one
  included.
\<close>

theorem argsTypes_members_counterexample:
  "mappings orphan_dmmf = []
   \<and> Model_argsTypes sample_ModelAction orphan_dmmf None sample_Tag = Inr []
   \<and> snd (Model_toTS sample_helpers sample_ModelAction orphan_dmmf sample_Tag sample_store)
       = Inr (join NL
           [[],
            ''/**'',
            '' * Model Tag'',
            '' */'',
            [],
            ''export type Tag = {'',
            ''  id: number'',
            ''}'',
            [],
            ''export type TagSelect = {'',
            ''  id?: boolean'',
            ''}'',
            [],
            ''export type TagGetPayload<'',
            ''  S extends boolean | null | undefined | TagArgs,'',
            ''  U = keyof S'',
            ''> = S extends true'',
            ''  ? Tag'',
            ''  : S extends undefined'',
            ''  ? never'',
            ''  : S extends TagArgs | FindManyTagArgs'',
            ''  ? '' @ SQ @ ''include'' @ SQ @ '' extends U'',
            ''    ? Tag '',
            ''  : '' @ SQ @ ''select'' @ SQ @ '' extends U'',
            ''    ? {'',
            ''      [P in TrueKeys<S['' @ SQ @ ''select'' @ SQ @ '']>]:P extends keyof Tag ? Tag[P]'',
            '': '',
            '' never'',
            ''    }'',
            ''  : Tag'',
            '': Tag'',
            [],
            [],
            [],
            [],
            ''// Custom InputTypes'',
            [],
            []])"
  by code_simp

text \<open>
  The three argument types of \<open>Post\<close> in the sample schema: \<open>findMany\<close>, the reduced one
  of \<open>updateMany\<close>, and the bare one.
\<close>

theorem argsTypes_members_witness:
  "Model_argsTypes sample_ModelAction sample_dmmf (Some sample_PostMapping) sample_Post
     = Inr [ArgsType [0] sample_Post (Some ''findMany''),
            MinimalArgsType [0] sample_Post (Some ''updateMany''),
            ArgsType [] sample_Post None]
   \<and> [ArgsType [0] sample_Post (Some ''findMany''),
       MinimalArgsType [0] sample_Post (Some ''updateMany''),
       ArgsType [] sample_Post None]
     = map (\<lambda>action.
              (if action = ''updateMany'' \<or> action = ''deleteMany''
               then MinimalArgsType else ArgsType)
                (SchemaField.args
                   (the (getField sample_dmmf (the (Mapping_get sample_PostMapping action)))))
                sample_Post (Some action))
           (filter (\<lambda>a. truthy (Mapping_get sample_PostMapping a)) sample_ModelAction)
       @ [ArgsType [] sample_Post None]
   \<and> snd (ArgsType_toTS sample_helpers [0] sample_Post (Some ''findMany'') sample_store)
       = Inr (join NL
           [[],
            ''/**'',
            '' * Post findMany'',
            '' */'',
            ''export type FindManyPostArgs = {'',
            ''  /**'',
            ''   * Select specific fields to fetch from the Post'',
            ''  **/'',
            ''  select?: PostSelect | null'',
            ''  /**'',
            ''   * Choose, which related nodes to fetch as well.'',
            ''  **/'',
            ''  include?: PostInclude | null'',
            ''  /**'',
            ''   * Filter, which Posts to fetch.'',
            ''  **/'',
            ''  where?: PostWhereInput | null'',
            ''}'',
            []])
   \<and> MinimalArgsType_toTS sample_helpers [0] sample_Post (Some ''updateMany'') sample_store
       = Inr (join NL
           [[],
            ''/**'',
            '' * Post updateMany'',
            '' */'',
            ''export type PostUpdateManyArgs = {'',
            ''  where?: PostWhereInput | null'',
            ''}'',
            []])
   \<and> snd (ArgsType_toTS sample_helpers [] sample_Post None sample_store)
       = Inr (join NL
           [[],
            ''/**'',
            '' * Post without action'',
            '' */'',
            ''export type PostArgs = {'',
            ''  /**'',
            ''   * Select specific fields to fetch from the Post'',
            ''  **/'',
            ''  select?: PostSelect | null'',
            ''  /**'',
            ''   * Choose, which related nodes to fetch as well.'',
            ''  **/'',
            ''  include?: PostInclude | null'',
            ''}'',
            []])"
proof -
  have g: "Model_argsTypes sample_ModelAction sample_dmmf (Some sample_PostMapping) sample_Post
     = Inr [ArgsType [0] sample_Post (Some ''findMany''),
            MinimalArgsType [0] sample_Post (Some ''updateMany''),
            ArgsType [] sample_Post None]"
    by code_simp
  have a: "snd (ArgsType_toTS sample_helpers [0] sample_Post (Some ''findMany'') sample_store)
       = Inr (join NL
           [[],
            ''/**'',
            '' * Post findMany'',
            '' */'',
            ''export type FindManyPostArgs = {'',
            ''  /**'',
            ''   * Select specific fields to fetch from the Post'',
            ''  **/'',
            ''  select?: PostSelect | null'',
            ''  /**'',
            ''   * Choose, which related nodes to fetch as well.'',
            ''  **/'',
            ''  include?: PostInclude | null'',
            ''  /**'',
            ''   * Filter, which Posts to fetch.'',
            ''  **/'',
            ''  where?: PostWhereInput | null'',
            ''}'',
            []])"
    by code_simp
  have m: "MinimalArgsType_toTS sample_helpers [0] sample_Post (Some ''updateMany'') sample_store
       = Inr (join NL
           [[],
            ''/**'',
            '' * Post updateMany'',
            '' */'',
            ''export type PostUpdateManyArgs = {'',
            ''  where?: PostWhereInput | null'',
            ''}'',
            []])"
    by code_simp
  have b: "snd (ArgsType_toTS sample_helpers [] sample_Post None sample_store)
       = Inr (join NL
           [[],
            ''/**'',
            '' * Post without action'',
            '' */'',
            ''export type PostArgs = {'',
            ''  /**'',
            ''   * Select specific fields to fetch from the Post'',
            ''  **/'',
            ''  select?: PostSelect | null'',
            ''  /**'',
            ''   * Choose, which related nodes to fetch as well.'',
            ''  **/'',
            ''  include?: PostInclude | null'',
            ''}'',
            []])"
    by code_simp
  from argsTypes_members
         [of sample_ModelAction sample_dmmf "Some sample_PostMapping" sample_Post
             "[ArgsType [0] sample_Post (Some ''findMany''),
               MinimalArgsType [0] sample_Post (Some ''updateMany''),
               ArgsType [] sample_Post None]"] g
  have s: "[ArgsType [0] sample_Post (Some ''findMany''),
       MinimalArgsType [0] sample_Post (Some ''updateMany''),
       ArgsType [] sample_Post None]
     = map (\<lambda>action.
              (if action = ''updateMany'' \<or> action = ''deleteMany''
               then MinimalArgsType else ArgsType)
                (SchemaField.args
                   (the (getField sample_dmmf (the (Mapping_get sample_PostMapping action)))))
                sample_Post (Some action))
           (filter (\<lambda>a. truthy (Mapping_get sample_PostMapping a)) sample_ModelAction)
       @ [ArgsType [] sample_Post None]"
    by simp
  from g s a m b show ?thesis
    by (intro conjI)
qed

lemma Object_entries_keys:
  assumes "distinct (map fst (Mapping.entries mp))" "a \<noteq> ''model''" "a \<noteq> ''plural''"
  shows "((a, v) \<in> set (Object_entries mp) \<and> truthy v) = (Mapping_get mp a = v \<and> truthy v)"
proof -
  have "((a, v) \<in> set (Object_entries mp)) = (map_of (Mapping.entries mp) a = Some v)"
    using assms by (simp add: Object_entries_def map_of_eq_Some_iff)
  moreover have "truthy v \<Longrightarrow> (Mapping_get mp a = v) = (map_of (Mapping.entries mp) a = Some v)"
    using assms(2,3) by (cases v) (auto simp: Mapping_get_def split: option.splits)
  ultimately show ?thesis by blast
qed

text \<open>
  Claim C5. Let \<open>dmmf.mappings\<close> hold a mapping for the type (its keys distinct, as the
  properties of an object are). The operations of the delegate are the entries that pass
  the filter: an action is among them exactly when it is none of \<open>model\<close>, \<open>plural\<close>,
  \<open>aggregate\<close> and the mapping has a truthy value for it. The interface consists of one
  text per such entry and nothing else before the \<open>count\<close> operation, which is always
  there and takes the find-many argument type with \<open>select\<close> and \<open>include\<close> omitted.
\<close>

theorem ModelDelegate_operations:
  assumes "find (\<lambda>m. Mapping.model m = OutputType.name ot) (mappings d) = Some mp"
      and "distinct (map fst (Mapping.entries mp))"
  shows "(\<forall>a. a \<in> fst ` set (ModelDelegate_actions mp) \<longleftrightarrow>
               a \<noteq> ''model'' \<and> a \<noteq> ''plural'' \<and> a \<noteq> ''aggregate''
               \<and> truthy (Mapping_get mp a))
       \<and> ModelDelegate_toTS h d ot =
           (case mapE (\<lambda>(a, v). ModelDelegate_method h (OutputType.name ot) mp
                                  (map_of (modelMap d) (OutputType.name ot)) a)
                   (ModelDelegate_actions mp) of
              Inl e \<Rightarrow> Inl e
            | Inr methods \<Rightarrow>
                Inr (''export interface '' @ OutputType.name ot @ ''Delegate {'' @ NL
                     @ indent h (join NL methods) tab @ NL
                     @ ''  /**'' @ NL @ ''   * '' @ NL @ ''   */'' @ NL
                     @ ''  count(args?: Omit<''
                     @ getModelArgName h (OutputType.name ot) (Some ''findMany'')
                     @ '', '' @ SQ @ ''select'' @ SQ @ '' | '' @ SQ @ ''include'' @ SQ
                     @ ''>): Promise<number>'' @ NL
                     @ ''}'' @ NL @ NL
                     @ clientClassHead (OutputType.name ot) @ NL
                     @ indent h (join NL (map (ModelDelegate_accessor h)
                                            (filter isRelation (OutputType.fields ot)))) 2
                     @ NL @ clientClassTail))"
proof (intro conjI allI)
  fix a
  show "a \<in> fst ` set (ModelDelegate_actions mp) \<longleftrightarrow>
        a \<noteq> ''model'' \<and> a \<noteq> ''plural'' \<and> a \<noteq> ''aggregate'' \<and> truthy (Mapping_get mp a)"
  proof
    assume "a \<in> fst ` set (ModelDelegate_actions mp)"
    then obtain v where v: "(a, v) \<in> set (Object_entries mp)" "truthy v"
      and k: "a \<noteq> ''model''" "a \<noteq> ''plural''" "a \<noteq> ''aggregate''"
      by (auto simp: ModelDelegate_actions_def)
    from Object_entries_keys [OF assms(2) k(1) k(2), of v] v have "truthy (Mapping_get mp a)"
      by simp
    with k show "a \<noteq> ''model'' \<and> a \<noteq> ''plural'' \<and> a \<noteq> ''aggregate'' \<and> truthy (Mapping_get mp a)"
      by simp
  next
    assume r: "a \<noteq> ''model'' \<and> a \<noteq> ''plural'' \<and> a \<noteq> ''aggregate'' \<and> truthy (Mapping_get mp a)"
    then have "(a, Mapping_get mp a) \<in> set (Object_entries mp)"
      using Object_entries_keys [OF assms(2), of a "Mapping_get mp a"] by simp
    with r show "a \<in> fst ` set (ModelDelegate_actions mp)"
      by (force simp: ModelDelegate_actions_def)
  qed
next
  from assms(1)
  show "ModelDelegate_toTS h d ot =
           (case mapE (\<lambda>(a, v). ModelDelegate_method h (OutputType.name ot) mp
                                  (map_of (modelMap d) (OutputType.name ot)) a)
                   (ModelDelegate_actions mp) of
              Inl e \<Rightarrow> Inl e
            | Inr methods \<Rightarrow>
                Inr (''export interface '' @ OutputType.name ot @ ''Delegate {'' @ NL
                     @ indent h (join NL methods) tab @ NL
                     @ ''  /**'' @ NL @ ''   * '' @ NL @ ''   */'' @ NL
                     @ ''  count(args?: Omit<''
                     @ getModelArgName h (OutputType.name ot) (Some ''findMany'')
                     @ '', '' @ SQ @ ''select'' @ SQ @ '' | '' @ SQ @ ''include'' @ SQ
                     @ ''>): Promise<number>'' @ NL
                     @ ''}'' @ NL @ NL
                     @ clientClassHead (OutputType.name ot) @ NL
                     @ indent h (join NL (map (ModelDelegate_accessor h)
                                            (filter isRelation (OutputType.fields ot)))) 2
                     @ NL @ clientClassTail))"
    by (simp add: ModelDelegate_toTS_def ModelDelegate_count_def Let_def split: sum.split)
qed


theorem ModelDelegate_operations_witness:
  "find (\<lambda>m. Mapping.model m = OutputType.name sample_PostType) (mappings sample_dmmf)
     = Some sample_PostMapping
   \<and> distinct (map fst (Mapping.entries sample_PostMapping))
   \<and> ModelDelegate_actions sample_PostMapping
       = [(''findMany'', Some ''findManyPost''), (''updateMany'', Some ''updateManyPost'')]
   \<and> ''findMany'' \<in> fst ` set (ModelDelegate_actions sample_PostMapping)
   \<and> ''delete'' \<notin> fst ` set (ModelDelegate_actions sample_PostMapping)
   \<and> ''aggregate'' \<notin> fst ` set (ModelDelegate_actions sample_PostMapping)
   \<and> Mapping_get sample_PostMapping ''delete'' = None
   \<and> Mapping_get sample_PostMapping ''aggregate'' = Some ''aggregatePost''"
proof -
  have f: "find (\<lambda>m. Mapping.model m = OutputType.name sample_PostType) (mappings sample_dmmf)
     = Some sample_PostMapping"
    by code_simp
  have d: "distinct (map fst (Mapping.entries sample_PostMapping))"
    by (simp add: sample_PostMapping_def)
  have a: "ModelDelegate_actions sample_PostMapping
       = [(''findMany'', Some ''findManyPost''), (''updateMany'', Some ''updateManyPost'')]"
    by code_simp
  have g: "Mapping_get sample_PostMapping ''delete'' = None"
          "Mapping_get sample_PostMapping ''aggregate'' = Some ''aggregatePost''"
          "Mapping_get sample_PostMapping ''findMany'' = Some ''findManyPost''"
    by (simp_all add: Mapping_get_def sample_PostMapping_def)
  from ModelDelegate_operations [OF f d, of sample_helpers]
  have k: "\<And>a. a \<in> fst ` set (ModelDelegate_actions sample_PostMapping) \<longleftrightarrow>
               a \<noteq> ''model'' \<and> a \<noteq> ''plural'' \<and> a \<noteq> ''aggregate''
               \<and> truthy (Mapping_get sample_PostMapping a)"
    by blast
  have "''findMany'' \<in> fst ` set (ModelDelegate_actions sample_PostMapping)"
    using k [of "''findMany''"] g by simp
  moreover have "''delete'' \<notin> fst ` set (ModelDelegate_actions sample_PostMapping)"
    using k [of "''delete''"] g by simp
  moreover have "''aggregate'' \<notin> fst ` set (ModelDelegate_actions sample_PostMapping)"
    using k [of "''aggregate''"] by simp
  ultimately show ?thesis using f d a g by blast
qed

section \<open>Properties of the payload types\<close>



text \<open>
  The argument type that \<open>argsDecl\<close> finds for \<open>n\<close> is one that \<open>Model.argsTypes\<close> yields
  for a model of the schema: the bare one of the model named \<open>n\<close>, or the one of its action
  \<open>findMany\<close>.
\<close>

lemma argsDecl_declared:
  assumes "argsDecl acts d n many = Some (as, mdl)"
  shows "Model.name mdl = n
         \<and> (\<exists>m \<in> set (map snd (modelMap d)). \<exists>gens.
              Model_argsTypes acts d (find (\<lambda>mp. Mapping.model mp = Model.name m) (mappings d)) m
                = Inr gens
              \<and> ArgsType as mdl (if many then Some ''findMany'' else None) \<in> set gens)"
proof -
  from assms obtain act where
    f: "find (isArgsType n (if many then Some ''findMany'' else None)) (moduleArgsTypes acts d)
          = Some (ArgsType as mdl act)"
    by (auto simp: argsDecl_def split: option.splits Generatable.splits)
  then obtain k where k: "k < length (moduleArgsTypes acts d)"
    and p: "isArgsType n (if many then Some ''findMany'' else None) (moduleArgsTypes acts d ! k)"
    and q: "ArgsType as mdl act = moduleArgsTypes acts d ! k"
    unfolding find_Some_iff by blast
  from p q have i: "isArgsType n (if many then Some ''findMany'' else None) (ArgsType as mdl act)"
    by simp
  from k q have e: "ArgsType as mdl act \<in> set (moduleArgsTypes acts d)"
    by (simp add: nth_mem)
  from i have nm: "Model.name mdl = n" and a: "act = (if many then Some ''findMany'' else None)"
    by simp_all
  from e a have "\<exists>m \<in> set (map snd (modelMap d)). \<exists>gens.
              Model_argsTypes acts d (find (\<lambda>mp. Mapping.model mp = Model.name m) (mappings d)) m
                = Inr gens
              \<and> ArgsType as mdl (if many then Some ''findMany'' else None) \<in> set gens"
    by (auto simp: moduleArgsTypes_def split: sum.splits) (metis image_eqI snd_conv)+
  with nm show ?thesis
    by (rule conjI)
qed










text \<open>
  The text of the payload type for \<open>Post\<close> in the sample schema, the program that
  \<open>GetPayload\<close> runs.
\<close>

lemma PayloadType_toTS_sample:
  "PayloadType_toTS sample_helpers sample_PostType = join NL
     [''export type PostGetPayload<'',
      ''  S extends boolean | null | undefined | PostArgs,'',
      ''  U = keyof S'',
      ''> = S extends true'',
      ''  ? Post'',
      ''  : S extends undefined'',
      ''  ? never'',
      ''  : S extends PostArgs | FindManyPostArgs'',
      ''  ? '' @ SQ @ ''include'' @ SQ @ '' extends U'',
      ''    ? Post  & {'',
      ''      [P in TrueKeys<S['' @ SQ @ ''include'' @ SQ @ '']>]:'',
      ''      P extends '' @ SQ @ ''author'' @ SQ,
      ''      ? UserGetPayload<S['' @ SQ @ ''include'' @ SQ @ ''][P]> | null : never'',
      ''    }'',
      ''  : '' @ SQ @ ''select'' @ SQ @ '' extends U'',
      ''    ? {'',
      ''      [P in TrueKeys<S['' @ SQ @ ''select'' @ SQ @ '']>]:P extends keyof Post ? Post[P]'',
      '': '',
      ''      P extends '' @ SQ @ ''author'' @ SQ,
      ''      ? UserGetPayload<S['' @ SQ @ ''select'' @ SQ @ ''][P]> | null : never'',
      ''    }'',
      ''  : Post'',
      '': Post'',
      []]"
  by code_simp

section \<open>The caller's document is not written to\<close>


lemma forEach_setComment_frame:
  "a \<notin> set as \<Longrightarrow> fst (forEach_setComment action s p as \<sigma>) a = \<sigma> a"
proof (induction as arbitrary: \<sigma>)
  case Nil
  then show ?case by simp
next
  case (Cons b as)
  then show ?case by (cases "setComment action s p (\<sigma> b)") auto
qed

lemma ArgsType_toTS_frame:
  "a \<notin> set as \<Longrightarrow> fst (ArgsType_toTS h as mdl action \<sigma>) a = \<sigma> a"
  using forEach_setComment_frame [of a as action "Model.name mdl" "pluralize h (Model.name mdl)" \<sigma>]
  by (auto simp: ArgsType_toTS_def Let_def split: prod.splits option.splits sum.splits)

lemma TS_frame:
  "a \<notin> cells g \<Longrightarrow> fst (TS h g \<sigma>) a = \<sigma> a"
  by (cases g) (simp_all add: ArgsType_toTS_frame)

lemma map_TS_frame:
  "\<forall>g \<in> set gs. a \<notin> cells g \<Longrightarrow> fst (map_TS h gs \<sigma>) a = \<sigma> a"
proof (induction gs arbitrary: \<sigma>)
  case Nil
  then show ?case by simp
next
  case (Cons g gs)
  have 1: "fst (TS h g \<sigma>) a = \<sigma> a" using Cons.prems by (simp add: TS_frame)
  have 2: "fst (map_TS h gs \<sigma>') a = \<sigma>' a" for \<sigma>' using Cons by simp
  show ?case
    using 1 2 [of "fst (TS h g \<sigma>)"]
    by (auto split: prod.splits sum.splits)
qed


lemma getField_cells:
  assumes "getField d n = Some f"
  shows "set (SchemaField.args f) \<subseteq> rootCells d"
proof -
  from assms have "f \<in> set (rootFields d)"
    by (auto simp: getField_def find_Some_iff)
  then show ?thesis
    by (auto simp: rootCells_def)
qed

lemma argsTypes_loop_cells:
  "argsTypes_loop d mp mdl acts = Inr gens \<Longrightarrow> g \<in> set gens \<Longrightarrow> cells g \<subseteq> rootCells d"
proof (induction acts arbitrary: gens)
  case Nil
  then show ?case by simp
next
  case (Cons a acts)
  show ?case
  proof (cases "truthy (Mapping_get mp a)")
    case False
    with Cons show ?thesis by (simp add: Let_def)
  next
    case True
    with Cons.prems(1) obtain fld rest where
      f: "getField d (the (Mapping_get mp a)) = Some fld" and
      r: "argsTypes_loop d mp mdl acts = Inr rest" and
      e: "gens = (if a = ''updateMany'' \<or> a = ''deleteMany''
                  then MinimalArgsType (SchemaField.args fld) mdl (Some a)
                  else ArgsType (SchemaField.args fld) mdl (Some a)) # rest"
      by (auto simp: Let_def split: option.splits sum.splits)
    from Cons.prems(2) e have "g \<in> set rest \<or> cells g = set (SchemaField.args fld)"
      by (auto split: if_splits)
    then show ?thesis
      using Cons.IH [OF r] getField_cells [OF f] by auto
  qed
qed

lemma Model_argsTypes_cells:
  assumes "Model_argsTypes acts d mapping mdl = Inr gens" and "g \<in> set gens"
  shows "cells g \<subseteq> rootCells d"
proof (cases mapping)
  case None
  with assms show ?thesis by (simp add: Model_argsTypes_def)
next
  case (Some mp)
  with assms(1) obtain rest where
    r: "argsTypes_loop d mp mdl acts = Inr rest" and e: "gens = rest @ [ArgsType [] mdl None]"
    by (auto simp: Model_argsTypes_def split: sum.splits)
  from assms(2) e have "g \<in> set rest \<or> cells g = {}"
    by auto
  then show ?thesis
    using argsTypes_loop_cells [OF r] by auto
qed

lemma Model_toTS_frame:
  assumes "a \<notin> rootCells d"
  shows "fst (Model_toTS h acts d mdl \<sigma>) a = \<sigma> a"
proof -
  have m: "fst (map_TS h gens \<sigma>) a = \<sigma> a"
    if "Model_argsTypes acts d mapping mdl = Inr gens" for mapping gens
  proof (rule map_TS_frame, rule ballI)
    fix g assume "g \<in> set gens"
    from Model_argsTypes_cells [OF that this] assms show "a \<notin> cells g"
      by auto
  qed
  show ?thesis
  proof (cases "Model_argsTypes acts d
                  (find (\<lambda>m. Mapping.model m = Model.name mdl) (mappings d)) mdl")
    case (Inl e)
    then show ?thesis
      by (auto simp: Model_toTS_def Let_def split: option.splits sum.splits prod.splits)
  next
    case (Inr gens)
    from m [OF Inr] Inr show ?thesis
      by (auto simp: Model_toTS_def Let_def split: option.splits sum.splits prod.splits)
  qed
qed

lemma map_Model_toTS_frame:
  assumes "a \<notin> rootCells d"
  shows "fst (map_Model_toTS h acts d ms \<sigma>) a = \<sigma> a"
proof (induction ms arbitrary: \<sigma>)
  case Nil
  then show ?case by simp
next
  case (Cons m ms)
  have 1: "fst (Model_toTS h acts d m \<sigma>) a = \<sigma> a" using assms by (rule Model_toTS_frame)
  show ?case
    using 1 Cons [of "fst (Model_toTS h acts d m \<sigma>)"]
    by (auto split: prod.splits sum.splits)
qed

lemma TSClient_toTS_frame:
  assumes "a \<notin> rootCells d"
  shows "fst (TSClient_toTS h acts cc pc d \<sigma>) a = \<sigma> a"
  using map_Model_toTS_frame [OF assms, of h acts "map snd (modelMap d)" \<sigma>]
  by (auto simp: TSClient_toTS_def modelsSection_def split: sum.splits prod.splits)

lemma emit_frame:
  "a \<notin> rootCells (TSClient.dmmf client) \<Longrightarrow> fst (emit h env client e \<sigma>) a = \<sigma> a"
  by (cases e) (simp_all add: TSClient_toTS_frame)

lemma emit_all_frame:
  "a \<notin> rootCells (TSClient.dmmf client) \<Longrightarrow> emit_all h env client es \<sigma> a = \<sigma> a"
  by (induction es arbitrary: \<sigma>) (simp_all add: emit_frame)

lemma klona_args_fresh:
  "klona_args as (\<sigma>, n) = (as', (\<sigma>', n')) \<Longrightarrow>
   n \<le> n' \<and> (\<forall>a \<in> set as'. n \<le> a \<and> a < n') \<and> (\<forall>a < n. \<sigma>' a = \<sigma> a)"
proof (induction as arbitrary: \<sigma> n as')
  case Nil
  then show ?case by simp
next
  case (Cons b as)
  from Cons.prems obtain bs where
    k: "klona_args as (\<sigma>(n := \<sigma> b), Suc n) = (bs, (\<sigma>', n'))" and e: "as' = n # bs"
    by (auto split: prod.splits)
  from Cons.IH [OF k] e show ?case by auto
qed

lemma klona_fields_fresh:
  "klona_fields fs (\<sigma>, n) = (fs', (\<sigma>', n')) \<Longrightarrow>
   n \<le> n' \<and> (\<forall>f \<in> set fs'. \<forall>a \<in> set (SchemaField.args f). n \<le> a \<and> a < n')
   \<and> (\<forall>a < n. \<sigma>' a = \<sigma> a)"
proof (induction fs arbitrary: \<sigma> n fs')
  case Nil
  then show ?case by simp
next
  case (Cons f fs)
  from Cons.prems obtain as1 \<sigma>1 n1 fs1 where
    a: "klona_args (SchemaField.args f) (\<sigma>, n) = (as1, (\<sigma>1, n1))" and
    k: "klona_fields fs (\<sigma>1, n1) = (fs1, (\<sigma>', n'))" and
    e: "fs' = SchemaField (SchemaField.name f) (SchemaField.outputType f) as1 # fs1"
    by (auto split: prod.splits)
  from klona_args_fresh [OF a] Cons.IH [OF k] e show ?case by fastforce
qed

lemma klona_types_fresh:
  "klona_types ts (\<sigma>, n) = (ts', (\<sigma>', n')) \<Longrightarrow> n \<le> n' \<and> (\<forall>a < n. \<sigma>' a = \<sigma> a)"
proof (induction ts arbitrary: \<sigma> n ts')
  case Nil
  then show ?case by simp
next
  case (Cons kt ts)
  obtain k t where kt: "kt = (k, t)" by (cases kt)
  from Cons.prems kt obtain fs1 \<sigma>1 n1 ts1 where
    a: "klona_fields (OutputType.fields t) (\<sigma>, n) = (fs1, (\<sigma>1, n1))" and
    r: "klona_types ts (\<sigma>1, n1) = (ts1, (\<sigma>', n'))"
    by (auto split: prod.splits)
  from klona_fields_fresh [OF a] Cons.IH [OF r] show ?case by auto
qed

lemma klona_fresh:
  assumes "klona doc (\<sigma>, n) = (copy, (\<sigma>', n'))"
  shows "(\<forall>a \<in> rootCells copy. n \<le> a) \<and> (\<forall>a < n. \<sigma>' a = \<sigma> a)"
proof -
  from assms obtain ts1 \<sigma>1 n1 fs1 where
    t: "klona_types (outputTypeMap doc) (\<sigma>, n) = (ts1, (\<sigma>1, n1))" and
    f: "klona_fields (rootFields doc) (\<sigma>1, n1) = (fs1, (\<sigma>', n'))" and
    c: "copy = DMMFClass (enums doc) (modelMap doc) ts1 (mappings doc) (inputTypes doc) fs1"
    by (auto simp: klona_def split: prod.splits)
  from klona_types_fresh [OF t] klona_fields_fresh [OF f] c show ?thesis
    by (fastforce simp: rootCells_def)
qed

text \<open>
  Claim C8. The constructor hands the schema class a deep copy of the caller's document,
  and the only writes of an emission, the comment assignments of \<open>ArgsType.toTS\<close>, go
  to argument objects of that copy. So after any sequence of \<open>toTS\<close> and \<open>toJS\<close>
  emissions, failed ones included, every object that existed when the generator was
  constructed (every address below the allocation pointer \<open>n\<close>, which covers the
  argument descriptors of the caller's document and their comments) is what it was, and
  the document the generator was given is still that document.
\<close>

theorem caller_document_unchanged:
  assumes "TSClient_new env doc (\<sigma>, n) = (client, (\<sigma>0, n0))" and "a < n"
  shows "emit_all h env client es \<sigma>0 a = \<sigma> a \<and> TSClient.document client = doc"
proof -
  from assms(1) obtain copy where
    k: "klona doc (\<sigma>, n) = (copy, (\<sigma>0, n0))" and
    c: "client = TSClient doc (escapeJson (stringifyDocument env doc \<sigma>)) copy"
    by (auto simp: TSClient_new_def Let_def split: prod.splits)
  from klona_fresh [OF k] assms(2) have "a \<notin> rootCells copy" and "\<sigma>0 a = \<sigma> a"
    by auto
  with c show ?thesis
    using emit_all_frame [of a client h env es \<sigma>0] by simp
qed


text \<open>
  Without the copy the caller would see the write: run on the caller's own argument
  object, \<open>ArgsType.toTS\<close> sets its comment.
\<close>

lemma ArgsType_toTS_writes:
  "SchemaArg.comment (sample_store 0) = None
   \<and> SchemaArg.comment
        (fst (ArgsType_toTS sample_helpers [0] sample_Post (Some ''findMany'') sample_store) 0)
       = Some (JSString ''Filter, which Posts to fetch.'')"
  by code_simp

theorem caller_document_unchanged_witness:
  "(0::nat) < 1
   \<and> map SchemaField.args (rootFields sample_dmmf) = [[0], [0], []]
   \<and> map SchemaField.args
         (rootFields (TSClient.dmmf (fst (TSClient_new sample_environment sample_dmmf
                                            (sample_store, 1)))))
       = [[1], [2], []]
   \<and> emit_all sample_helpers sample_environment
         (fst (TSClient_new sample_environment sample_dmmf (sample_store, 1)))
         [ToTS, ToJS, ToTS]
         (fst (snd (TSClient_new sample_environment sample_dmmf (sample_store, 1)))) 0
       = sample_store 0
   \<and> TSClient.document (fst (TSClient_new sample_environment sample_dmmf (sample_store, 1)))
       = sample_dmmf"
proof -
  let ?new = "TSClient_new sample_environment sample_dmmf (sample_store, 1)"
  have n: "?new = (fst ?new, (fst (snd ?new), snd (snd ?new)))"
    by simp
  have l: "(0::nat) < 1"
    by simp
  have d: "map SchemaField.args (rootFields sample_dmmf) = [[0], [0], []]"
    by code_simp
  have c: "map SchemaField.args (rootFields (TSClient.dmmf (fst ?new))) = [[1], [2], []]"
    by code_simp
  from caller_document_unchanged [OF n l, of sample_helpers "[ToTS, ToJS, ToTS]"] l d c
  show ?thesis
    by blast
qed

section \<open>Order of the document\<close>

text \<open>Substrings of a concatenation, and the lines of a text joined with newlines.\<close>

lemma sublist_in_right:
  "sublist x b \<Longrightarrow> sublist x (a @ b)"
  by (simp add: sublist_append)

lemma sublist_in_left:
  "sublist x a \<Longrightarrow> sublist x (a @ b)"
  by (simp add: sublist_append)

lemma sublist_join:
  "x \<in> set xs \<Longrightarrow> sublist x (join sep xs)"
proof (induction sep xs rule: join.induct)
  case (1 sep)
  then show ?case by simp
next
  case (2 sep y)
  then show ?case by simp
next
  case (3 sep y z zs)
  show ?case
  proof (cases "x = y")
    case True
    then show ?thesis by simp
  next
    case False
    with 3 have "sublist x (join sep (z # zs))" by simp
    then have "sublist x (y @ sep @ join sep (z # zs))"
      by (intro sublist_in_right)
    then show ?thesis by simp
  qed
qed

lemma split_nl_ne:
  "split_nl s \<noteq> []"
  by (induction s) (simp_all split: list.splits)

lemma split_nl_NL:
  "split_nl (a @ NL @ b) = split_nl a @ split_nl b"
proof (induction a)
  case Nil
  then show ?case by (simp add: NL_def)
next
  case (Cons c a)
  obtain l ls where "split_nl a = l # ls"
    using split_nl_ne [of a] by (cases "split_nl a") simp_all
  with Cons show ?case
    by (simp add: NL_def)
qed

lemma notin_join:
  "x \<noteq> [] \<Longrightarrow> list_all (\<lambda>t. x \<notin> set (split_nl t)) ts \<Longrightarrow> x \<notin> set (split_nl (join NL ts))"
proof (induction NL ts rule: join.induct)
  case 1
  then show ?case by simp
next
  case (2 y)
  then show ?case by simp
next
  case (3 y z zs)
  then show ?case by (simp add: split_nl_NL)
qed

lemma Inr_projr:
  "\<not> isl x \<Longrightarrow> x = Inr (projr x)"
  by (cases x) simp_all

text \<open>The delegate and the section of one model, line by line, when nothing throws.\<close>

lemma ModelDelegate_toTS_ok:
  assumes "find (\<lambda>mp. Mapping.model mp = OutputType.name ot) (mappings d) = Some mp"
      and "mapE (\<lambda>(a, v). ModelDelegate_method h (OutputType.name ot) mp
                            (map_of (modelMap d) (OutputType.name ot)) a)
             (ModelDelegate_actions mp) = Inr methods"
  shows "ModelDelegate_toTS h d ot
           = Inr (join NL [''export interface '' @ OutputType.name ot @ ''Delegate {'',
                           indent h (join NL methods) tab,
                           ModelDelegate_count h (OutputType.name ot),
                           ''}'',
                           [],
                           clientClassHead (OutputType.name ot),
                           indent h (join NL (map (ModelDelegate_accessor h)
                                                (filter isRelation (OutputType.fields ot)))) 2,
                           clientClassTail])"
  using assms by (simp add: ModelDelegate_toTS_def Let_def)


lemma Model_toTS_Inr:
  assumes "Model_toTS h acts d m \<sigma> = (\<sigma>', Inr t)"
  shows "\<exists>ot v dl gens texts a b c e f g.
           map_of (outputTypeMap d) (Model.name m) = Some ot
         \<and> Model_valueType h m = Inr v
         \<and> ModelDelegate_toTS h d ot = Inr dl
         \<and> Model_argsTypes acts d (find (\<lambda>mp. Mapping.model mp = Model.name m) (mappings d)) m
             = Inr gens
         \<and> map_TS h gens \<sigma> = (\<sigma>', Inr texts)
         \<and> t = a @ v @ b @ Model_selectType h m ot @ c @ Model_includeType h m ot @ e
               @ PayloadType_toTS h ot @ f @ dl @ g @ join NL texts @ NL"
proof -
  from assms obtain ot v dl gens texts where
    1: "map_of (outputTypeMap d) (Model.name m) = Some ot" and
    2: "Model_valueType h m = Inr v" and
    3: "ModelDelegate_toTS h d ot = Inr dl" and
    4: "Model_argsTypes acts d (find (\<lambda>mp. Mapping.model mp = Model.name m) (mappings d)) m
          = Inr gens" and
    5: "map_TS h gens \<sigma> = (\<sigma>', Inr texts)" and
    6: "t = (NL @ ''/**'' @ NL @ '' * Model '' @ Model.name m @ NL @ '' */'' @ NL @ NL)
            @ v @ (NL @ NL) @ Model_selectType h m ot @ NL @ Model_includeType h m ot @ NL
            @ PayloadType_toTS h ot @ (NL @ NL) @ dl
            @ (NL @ NL @ ''// Custom InputTypes'' @ NL) @ join NL texts @ NL"
    by (auto simp: Model_toTS_def Let_def split: option.splits sum.splits prod.splits)
  show ?thesis
    using 1 2 3 4 5 6 by blast
qed


lemma Model_toTS_ok:
  assumes "map_of (outputTypeMap d) (Model.name m) = Some ot"
      and "Model_valueType h m = Inr v"
      and "ModelDelegate_toTS h d ot = Inr dl"
      and "Model_argsTypes acts d (find (\<lambda>mp. Mapping.model mp = Model.name m) (mappings d)) m
             = Inr gens"
      and "map_TS h gens \<sigma> = (\<sigma>', Inr texts)"
  shows "Model_toTS h acts d m \<sigma>
           = (\<sigma>', Inr (join NL [[], ''/**'', '' * Model '' @ Model.name m, '' */'', [], v, [],
                                 Model_selectType h m ot, Model_includeType h m ot,
                                 PayloadType_toTS h ot, [], dl, [],
                                 ''// Custom InputTypes'', join NL texts, []]))"
  using assms by (simp add: Model_toTS_def Let_def)

lemma not_isl_Inr:
  "\<not> isl x \<Longrightarrow> \<exists>y. x = Inr y"
  by (cases x) simp_all

text \<open>
  The sample schema. The declaration line of the input type \<open>PostWhereInput\<close> is none of
  the fixed lines of the header and of a model's section, and no line of any generated
  piece of the two sections.
\<close>

lemma sample_lines:
  "''export type PostWhereInput = {'' \<noteq> []"
  "''export type PostWhereInput = {'' \<notin> set (split_nl [])"
  "''export type PostWhereInput = {'' \<notin> set (split_nl ''}'')"
  "''export type PostWhereInput = {'' \<notin> set (split_nl ''/**'')"
  "''export type PostWhereInput = {'' \<notin> set (split_nl '' */'')"
  "''export type PostWhereInput = {'' \<notin> set (split_nl ''**/'')"
  "''export type PostWhereInput = {'' \<notin> set (split_nl ''// Custom InputTypes'')"
  "''export type PostWhereInput = {'' \<notin> set (split_nl ''// header'')"
  "''export type PostWhereInput = {'' \<notin> set (split_nl '' * Client'')"
  "''export type PostWhereInput = {'' \<notin> set (split_nl '' * Enums'')"
  "''export type PostWhereInput = {'' \<notin> set (split_nl ''// Based on'')"
  "''export type PostWhereInput = {''
     \<notin> set (split_nl ''export declare class PrismaClient {}'')"
  "''export type PostWhereInput = {''
     \<notin> set (split_nl
           ''// https://github.com/microsoft/TypeScript/issues/3192#issuecomment-261720275'')"
  "''export type PostWhereInput = {''
     \<notin> set (split_nl (enumsSection sample_helpers sample_dmmf))"
  "''export type PostWhereInput = {'' \<notin> set (split_nl clientClassTail)"
  by code_simp+

lemma sample_Post_parts:
  "map_of (outputTypeMap sample_dmmf) (Model.name sample_Post) = Some sample_PostType"
  "find (\<lambda>mp. Mapping.model mp = Model.name sample_Post) (mappings sample_dmmf)
     = Some sample_PostMapping"
  "find (\<lambda>mp. Mapping.model mp = OutputType.name sample_PostType) (mappings sample_dmmf)
     = Some sample_PostMapping"
  "Model_argsTypes sample_ModelAction sample_dmmf (Some sample_PostMapping) sample_Post
     = Inr [ArgsType [0] sample_Post (Some ''findMany''),
            MinimalArgsType [0] sample_Post (Some ''updateMany''),
            ArgsType [] sample_Post None]"
  "\<not> isl (Model_valueType sample_helpers sample_Post)"
  "\<not> isl (mapE (\<lambda>(a, v). ModelDelegate_method sample_helpers (OutputType.name sample_PostType)
                          sample_PostMapping
                          (map_of (modelMap sample_dmmf) (OutputType.name sample_PostType)) a)
             (ModelDelegate_actions sample_PostMapping))"
  by code_simp+

lemma sample_Post_lines:
  "''export type PostWhereInput = {''
     \<notin> set (split_nl ('' * Model '' @ Model.name sample_Post))"
  "''export type PostWhereInput = {''
     \<notin> set (split_nl (projr (Model_valueType sample_helpers sample_Post)))"
  "''export type PostWhereInput = {''
     \<notin> set (split_nl (Model_selectType sample_helpers sample_Post sample_PostType))"
  "''export type PostWhereInput = {''
     \<notin> set (split_nl (Model_includeType sample_helpers sample_Post sample_PostType))"
  "''export type PostWhereInput = {''
     \<notin> set (split_nl (PayloadType_toTS sample_helpers sample_PostType))"
  "''export type PostWhereInput = {''
     \<notin> set (split_nl (''export interface '' @ OutputType.name sample_PostType @ ''Delegate {''))"
  "''export type PostWhereInput = {''
     \<notin> set (split_nl (indent sample_helpers
           (join NL (projr (mapE (\<lambda>(a, v). ModelDelegate_method sample_helpers
                                      (OutputType.name sample_PostType) sample_PostMapping
                                      (map_of (modelMap sample_dmmf)
                                         (OutputType.name sample_PostType)) a)
                             (ModelDelegate_actions sample_PostMapping)))) tab))"
  "''export type PostWhereInput = {''
     \<notin> set (split_nl (ModelDelegate_count sample_helpers (OutputType.name sample_PostType)))"
  "''export type PostWhereInput = {''
     \<notin> set (split_nl (clientClassHead (OutputType.name sample_PostType)))"
  "''export type PostWhereInput = {''
     \<notin> set (split_nl (indent sample_helpers
           (join NL (map (ModelDelegate_accessor sample_helpers)
                       (filter isRelation (OutputType.fields sample_PostType)))) 2))"
  by code_simp+

lemma sample_Post_delegate:
  "\<exists>dl. ModelDelegate_toTS sample_helpers sample_dmmf sample_PostType = Inr dl
        \<and> ''export type PostWhereInput = {'' \<notin> set (split_nl dl)"
proof -
  note d = ModelDelegate_toTS_ok [OF sample_Post_parts(3) Inr_projr [OF sample_Post_parts(6)]]
  have "list_all (\<lambda>t. ''export type PostWhereInput = {'' \<notin> set (split_nl t))
          [''export interface '' @ OutputType.name sample_PostType @ ''Delegate {'',
           indent sample_helpers
             (join NL (projr (mapE (\<lambda>(a, v). ModelDelegate_method sample_helpers
                                        (OutputType.name sample_PostType) sample_PostMapping
                                        (map_of (modelMap sample_dmmf)
                                           (OutputType.name sample_PostType)) a)
                               (ModelDelegate_actions sample_PostMapping)))) tab,
           ModelDelegate_count sample_helpers (OutputType.name sample_PostType),
           ''}'',
           [],
           clientClassHead (OutputType.name sample_PostType),
           indent sample_helpers
             (join NL (map (ModelDelegate_accessor sample_helpers)
                         (filter isRelation (OutputType.fields sample_PostType)))) 2,
           clientClassTail]"
    by (simp only: list.pred_inject, intro conjI TrueI) (rule sample_lines sample_Post_lines)+
  then have "''export type PostWhereInput = {'' \<notin> set (split_nl (join NL
          [''export interface '' @ OutputType.name sample_PostType @ ''Delegate {'',
           indent sample_helpers
             (join NL (projr (mapE (\<lambda>(a, v). ModelDelegate_method sample_helpers
                                        (OutputType.name sample_PostType) sample_PostMapping
                                        (map_of (modelMap sample_dmmf)
                                           (OutputType.name sample_PostType)) a)
                               (ModelDelegate_actions sample_PostMapping)))) tab,
           ModelDelegate_count sample_helpers (OutputType.name sample_PostType),
           ''}'',
           [],
           clientClassHead (OutputType.name sample_PostType),
           indent sample_helpers
             (join NL (map (ModelDelegate_accessor sample_helpers)
                         (filter isRelation (OutputType.fields sample_PostType)))) 2,
           clientClassTail]))"
    by (rule notin_join [OF sample_lines(1)])
  with d show ?thesis
    by (intro exI conjI)
qed

lemma sample_Post_argsTexts:
  "\<not> isl (snd (map_TS sample_helpers
                  [ArgsType [0] sample_Post (Some ''findMany''),
                   MinimalArgsType [0] sample_Post (Some ''updateMany''),
                   ArgsType [] sample_Post None] sample_store))"
  "sublist ''where?: PostWhereInput | null''
     (hd (projr (snd (map_TS sample_helpers
                  [ArgsType [0] sample_Post (Some ''findMany''),
                   MinimalArgsType [0] sample_Post (Some ''updateMany''),
                   ArgsType [] sample_Post None] sample_store))))"
  "projr (snd (map_TS sample_helpers
                  [ArgsType [0] sample_Post (Some ''findMany''),
                   MinimalArgsType [0] sample_Post (Some ''updateMany''),
                   ArgsType [] sample_Post None] sample_store)) \<noteq> []"
  "list_all (\<lambda>t. ''export type PostWhereInput = {'' \<notin> set (split_nl t))
     (projr (snd (map_TS sample_helpers
                  [ArgsType [0] sample_Post (Some ''findMany''),
                   MinimalArgsType [0] sample_Post (Some ''updateMany''),
                   ArgsType [] sample_Post None] sample_store)))"
  by code_simp+

lemma sample_User_parts:
  "map_of (outputTypeMap sample_dmmf) (Model.name sample_User) = Some sample_UserType"
  "find (\<lambda>mp. Mapping.model mp = Model.name sample_User) (mappings sample_dmmf)
     = Some sample_UserMapping"
  "find (\<lambda>mp. Mapping.model mp = OutputType.name sample_UserType) (mappings sample_dmmf)
     = Some sample_UserMapping"
  "Model_argsTypes sample_ModelAction sample_dmmf (Some sample_UserMapping) sample_User
     = Inr [ArgsType [] sample_User (Some ''findOne''), ArgsType [] sample_User None]"
  "\<not> isl (Model_valueType sample_helpers sample_User)"
  "\<not> isl (mapE (\<lambda>(a, v). ModelDelegate_method sample_helpers (OutputType.name sample_UserType)
                          sample_UserMapping
                          (map_of (modelMap sample_dmmf) (OutputType.name sample_UserType)) a)
             (ModelDelegate_actions sample_UserMapping))"
  by code_simp+

lemma sample_User_lines:
  "''export type PostWhereInput = {''
     \<notin> set (split_nl ('' * Model '' @ Model.name sample_User))"
  "''export type PostWhereInput = {''
     \<notin> set (split_nl (projr (Model_valueType sample_helpers sample_User)))"
  "''export type PostWhereInput = {''
     \<notin> set (split_nl (Model_selectType sample_helpers sample_User sample_UserType))"
  "''export type PostWhereInput = {''
     \<notin> set (split_nl (Model_includeType sample_helpers sample_User sample_UserType))"
  "''export type PostWhereInput = {''
     \<notin> set (split_nl (PayloadType_toTS sample_helpers sample_UserType))"
  "''export type PostWhereInput = {''
     \<notin> set (split_nl (''export interface '' @ OutputType.name sample_UserType @ ''Delegate {''))"
  "''export type PostWhereInput = {''
     \<notin> set (split_nl (indent sample_helpers
           (join NL (projr (mapE (\<lambda>(a, v). ModelDelegate_method sample_helpers
                                      (OutputType.name sample_UserType) sample_UserMapping
                                      (map_of (modelMap sample_dmmf)
                                         (OutputType.name sample_UserType)) a)
                             (ModelDelegate_actions sample_UserMapping)))) tab))"
  "''export type PostWhereInput = {''
     \<notin> set (split_nl (ModelDelegate_count sample_helpers (OutputType.name sample_UserType)))"
  "''export type PostWhereInput = {''
     \<notin> set (split_nl (clientClassHead (OutputType.name sample_UserType)))"
  "''export type PostWhereInput = {''
     \<notin> set (split_nl (indent sample_helpers
           (join NL (map (ModelDelegate_accessor sample_helpers)
                       (filter isRelation (OutputType.fields sample_UserType)))) 2))"
  by code_simp+

lemma sample_User_delegate:
  "\<exists>dl. ModelDelegate_toTS sample_helpers sample_dmmf sample_UserType = Inr dl
        \<and> ''export type PostWhereInput = {'' \<notin> set (split_nl dl)"
proof -
  note d = ModelDelegate_toTS_ok [OF sample_User_parts(3) Inr_projr [OF sample_User_parts(6)]]
  have "list_all (\<lambda>t. ''export type PostWhereInput = {'' \<notin> set (split_nl t))
          [''export interface '' @ OutputType.name sample_UserType @ ''Delegate {'',
           indent sample_helpers
             (join NL (projr (mapE (\<lambda>(a, v). ModelDelegate_method sample_helpers
                                        (OutputType.name sample_UserType) sample_UserMapping
                                        (map_of (modelMap sample_dmmf)
                                           (OutputType.name sample_UserType)) a)
                               (ModelDelegate_actions sample_UserMapping)))) tab,
           ModelDelegate_count sample_helpers (OutputType.name sample_UserType),
           ''}'',
           [],
           clientClassHead (OutputType.name sample_UserType),
           indent sample_helpers
             (join NL (map (ModelDelegate_accessor sample_helpers)
                         (filter isRelation (OutputType.fields sample_UserType)))) 2,
           clientClassTail]"
    by (simp only: list.pred_inject, intro conjI TrueI) (rule sample_lines sample_User_lines)+
  then have "''export type PostWhereInput = {'' \<notin> set (split_nl (join NL
          [''export interface '' @ OutputType.name sample_UserType @ ''Delegate {'',
           indent sample_helpers
             (join NL (projr (mapE (\<lambda>(a, v). ModelDelegate_method sample_helpers
                                        (OutputType.name sample_UserType) sample_UserMapping
                                        (map_of (modelMap sample_dmmf)
                                           (OutputType.name sample_UserType)) a)
                               (ModelDelegate_actions sample_UserMapping)))) tab,
           ModelDelegate_count sample_helpers (OutputType.name sample_UserType),
           ''}'',
           [],
           clientClassHead (OutputType.name sample_UserType),
           indent sample_helpers
             (join NL (map (ModelDelegate_accessor sample_helpers)
                         (filter isRelation (OutputType.fields sample_UserType)))) 2,
           clientClassTail]))"
    by (rule notin_join [OF sample_lines(1)])
  with d show ?thesis
    by (intro exI conjI)
qed

lemma sample_User_argsTexts:
  "map_TS sample_helpers
     [ArgsType [] sample_User (Some ''findOne''), ArgsType [] sample_User None] \<sigma>
   = (\<sigma>, snd (map_TS sample_helpers
                [ArgsType [] sample_User (Some ''findOne''), ArgsType [] sample_User None]
                sample_store))"
  by (simp add: ArgsType_toTS_def bothArgsOptional_def selectArg_def includeArg_def
        InputField_toTS_def InputField_jsdoc_def Let_def)

lemma sample_User_argsLines:
  "\<not> isl (snd (map_TS sample_helpers
                  [ArgsType [] sample_User (Some ''findOne''), ArgsType [] sample_User None]
                  sample_store))"
  "list_all (\<lambda>t. ''export type PostWhereInput = {'' \<notin> set (split_nl t))
     (projr (snd (map_TS sample_helpers
                  [ArgsType [] sample_User (Some ''findOne''), ArgsType [] sample_User None]
                  sample_store)))"
  by code_simp+

lemma sample_Post_section:
  "\<exists>\<sigma>1 t. Model_toTS sample_helpers sample_ModelAction sample_dmmf sample_Post sample_store
            = (\<sigma>1, Inr t)
          \<and> sublist ''where?: PostWhereInput | null'' t
          \<and> ''export type PostWhereInput = {'' \<notin> set (split_nl t)"
proof -
  let ?gens = "[ArgsType [0] sample_Post (Some ''findMany''),
                MinimalArgsType [0] sample_Post (Some ''updateMany''),
                ArgsType [] sample_Post None]"
  let ?N = "''export type PostWhereInput = {''"
  obtain v where v: "Model_valueType sample_helpers sample_Post = Inr v"
    using not_isl_Inr [OF sample_Post_parts(5)] by blast
  obtain dl where dl: "ModelDelegate_toTS sample_helpers sample_dmmf sample_PostType = Inr dl"
    and dl_lines: "?N \<notin> set (split_nl dl)"
    using sample_Post_delegate by blast
  obtain texts where texts: "snd (map_TS sample_helpers ?gens sample_store) = Inr texts"
    using not_isl_Inr [OF sample_Post_argsTexts(1)] by blast
  then have m: "map_TS sample_helpers ?gens sample_store
                  = (fst (map_TS sample_helpers ?gens sample_store), Inr texts)"
    by (metis prod.collapse)
  have g: "Model_argsTypes sample_ModelAction sample_dmmf
             (find (\<lambda>mp. Mapping.model mp = Model.name sample_Post) (mappings sample_dmmf))
             sample_Post = Inr ?gens"
    by (simp only: sample_Post_parts)
  note t = Model_toTS_ok [OF sample_Post_parts(1) v dl g m]
  note v_lines = sample_Post_lines(2) [unfolded v sum.sel]
  note texts_lines = notin_join [OF sample_lines(1) sample_Post_argsTexts(4) [unfolded texts sum.sel]]
  from texts sample_Post_argsTexts(3) have ne: "texts \<noteq> []"
    by simp
  from texts sample_Post_argsTexts(2) have hd: "sublist ''where?: PostWhereInput | null'' (hd texts)"
    by simp
  from ne have "hd texts \<in> set texts"
    by simp
  then have "sublist (hd texts) (join NL texts)"
    by (rule sublist_join)
  with hd have 1: "sublist ''where?: PostWhereInput | null'' (join NL texts)"
    by (rule sublist_order.order_trans)
  have "sublist (join NL texts)
     (join NL [[], ''/**'', '' * Model '' @ Model.name sample_Post, '' */'', [], v, [],
               Model_selectType sample_helpers sample_Post sample_PostType,
               Model_includeType sample_helpers sample_Post sample_PostType,
               PayloadType_toTS sample_helpers sample_PostType, [], dl, [],
               ''// Custom InputTypes'', join NL texts, []])"
    by (rule sublist_join) (simp only: list.set insert_iff simp_thms)
  with 1 have 2: "sublist ''where?: PostWhereInput | null''
     (join NL [[], ''/**'', '' * Model '' @ Model.name sample_Post, '' */'', [], v, [],
               Model_selectType sample_helpers sample_Post sample_PostType,
               Model_includeType sample_helpers sample_Post sample_PostType,
               PayloadType_toTS sample_helpers sample_PostType, [], dl, [],
               ''// Custom InputTypes'', join NL texts, []])"
    by (rule sublist_order.order_trans)
  have "list_all (\<lambda>t. ?N \<notin> set (split_nl t))
          [[], ''/**'', '' * Model '' @ Model.name sample_Post, '' */'', [], v, [],
           Model_selectType sample_helpers sample_Post sample_PostType,
           Model_includeType sample_helpers sample_Post sample_PostType,
           PayloadType_toTS sample_helpers sample_PostType, [], dl, [],
           ''// Custom InputTypes'', join NL texts, []]"
    by (simp only: list.pred_inject, intro conjI TrueI)
       (rule sample_lines sample_Post_lines v_lines dl_lines texts_lines)+
  then have 3: "?N \<notin> set (split_nl
     (join NL [[], ''/**'', '' * Model '' @ Model.name sample_Post, '' */'', [], v, [],
               Model_selectType sample_helpers sample_Post sample_PostType,
               Model_includeType sample_helpers sample_Post sample_PostType,
               PayloadType_toTS sample_helpers sample_PostType, [], dl, [],
               ''// Custom InputTypes'', join NL texts, []]))"
    by (rule notin_join [OF sample_lines(1)])
  from t 2 3 show ?thesis
    by (intro exI conjI)
qed

lemma sample_User_section:
  "\<exists>t. Model_toTS sample_helpers sample_ModelAction sample_dmmf sample_User \<sigma> = (\<sigma>, Inr t)
      \<and> ''export type PostWhereInput = {'' \<notin> set (split_nl t)"
proof -
  let ?gens = "[ArgsType [] sample_User (Some ''findOne''), ArgsType [] sample_User None]"
  let ?N = "''export type PostWhereInput = {''"
  obtain v where v: "Model_valueType sample_helpers sample_User = Inr v"
    using not_isl_Inr [OF sample_User_parts(5)] by blast
  obtain dl where dl: "ModelDelegate_toTS sample_helpers sample_dmmf sample_UserType = Inr dl"
    and dl_lines: "?N \<notin> set (split_nl dl)"
    using sample_User_delegate by blast
  obtain texts where texts: "snd (map_TS sample_helpers ?gens sample_store) = Inr texts"
    using not_isl_Inr [OF sample_User_argsLines(1)] by blast
  have m: "map_TS sample_helpers ?gens \<sigma> = (\<sigma>, Inr texts)"
    using sample_User_argsTexts [of \<sigma>] unfolding texts .
  have g: "Model_argsTypes sample_ModelAction sample_dmmf
             (find (\<lambda>mp. Mapping.model mp = Model.name sample_User) (mappings sample_dmmf))
             sample_User = Inr ?gens"
    by (simp only: sample_User_parts)
  note t = Model_toTS_ok [OF sample_User_parts(1) v dl g m]
  note v_lines = sample_User_lines(2) [unfolded v sum.sel]
  note texts_lines = notin_join [OF sample_lines(1) sample_User_argsLines(2) [unfolded texts sum.sel]]
  have "list_all (\<lambda>t. ?N \<notin> set (split_nl t))
          [[], ''/**'', '' * Model '' @ Model.name sample_User, '' */'', [], v, [],
           Model_selectType sample_helpers sample_User sample_UserType,
           Model_includeType sample_helpers sample_User sample_UserType,
           PayloadType_toTS sample_helpers sample_UserType, [], dl, [],
           ''// Custom InputTypes'', join NL texts, []]"
    by (simp only: list.pred_inject, intro conjI TrueI)
       (rule sample_lines sample_User_lines v_lines dl_lines texts_lines)+
  then have 3: "?N \<notin> set (split_nl
     (join NL [[], ''/**'', '' * Model '' @ Model.name sample_User, '' */'', [], v, [],
               Model_selectType sample_helpers sample_User sample_UserType,
               Model_includeType sample_helpers sample_User sample_UserType,
               PayloadType_toTS sample_helpers sample_UserType, [], dl, [],
               ''// Custom InputTypes'', join NL texts, []]))"
    by (rule notin_join [OF sample_lines(1)])
  from t 3 show ?thesis
    by (intro exI conjI)
qed

lemma sample_models:
  "\<exists>\<sigma>1 ms. modelsSection sample_helpers sample_ModelAction sample_dmmf sample_store
             = (\<sigma>1, Inr ms)
           \<and> sublist ''where?: PostWhereInput | null'' ms
           \<and> ''export type PostWhereInput = {'' \<notin> set (split_nl ms)"
proof -
  obtain \<sigma>1 t1 where
    p: "Model_toTS sample_helpers sample_ModelAction sample_dmmf sample_Post sample_store
          = (\<sigma>1, Inr t1)" and
    s: "sublist ''where?: PostWhereInput | null'' t1" and
    l1: "''export type PostWhereInput = {'' \<notin> set (split_nl t1)"
    using sample_Post_section by blast
  obtain t2 where
    u: "Model_toTS sample_helpers sample_ModelAction sample_dmmf sample_User \<sigma>1 = (\<sigma>1, Inr t2)"
    and l2: "''export type PostWhereInput = {'' \<notin> set (split_nl t2)"
    using sample_User_section by blast
  have m: "map snd (modelMap sample_dmmf) = [sample_Post, sample_User]"
    by (simp add: sample_dmmf_def)
  have 1: "modelsSection sample_helpers sample_ModelAction sample_dmmf sample_store
          = (\<sigma>1, Inr (join NL [t1, t2]))"
    by (simp add: modelsSection_def m p u)
  have 2: "sublist ''where?: PostWhereInput | null'' (join NL [t1, t2])"
    using s by (simp add: sublist_in_left)
  have "list_all (\<lambda>t. ''export type PostWhereInput = {'' \<notin> set (split_nl t)) [t1, t2]"
    by (simp only: list.pred_inject, intro conjI TrueI) (rule l1 l2)+
  then have 3: "''export type PostWhereInput = {'' \<notin> set (split_nl (join NL [t1, t2]))"
    by (rule notin_join [OF sample_lines(1)])
  from 1 2 3 show ?thesis
    by (intro exI conjI)
qed


lemma sample_inputs:
  "inputTypesSection sample_helpers sample_dmmf
     = Inr (NL @ ''export type PostWhereInput = {'' @ NL @ ''  title?: string | null'' @ NL
            @ ''  id?: number'' @ NL @ ''}'')"
  by code_simp


lemma map_Model_toTS_Inr:
  "map_Model_toTS h acts d ms \<sigma> = (\<sigma>', Inr ts) \<Longrightarrow>
   list_all2 (\<lambda>m t. \<exists>\<sigma>0 \<sigma>1. Model_toTS h acts d m \<sigma>0 = (\<sigma>1, Inr t)) ms ts"
proof (induction ms arbitrary: \<sigma> ts)
  case Nil
  then show ?case by simp
next
  case (Cons m ms)
  from Cons.prems obtain \<sigma>1 t rest where
    1: "Model_toTS h acts d m \<sigma> = (\<sigma>1, Inr t)" and
    2: "map_Model_toTS h acts d ms \<sigma>1 = (\<sigma>', Inr rest)" and
    3: "ts = t # rest"
    by (auto split: prod.splits sum.splits)
  from Cons.IH [OF 2] 1 3 show ?case by auto
qed

text \<open>
  Claim C9, as the assembler has it. A document that is emitted has the enum
  declarations, then the sections of the entities in the order of the schema, then the
  input-type declarations, then the batch-result shape. The section of an entity has its
  value type, its select shape, its include shape, its payload type and its delegate in
  that order, followed by the entity's argument types. A reference to an input object
  type is the bare name of that type, so the argument types of an entity refer by name
  to input types that are declared in the section after the entities.
\<close>

theorem document_order:
  assumes "TSClient_toTS h acts cc pc d \<sigma> = (\<sigma>', Inr doc)"
  shows "\<exists>ts inputs a b c e f.
           map_Model_toTS h acts d (map snd (modelMap d)) \<sigma> = (\<sigma>', Inr ts)
         \<and> list_all2 (\<lambda>m t. \<exists>\<sigma>0 \<sigma>1. Model_toTS h acts d m \<sigma>0 = (\<sigma>1, Inr t))
               (map snd (modelMap d)) ts
         \<and> inputTypesSection h d = Inr inputs
         \<and> doc = a @ enumsSection h d @ b @ join NL ts @ c @ inputs @ e
                   @ batchPayloadSection @ f
         \<and> (\<forall>m \<sigma>0 \<sigma>1 t.
               Model_toTS h acts d m \<sigma>0 = (\<sigma>1, Inr t) \<longrightarrow>
               (\<exists>ot v dl gens texts a b c e f g.
                   map_of (outputTypeMap d) (Model.name m) = Some ot
                 \<and> Model_valueType h m = Inr v
                 \<and> ModelDelegate_toTS h d ot = Inr dl
                 \<and> Model_argsTypes acts d
                       (find (\<lambda>mp. Mapping.model mp = Model.name m) (mappings d)) m = Inr gens
                 \<and> map_TS h gens \<sigma>0 = (\<sigma>1, Inr texts)
                 \<and> t = a @ v @ b @ Model_selectType h m ot @ c @ Model_includeType h m ot @ e
                       @ PayloadType_toTS h ot @ f @ dl @ g @ join NL texts @ NL))
         \<and> (\<forall>n k l r nl.
               InputField_candidate h False (SchemaArgInputType (TypeObject n) k l r nl)
               = TsName n)"
proof -
  from assms obtain clientClass ts inputs where
    1: "pc = Inr clientClass" and
    2: "map_Model_toTS h acts d (map snd (modelMap d)) \<sigma> = (\<sigma>', Inr ts)" and
    3: "inputTypesSection h d = Inr inputs" and
    4: "doc = (cc @ NL @ NL @ ''/**'' @ NL @ '' * Client'' @ NL @ ''**/'' @ NL @ NL
               @ clientClass @ NL @ NL @ NL @ NL @ ''/**'' @ NL @ '' * Enums'' @ NL @ '' */''
               @ NL @ NL @ ''// Based on'' @ NL
               @ ''// https://github.com/microsoft/TypeScript/issues/3192#issuecomment-261720275''
               @ NL @ NL)
              @ enumsSection h d @ (NL @ NL) @ join NL ts
              @ (NL @ NL @ ''/**'' @ NL @ '' * Deep Input Types'' @ NL @ '' */'' @ NL @ NL)
              @ inputs @ (NL @ NL) @ batchPayloadSection
              @ (NL @ NL @ ''/**'' @ NL @ '' * DMMF'' @ NL @ '' */'' @ NL
                 @ ''export declare const dmmf: DMMF.Document;'' @ NL @ ''export {};'' @ NL)"
    by (auto simp: TSClient_toTS_def modelsSection_def split: sum.splits prod.splits)
  have 5: "\<forall>m \<sigma>0 \<sigma>1 t.
               Model_toTS h acts d m \<sigma>0 = (\<sigma>1, Inr t) \<longrightarrow>
               (\<exists>ot v dl gens texts a b c e f g.
                   map_of (outputTypeMap d) (Model.name m) = Some ot
                 \<and> Model_valueType h m = Inr v
                 \<and> ModelDelegate_toTS h d ot = Inr dl
                 \<and> Model_argsTypes acts d
                       (find (\<lambda>mp. Mapping.model mp = Model.name m) (mappings d)) m = Inr gens
                 \<and> map_TS h gens \<sigma>0 = (\<sigma>1, Inr texts)
                 \<and> t = a @ v @ b @ Model_selectType h m ot @ c @ Model_includeType h m ot @ e
                       @ PayloadType_toTS h ot @ f @ dl @ g @ join NL texts @ NL)"
    by (intro allI impI) (rule Model_toTS_Inr)
  have 6: "\<forall>n k l r nl.
               InputField_candidate h False (SchemaArgInputType (TypeObject n) k l r nl)
               = TsName n"
    by (simp add: InputField_candidate_def)
  show ?thesis
    by (intro exI conjI) (rule 2 map_Model_toTS_Inr [OF 2] 3 4 5 6)+
qed


text \<open>The document for the sample schema.\<close>

lemma sample_document:
  "\<exists>\<sigma>1 ms. TSClient_toTS sample_helpers sample_ModelAction ''// header''
            (Inr ''export declare class PrismaClient {}'') sample_dmmf sample_store
          = (\<sigma>1, Inr (join NL [''// header'', [], ''/**'', '' * Client'', ''**/'', [],
                                ''export declare class PrismaClient {}'', [], [], [], ''/**'',
                                '' * Enums'', '' */'', [], ''// Based on'',
               ''// https://github.com/microsoft/TypeScript/issues/3192#issuecomment-261720275'',
                                [], enumsSection sample_helpers sample_dmmf, [], ms]
               @ NL @ NL @ ''/**'' @ NL @ '' * Deep Input Types'' @ NL @ '' */'' @ NL @ NL
               @ (NL @ ''export type PostWhereInput = {'' @ NL @ ''  title?: string | null'' @ NL
                  @ ''  id?: number'' @ NL @ ''}'')
               @ NL @ NL @ batchPayloadSection @ NL @ NL @ ''/**'' @ NL @ '' * DMMF'' @ NL
               @ '' */'' @ NL @ ''export declare const dmmf: DMMF.Document;'' @ NL
               @ ''export {};'' @ NL))
          \<and> modelsSection sample_helpers sample_ModelAction sample_dmmf sample_store
              = (\<sigma>1, Inr ms)
          \<and> sublist ''where?: PostWhereInput | null'' ms
          \<and> ''export type PostWhereInput = {''
              \<notin> set (split_nl
                    (join NL [''// header'', [], ''/**'', '' * Client'', ''**/'', [],
                              ''export declare class PrismaClient {}'', [], [], [], ''/**'',
                              '' * Enums'', '' */'', [], ''// Based on'',
               ''// https://github.com/microsoft/TypeScript/issues/3192#issuecomment-261720275'',
                              [], enumsSection sample_helpers sample_dmmf, [], ms]))"
proof -
  obtain \<sigma>1 ms where
    m: "modelsSection sample_helpers sample_ModelAction sample_dmmf sample_store = (\<sigma>1, Inr ms)"
    and s: "sublist ''where?: PostWhereInput | null'' ms"
    and l: "''export type PostWhereInput = {'' \<notin> set (split_nl ms)"
    using sample_models by blast
  have 1: "TSClient_toTS sample_helpers sample_ModelAction ''// header''
            (Inr ''export declare class PrismaClient {}'') sample_dmmf sample_store
          = (\<sigma>1, Inr (join NL [''// header'', [], ''/**'', '' * Client'', ''**/'', [],
                                ''export declare class PrismaClient {}'', [], [], [], ''/**'',
                                '' * Enums'', '' */'', [], ''// Based on'',
               ''// https://github.com/microsoft/TypeScript/issues/3192#issuecomment-261720275'',
                                [], enumsSection sample_helpers sample_dmmf, [], ms]
               @ NL @ NL @ ''/**'' @ NL @ '' * Deep Input Types'' @ NL @ '' */'' @ NL @ NL
               @ (NL @ ''export type PostWhereInput = {'' @ NL @ ''  title?: string | null'' @ NL
                  @ ''  id?: number'' @ NL @ ''}'')
               @ NL @ NL @ batchPayloadSection @ NL @ NL @ ''/**'' @ NL @ '' * DMMF'' @ NL
               @ '' */'' @ NL @ ''export declare const dmmf: DMMF.Document;'' @ NL
               @ ''export {};'' @ NL))"
    unfolding TSClient_toTS_def m sample_inputs by simp
  have "list_all (\<lambda>t. ''export type PostWhereInput = {'' \<notin> set (split_nl t))
          [''// header'', [], ''/**'', '' * Client'', ''**/'', [],
           ''export declare class PrismaClient {}'', [], [], [], ''/**'',
           '' * Enums'', '' */'', [], ''// Based on'',
           ''// https://github.com/microsoft/TypeScript/issues/3192#issuecomment-261720275'',
           [], enumsSection sample_helpers sample_dmmf, [], ms]"
    by (simp only: list.pred_inject, intro conjI TrueI) (rule sample_lines l)+
  then have 2: "''export type PostWhereInput = {''
              \<notin> set (split_nl
                    (join NL [''// header'', [], ''/**'', '' * Client'', ''**/'', [],
                              ''export declare class PrismaClient {}'', [], [], [], ''/**'',
                              '' * Enums'', '' */'', [], ''// Based on'',
               ''// https://github.com/microsoft/TypeScript/issues/3192#issuecomment-261720275'',
                              [], enumsSection sample_helpers sample_dmmf, [], ms]))"
    by (rule notin_join [OF sample_lines(1)])
  from 1 m s 2 show ?thesis
    by (intro exI conjI)
qed

text \<open>
  Claim C9 as stated fails on the sample schema: the section of the entities refers to
  \<open>PostWhereInput\<close>, whose declaration is no line of the document up to the end of that
  section and is the first declaration of the input-type section that follows.
\<close>

theorem document_order_counterexample:
  "snd (TSClient_toTS sample_helpers sample_ModelAction ''// header''
          (Inr ''export declare class PrismaClient {}'') sample_dmmf sample_store)
     = Inr (join NL [''// header'', [], ''/**'', '' * Client'', ''**/'', [],
                     ''export declare class PrismaClient {}'', [], [], [], ''/**'',
                     '' * Enums'', '' */'', [], ''// Based on'',
               ''// https://github.com/microsoft/TypeScript/issues/3192#issuecomment-261720275'',
                     [], enumsSection sample_helpers sample_dmmf, [],
                     projr (snd (modelsSection sample_helpers sample_ModelAction sample_dmmf
                                   sample_store))]
            @ NL @ NL @ ''/**'' @ NL @ '' * Deep Input Types'' @ NL @ '' */'' @ NL @ NL
            @ projr (inputTypesSection sample_helpers sample_dmmf)
            @ NL @ NL @ batchPayloadSection @ NL @ NL @ ''/**'' @ NL @ '' * DMMF'' @ NL
            @ '' */'' @ NL @ ''export declare const dmmf: DMMF.Document;'' @ NL
            @ ''export {};'' @ NL)
   \<and> sublist ''where?: PostWhereInput | null''
        (projr (snd (modelsSection sample_helpers sample_ModelAction sample_dmmf sample_store)))
   \<and> ''export type PostWhereInput = {''
        \<notin> set (split_nl
              (join NL [''// header'', [], ''/**'', '' * Client'', ''**/'', [],
                        ''export declare class PrismaClient {}'', [], [], [], ''/**'',
                        '' * Enums'', '' */'', [], ''// Based on'',
               ''// https://github.com/microsoft/TypeScript/issues/3192#issuecomment-261720275'',
                        [], enumsSection sample_helpers sample_dmmf, [],
                        projr (snd (modelsSection sample_helpers sample_ModelAction sample_dmmf
                                      sample_store))]))
   \<and> projr (inputTypesSection sample_helpers sample_dmmf)
       = NL @ ''export type PostWhereInput = {'' @ NL @ ''  title?: string | null'' @ NL
         @ ''  id?: number'' @ NL @ ''}''"
proof -
  obtain \<sigma>1 ms where
    d: "TSClient_toTS sample_helpers sample_ModelAction ''// header''
            (Inr ''export declare class PrismaClient {}'') sample_dmmf sample_store
          = (\<sigma>1, Inr (join NL [''// header'', [], ''/**'', '' * Client'', ''**/'', [],
                                ''export declare class PrismaClient {}'', [], [], [], ''/**'',
                                '' * Enums'', '' */'', [], ''// Based on'',
               ''// https://github.com/microsoft/TypeScript/issues/3192#issuecomment-261720275'',
                                [], enumsSection sample_helpers sample_dmmf, [], ms]
               @ NL @ NL @ ''/**'' @ NL @ '' * Deep Input Types'' @ NL @ '' */'' @ NL @ NL
               @ (NL @ ''export type PostWhereInput = {'' @ NL @ ''  title?: string | null'' @ NL
                  @ ''  id?: number'' @ NL @ ''}'')
               @ NL @ NL @ batchPayloadSection @ NL @ NL @ ''/**'' @ NL @ '' * DMMF'' @ NL
               @ '' */'' @ NL @ ''export declare const dmmf: DMMF.Document;'' @ NL
               @ ''export {};'' @ NL))" and
    m: "modelsSection sample_helpers sample_ModelAction sample_dmmf sample_store = (\<sigma>1, Inr ms)"
    and s: "sublist ''where?: PostWhereInput | null'' ms"
    and l: "''export type PostWhereInput = {''
              \<notin> set (split_nl
                    (join NL [''// header'', [], ''/**'', '' * Client'', ''**/'', [],
                              ''export declare class PrismaClient {}'', [], [], [], ''/**'',
                              '' * Enums'', '' */'', [], ''// Based on'',
               ''// https://github.com/microsoft/TypeScript/issues/3192#issuecomment-261720275'',
                              [], enumsSection sample_helpers sample_dmmf, [], ms]))"
    using sample_document by blast
  show ?thesis
    unfolding d m sample_inputs snd_conv sum.sel
    using s l by (intro conjI refl)
qed


text \<open>The sample schema is emitted, in the order of claim C9.\<close>

theorem document_order_witness:
  "\<not> isl (snd (TSClient_toTS sample_helpers sample_ModelAction ''// header''
                  (Inr ''export declare class PrismaClient {}'') sample_dmmf sample_store))
   \<and> (\<exists>ts a b c e f.
          projr (snd (TSClient_toTS sample_helpers sample_ModelAction ''// header''
                        (Inr ''export declare class PrismaClient {}'') sample_dmmf sample_store))
          = a @ enumsSection sample_helpers sample_dmmf @ b @ join NL ts @ c
            @ projr (inputTypesSection sample_helpers sample_dmmf) @ e
            @ batchPayloadSection @ f)
   \<and> (\<exists>\<sigma>1 t ot v dl a b c e f g.
          Model_toTS sample_helpers sample_ModelAction sample_dmmf sample_Post sample_store
            = (\<sigma>1, Inr t)
        \<and> Model_valueType sample_helpers sample_Post = Inr v
        \<and> ModelDelegate_toTS sample_helpers sample_dmmf ot = Inr dl
        \<and> t = a @ v @ b @ Model_selectType sample_helpers sample_Post ot @ c
              @ Model_includeType sample_helpers sample_Post ot @ e
              @ PayloadType_toTS sample_helpers ot @ f @ dl @ g)"
proof -
  let ?D = "TSClient_toTS sample_helpers sample_ModelAction ''// header''
              (Inr ''export declare class PrismaClient {}'') sample_dmmf sample_store"
  obtain \<sigma>1 doc where d: "?D = (\<sigma>1, Inr doc)"
    using sample_document by blast
  obtain \<sigma>2 t where p:
    "Model_toTS sample_helpers sample_ModelAction sample_dmmf sample_Post sample_store
       = (\<sigma>2, Inr t)"
    using sample_Post_section by blast
  from document_order [OF d] obtain ts inputs a b c e f where
    i: "inputTypesSection sample_helpers sample_dmmf = Inr inputs" and
    o: "doc = a @ enumsSection sample_helpers sample_dmmf @ b @ join NL ts @ c @ inputs @ e
              @ batchPayloadSection @ f" and
    q: "\<forall>m \<sigma>0 \<sigma>1 t.
               Model_toTS sample_helpers sample_ModelAction sample_dmmf m \<sigma>0 = (\<sigma>1, Inr t) \<longrightarrow>
               (\<exists>ot v dl gens texts a b c e f g.
                   map_of (outputTypeMap sample_dmmf) (Model.name m) = Some ot
                 \<and> Model_valueType sample_helpers m = Inr v
                 \<and> ModelDelegate_toTS sample_helpers sample_dmmf ot = Inr dl
                 \<and> Model_argsTypes sample_ModelAction sample_dmmf
                       (find (\<lambda>mp. Mapping.model mp = Model.name m) (mappings sample_dmmf)) m
                     = Inr gens
                 \<and> map_TS sample_helpers gens \<sigma>0 = (\<sigma>1, Inr texts)
                 \<and> t = a @ v @ b @ Model_selectType sample_helpers m ot @ c
                       @ Model_includeType sample_helpers m ot @ e
                       @ PayloadType_toTS sample_helpers ot @ f @ dl @ g @ join NL texts @ NL)"
    by blast
  from q [rule_format, OF p] obtain ot v dl texts a' b' c' e' f' g' where
    v: "Model_valueType sample_helpers sample_Post = Inr v" and
    l: "ModelDelegate_toTS sample_helpers sample_dmmf ot = Inr dl" and
    t: "t = a' @ v @ b' @ Model_selectType sample_helpers sample_Post ot @ c'
              @ Model_includeType sample_helpers sample_Post ot @ e'
              @ PayloadType_toTS sample_helpers ot @ f' @ dl @ g' @ join NL texts @ NL"
    by (elim exE conjE) (rule that, assumption+)
  have 1: "\<not> isl (snd ?D)"
    unfolding d by simp
  have 2: "\<exists>ts a b c e f.
          projr (snd ?D)
          = a @ enumsSection sample_helpers sample_dmmf @ b @ join NL ts @ c
            @ projr (inputTypesSection sample_helpers sample_dmmf) @ e
            @ batchPayloadSection @ f"
    unfolding d i snd_conv sum.sel using o by (intro exI)
  have 3: "\<exists>\<sigma>1 t ot v dl a b c e f g.
          Model_toTS sample_helpers sample_ModelAction sample_dmmf sample_Post sample_store
            = (\<sigma>1, Inr t)
        \<and> Model_valueType sample_helpers sample_Post = Inr v
        \<and> ModelDelegate_toTS sample_helpers sample_dmmf ot = Inr dl
        \<and> t = a @ v @ b @ Model_selectType sample_helpers sample_Post ot @ c
              @ Model_includeType sample_helpers sample_Post ot @ e
              @ PayloadType_toTS sample_helpers ot @ f @ dl @ g"
    using p v l t by (intro exI conjI)
  from 1 2 3 show ?thesis
    by (intro conjI)
qed

end
